theory Spec2Isabelle
  imports Complex_Main "HOL-Library.RBT" "HOL-Library.Char_ord" "HOL-Library.List_Lexorder"
begin

section \<open>Data model of osmdata.cpp\<close>

text \<open>
  \<^verbatim>\<open>osmid_t\<close> is a 64-bit signed integer (\<^verbatim>\<open>long long\<close>). The code compares and prints
  ids and never computes with them, so no wrap-around can occur; ids are modelled as \<open>int\<close>
  with the signed order.

  \<^verbatim>\<open>std::map <K, V>\<close> is a red-black tree iterated in ascending key order: \<open>('k, 'v) rbt\<close>,
  iterated through \<open>RBT.entries\<close>. \<^verbatim>\<open>std::set <K>\<close> is the same tree without values.
  \<^verbatim>\<open>std::string\<close> is \<open>string\<close>, ordered lexicographically by character code as
  \<^verbatim>\<open>std::string::operator<\<close> orders it.
\<close>

type_synonym osmid_t = int

type_synonym 'a std_set = "('a, unit) rbt"

definition set_insert :: "'a::linorder \<Rightarrow> 'a std_set \<Rightarrow> 'a std_set" where
  "set_insert x s = RBT.insert x () s"

definition set_elems :: "'a::linorder std_set \<Rightarrow> 'a list" where
  "set_elems s = RBT.keys s"

definition set_size :: "'a::linorder std_set \<Rightarrow> nat" where
  "set_size s = length (RBT.keys s)"

definition set_member :: "'a::linorder std_set \<Rightarrow> 'a \<Rightarrow> bool" where
  "set_member s x = (RBT.lookup s x \<noteq> None)"

text \<open>
  \<^verbatim>\<open>std::distance (s.begin (), s.find (key))\<close>: the position of \<open>key\<close> in the ascending
  order of the set; \<^verbatim>\<open>find\<close> returns \<^verbatim>\<open>end ()\<close> for a key that is not there, and the distance
  is then the size of the set.
\<close>

definition set_find_distance :: "'a::linorder std_set \<Rightarrow> 'a \<Rightarrow> nat" where
  "set_find_distance s key =
     (if set_member s key then length (takeWhile (\<lambda>x. x \<noteq> key) (set_elems s))
      else set_size s)"

record Node =
  n_lon :: real
  n_lat :: real
  n_key_val :: "(string, string) rbt"

record OneWay =
  w_nodes :: "osmid_t list"
  w_key_val :: "(string, string) rbt"

record Relation =
  r_id :: osmid_t
  r_ispoly :: bool
  r_ways :: "(osmid_t \<times> string) list"
  r_key_val :: "(string, string) rbt"

type_synonym Nodes = "(osmid_t, Node) rbt"
type_synonym Ways = "(osmid_t, OneWay) rbt"
type_synonym Relations = "Relation list"

record UniqueVals =
  k_point :: "string std_set"
  k_way :: "string std_set"
  k_rel :: "string std_set"

text \<open>
  What a call can end in besides a result. \<open>runtime_error\<close> is a thrown
  \<^verbatim>\<open>std::runtime_error\<close> with its message. \<open>undefined_behaviour\<close> is not an exception: it
  marks a step that C++ leaves undefined (a matrix write outside the matrix, \<^verbatim>\<open>front ()\<close>
  of an empty vector); the model stops there. \<open>StructuralMismatchError\<close>,
  \<open>UnknownKeyError\<close>, \<open>MissingNodeError\<close> (node id, way id) and \<open>UnclosedRingError\<close> (way id)
  are the failures the specification names for the helpers of \<^verbatim>\<open>cleanup.h\<close>,
  \<^verbatim>\<open>convert_osm_rcpp.h\<close> and \<^verbatim>\<open>trace_osm.h\<close>.
\<close>

datatype error =
    runtime_error string
  | undefined_behaviour
  | StructuralMismatchError string nat nat
  | UnknownKeyError string
  | MissingNodeError osmid_t osmid_t
  | UnclosedRingError osmid_t

subsection \<open>\<^verbatim>\<open>std::to_string\<close> on ids\<close>

definition digit_char :: "nat \<Rightarrow> char" where
  "digit_char d = char_of (48 + d)"

function to_string_nat :: "nat \<Rightarrow> string" where
  "to_string_nat n =
     (if n < 10 then [digit_char n] else to_string_nat (n div 10) @ [digit_char (n mod 10)])"
  by pat_completeness auto
termination
  by (relation "measure id") auto

definition to_string :: "osmid_t \<Rightarrow> string" where
  "to_string i = (if i < 0 then CHR ''-'' # to_string_nat (nat (- i)) else to_string_nat (nat i))"

subsection \<open>Character matrices and simple-feature values\<close>

text \<open>
  A cell of an \<^verbatim>\<open>Rcpp::CharacterMatrix\<close> is a string or \<^verbatim>\<open>NA_STRING\<close> (\<open>None\<close>). The matrix
  is kept as its list of rows, each of \<open>ncol\<close> cells. \<^verbatim>\<open>kv_mat (i, j) = v\<close> does no bounds
  check: outside the matrix it is undefined behaviour.
\<close>

type_synonym cell = "string option"
type_synonym kv_mat = "cell list list"

definition CharacterMatrix :: "nat \<Rightarrow> nat \<Rightarrow> cell \<Rightarrow> kv_mat" where
  "CharacterMatrix nrow ncol c = replicate nrow (replicate ncol c)"

definition NA_STRING :: cell where
  "NA_STRING = None"

definition mat_write :: "kv_mat \<Rightarrow> nat \<Rightarrow> nat \<Rightarrow> nat \<Rightarrow> cell \<Rightarrow> error + kv_mat" where
  "mat_write m ncol i j v =
     (if i < length m \<and> j < ncol then Inr (m[i := (m ! i)[j := v]])
      else Inl undefined_behaviour)"

text \<open>
  The table handed to \<^verbatim>\<open>restructure_kv_mat\<close> (a presentation helper of
  \<^verbatim>\<open>convert_osm_rcpp.h\<close>): the matrix with its \<^verbatim>\<open>dimnames\<close> and the flag of the call.
\<close>

record kv_frame =
  df_rownames :: "string list"
  df_colnames :: "string list"
  df_cells :: kv_mat
  df_flag :: bool

definition restructure_kv_mat :: "string list \<Rightarrow> string list \<Rightarrow> kv_mat \<Rightarrow> bool \<Rightarrow> kv_frame" where
  "restructure_kv_mat rn cn m b =
     \<lparr>df_rownames = rn, df_colnames = cn, df_cells = m, df_flag = b\<rparr>"

text \<open>
  A table in a slot of an \<^verbatim>\<open>Rcpp::List\<close> is \<^verbatim>\<open>NULL\<close> or a data frame. A variable of type
  \<^verbatim>\<open>Rcpp::DataFrame\<close> always holds a data frame: assigning it a value that does not inherit
  from \<^verbatim>\<open>data.frame\<close> converts the value with \<^verbatim>\<open>as.data.frame\<close>, and
  \<^verbatim>\<open>as.data.frame (NULL)\<close> is the data frame without columns and without rows (it comes
  from no call of \<^verbatim>\<open>restructure_kv_mat\<close>, and its flag is \<open>False\<close>).
\<close>

datatype r_table =
    R_NULL
  | data_frame kv_frame

definition empty_data_frame :: kv_frame where
  "empty_data_frame = \<lparr>df_rownames = [], df_colnames = [], df_cells = [], df_flag = False\<rparr>"

definition as_data_frame :: "r_table \<Rightarrow> kv_frame" where
  "as_data_frame x = (case x of R_NULL \<Rightarrow> empty_data_frame | data_frame df \<Rightarrow> df)"

text \<open>
  \<^verbatim>\<open>Rcpp::List x = v; x.attr ("class") = "data.frame"\<close>: a data frame is a list of that class
  already and stays as it is; \<^verbatim>\<open>NULL\<close> becomes the list without elements, which with the
  class is the data frame without columns.
\<close>

definition List_class_data_frame :: "r_table \<Rightarrow> kv_frame" where
  "List_class_data_frame v = (case v of R_NULL \<Rightarrow> empty_data_frame | data_frame df \<Rightarrow> df)"

text \<open>
  An element of an \<^verbatim>\<open>Rcpp::List\<close> of geometries: \<^verbatim>\<open>NULL\<close> as allocated, a point, a
  linestring matrix, or a polygon (a list of one matrix). \<open>'m\<close> is the coordinate matrix
  that \<^verbatim>\<open>trace_way_nmat\<close> builds.
\<close>

datatype 'm sfg =
    R_NilValue
  | POINT real real
  | LINESTRING 'm
  | POLYGON "'m list"

text \<open>
  The by-reference outputs of \<^verbatim>\<open>get_osm_nodes\<close> and \<^verbatim>\<open>get_osm_ways\<close>: the geometry list
  with its \<^verbatim>\<open>names\<close> and \<^verbatim>\<open>class\<close> attributes, and the data frame variable of the caller
  (\<open>None\<close> as long as the function has not assigned it, \<open>Some\<close> of the table once it has).
  The attributes \<^verbatim>\<open>n_empty\<close>, \<^verbatim>\<open>precision\<close>, \<^verbatim>\<open>bbox\<close> and \<^verbatim>\<open>crs\<close> are constants
  or passed through unchanged and are left out.
\<close>

record 'm sf_out =
  geoms :: "'m sfg list"
  geom_names :: "string list"
  geom_class :: "string list"
  kv_df :: "kv_frame option"

section \<open>\<^verbatim>\<open>get_osm_nodes\<close>\<close>

text \<open>
  The inner loop over one node's tags (lines 404 to 411): the column is the distance of the
  key in \<^verbatim>\<open>unique_vals.k_point\<close>, and the value is written to row \<open>count\<close>.
\<close>

fun node_kv_loop :: "string std_set \<Rightarrow> nat \<Rightarrow> nat \<Rightarrow> (string \<times> string) list \<Rightarrow> kv_mat
    \<Rightarrow> error + kv_mat" where
  "node_kv_loop ks ncol count [] m = Inr m"
| "node_kv_loop ks ncol count ((key, val) # kvs) m =
     (case mat_write m ncol count (set_find_distance ks key) (Some val) of
        Inl e \<Rightarrow> Inl e
      | Inr m' \<Rightarrow> node_kv_loop ks ncol count kvs m')"

text \<open>
  The loop over the node map (lines 396 to 413). Its state is the geometry list, the
  matrix, the names and \<open>count\<close>; a failure returns the state reached.
\<close>

record 'm nodes_state =
  ns_ptList :: "'m sfg list"
  ns_kv_mat :: kv_mat
  ns_ptnames :: "string list"
  ns_count :: nat

fun nodes_loop :: "string std_set \<Rightarrow> nat \<Rightarrow> (osmid_t \<times> Node) list \<Rightarrow> 'm nodes_state
    \<Rightarrow> error option \<times> 'm nodes_state" where
  "nodes_loop ks ncol [] st = (None, st)"
| "nodes_loop ks ncol ((nid, nd) # rest) st =
     (let st1 = st\<lparr>ns_ptList := (ns_ptList st)[ns_count st := POINT (n_lon nd) (n_lat nd)],
                   ns_ptnames := ns_ptnames st @ [to_string nid]\<rparr>
      in case node_kv_loop ks ncol (ns_count st) (RBT.entries (n_key_val nd)) (ns_kv_mat st) of
           Inl e \<Rightarrow> (Some e, st1)
         | Inr m' \<Rightarrow> nodes_loop ks ncol rest (st1\<lparr>ns_kv_mat := m', ns_count := ns_count st + 1\<rparr>))"

definition get_osm_nodes :: "'m sf_out \<Rightarrow> Nodes \<Rightarrow> UniqueVals \<Rightarrow> error option \<times> 'm sf_out" where
  "get_osm_nodes out nodes unique_vals =
     (let nrow = length (RBT.entries nodes); ncol = set_size (k_point unique_vals) in
      if length (geoms out) \<noteq> nrow
      then (Some (runtime_error ''points must have same size as nodes''), out)
      else
        (case nodes_loop (k_point unique_vals) ncol (RBT.entries nodes)
                \<lparr>ns_ptList = geoms out, ns_kv_mat = CharacterMatrix nrow ncol NA_STRING,
                 ns_ptnames = [], ns_count = 0\<rparr> of
           (Some e, st) \<Rightarrow> (Some e, out\<lparr>geoms := ns_ptList st\<rparr>)
         | (None, st) \<Rightarrow>
             (None, \<lparr>geoms = ns_ptList st, geom_names = ns_ptnames st,
                     geom_class = [''sfc_POINT'', ''sfc''],
                     kv_df = Some (restructure_kv_mat (ns_ptnames st)
                                     (set_elems (k_point unique_vals)) (ns_kv_mat st) False)\<rparr>)))"

section \<open>Helpers of \<^verbatim>\<open>convert_osm_rcpp.h\<close>, \<^verbatim>\<open>trace_osm.h\<close> and \<^verbatim>\<open>cleanup.h\<close>\<close>

text \<open>
  Modelled from the spec: \<^verbatim>\<open>get_value_mat_way\<close> and \<^verbatim>\<open>get_value_mat_rel\<close> are declared in
  \<^verbatim>\<open>convert_osm_rcpp.h\<close>, which is not among the sources. Section 4.2 of the specification:
  given one entity's tag map and the kind's key ordering, produce one attribute row with
  absent cells for every key not present on the entity; fail with \<open>UnknownKeyError\<close> if a
  tag key is not in the key set. The row is stored at position \<open>rowi\<close> of the matrix; a
  position outside the matrix is an unchecked write.
\<close>

definition attribute_row :: "string std_set \<Rightarrow> (string, string) rbt \<Rightarrow> error + cell list" where
  "attribute_row ks key_val =
     (case find (\<lambda>k. \<not> set_member ks k) (RBT.keys key_val) of
        Some k \<Rightarrow> Inl (UnknownKeyError k)
      | None \<Rightarrow> Inr (map (RBT.lookup key_val) (set_elems ks)))"

definition write_row :: "kv_mat \<Rightarrow> nat \<Rightarrow> cell list \<Rightarrow> error + kv_mat" where
  "write_row m rowi row = (if rowi < length m then Inr (m[rowi := row]) else Inl undefined_behaviour)"

definition get_value_mat_way :: "OneWay \<Rightarrow> UniqueVals \<Rightarrow> kv_mat \<Rightarrow> nat \<Rightarrow> error + kv_mat" where
  "get_value_mat_way w unique_vals m rowi =
     (case attribute_row (k_way unique_vals) (w_key_val w) of
        Inl e \<Rightarrow> Inl e
      | Inr row \<Rightarrow> write_row m rowi row)"

definition get_value_mat_rel :: "Relation \<Rightarrow> UniqueVals \<Rightarrow> kv_mat \<Rightarrow> nat \<Rightarrow> error + kv_mat" where
  "get_value_mat_rel r unique_vals m rowi =
     (case attribute_row (k_rel unique_vals) (r_key_val r) of
        Inl e \<Rightarrow> Inl e
      | Inr row \<Rightarrow> write_row m rowi row)"

type_synonym float_arr2 = "real list list"
type_synonym float_arr3 = "real list list list"
type_synonym string_arr2 = "string list list"
type_synonym string_arr3 = "string list list list"
type_synonym osmt_arr2 = "osmid_t list list"

text \<open>
  Modelled from the spec: \<^verbatim>\<open>check_geom_arrs\<close> and \<^verbatim>\<open>check_id_arr\<close> are declared in
  \<^verbatim>\<open>cleanup.h\<close>, which is not among the sources. Section 4.5 of the specification: the
  parallel sequences have equal length at the outer level and for every geometry; any
  violation fails with \<open>StructuralMismatchError\<close> naming the failing collection and the two
  lengths involved. \<open>None\<close> is a check that passed.
\<close>

definition same_length :: "string \<Rightarrow> 'a list \<Rightarrow> 'b list \<Rightarrow> error option" where
  "same_length nm xs ys =
     (if length xs = length ys then None
      else Some (StructuralMismatchError nm (length xs) (length ys)))"

fun first_error :: "error option list \<Rightarrow> error option" where
  "first_error [] = None"
| "first_error (None # es) = first_error es"
| "first_error (Some e # es) = Some e"

definition check_arr2 :: "string \<Rightarrow> 'a list list \<Rightarrow> 'b list list \<Rightarrow> error option" where
  "check_arr2 nm xss yss =
     (case same_length nm xss yss of
        Some e \<Rightarrow> Some e
      | None \<Rightarrow> first_error (map (\<lambda>(xs, ys). same_length nm xs ys) (zip xss yss)))"

definition check_arr3 :: "string \<Rightarrow> 'a list list list \<Rightarrow> 'b list list list \<Rightarrow> error option" where
  "check_arr3 nm xsss ysss =
     (case same_length nm xsss ysss of
        Some e \<Rightarrow> Some e
      | None \<Rightarrow> first_error (map (\<lambda>(xss, yss). check_arr2 nm xss yss) (zip xsss ysss)))"

definition check_geom_arrs :: "float_arr3 \<Rightarrow> float_arr3 \<Rightarrow> string_arr3 \<Rightarrow> error option" where
  "check_geom_arrs lon_arr lat_arr rowname_arr =
     (case check_arr3 ''lon/lat'' lon_arr lat_arr of
        Some e \<Rightarrow> Some e
      | None \<Rightarrow> check_arr3 ''lon/rowname'' lon_arr rowname_arr)"

definition check_id_arr :: "float_arr3 \<Rightarrow> 'i list list \<Rightarrow> error option" where
  "check_id_arr lon_arr id_vec = check_arr2 ''lon/id'' lon_arr id_vec"

text \<open>
  The arguments of \<^verbatim>\<open>convert_poly_linestring_to_Rcpp\<close> (declared in \<^verbatim>\<open>convert_osm_rcpp.h\<close>),
  kept as the emitted geometry collection together with its \<^verbatim>\<open>class\<close> attribute. \<open>'i\<close> is the
  type of the member ids: \<^verbatim>\<open>std::string\<close> for multipolygons, \<^verbatim>\<open>osmid_t\<close> for
  multilinestrings.
\<close>

record 'i sfc_multi =
  mg_lon :: float_arr3
  mg_lat :: float_arr3
  mg_rowname :: string_arr3
  mg_id :: "'i list list"
  mg_rel_id :: "string list"
  mg_type :: string
  mg_class :: "string list"

definition convert_poly_linestring_to_Rcpp ::
    "float_arr3 \<Rightarrow> float_arr3 \<Rightarrow> string_arr3 \<Rightarrow> 'i list list \<Rightarrow> string list \<Rightarrow> string
     \<Rightarrow> 'i sfc_multi" where
  "convert_poly_linestring_to_Rcpp lon_arr lat_arr rowname_arr id_vec rel_id type =
     \<lparr>mg_lon = lon_arr, mg_lat = lat_arr, mg_rowname = rowname_arr, mg_id = id_vec,
      mg_rel_id = rel_id, mg_type = type, mg_class = []\<rparr>"

text \<open>
  What one call of \<^verbatim>\<open>trace_multipolygon\<close> or \<^verbatim>\<open>trace_multilinestring\<close> (both declared in
  \<^verbatim>\<open>trace_osm.h\<close>) leaves in its output arguments \<^verbatim>\<open>lon_vec\<close>, \<^verbatim>\<open>lat_vec\<close>, \<^verbatim>\<open>rowname_vec\<close>
  and \<^verbatim>\<open>ids\<close>. The caller empties the four vectors after every call (\<^verbatim>\<open>clean_vecs\<close>,
  \<^verbatim>\<open>clear\<close>), so each call starts from empty vectors. In \<^verbatim>\<open>get_osm_relations\<close> the two
  tracers are parameters; they may fail.
\<close>

type_synonym 'i traced = "float_arr2 \<times> float_arr2 \<times> string_arr2 \<times> 'i list"

section \<open>\<^verbatim>\<open>get_osm_ways\<close>\<close>

record 'm ways_state =
  ws_wayList :: "'m sfg list"
  ws_kv_mat :: kv_mat
  ws_waynames :: "string list"
  ws_count :: nat

text \<open>
  The loop over \<^verbatim>\<open>way_ids\<close> (lines 331 to 351). \<^verbatim>\<open>trace_way_nmat\<close> (declared in
  \<^verbatim>\<open>convert_osm_rcpp.h\<close>) is the parameter \<open>twn\<close>. \<^verbatim>\<open>ways.find (*wi)\<close> is handed to
  \<^verbatim>\<open>get_value_mat_way\<close>, which reads the way it points to: for an id that is not in the map
  that is the end iterator, and reading it is undefined.
\<close>

fun ways_loop :: "(Ways \<Rightarrow> Nodes \<Rightarrow> osmid_t \<Rightarrow> error + 'm) \<Rightarrow> Ways \<Rightarrow> Nodes \<Rightarrow> UniqueVals
    \<Rightarrow> string \<Rightarrow> osmid_t list \<Rightarrow> 'm ways_state \<Rightarrow> error option \<times> 'm ways_state" where
  "ways_loop twn ways nodes uv geom_type [] st = (None, st)"
| "ways_loop twn ways nodes uv geom_type (wi # rest) st =
     (let st1 = st\<lparr>ws_waynames := ws_waynames st @ [to_string wi]\<rparr> in
      case twn ways nodes wi of
        Inl e \<Rightarrow> (Some e, st1)
      | Inr nmat \<Rightarrow>
          (let st2 = st1\<lparr>ws_wayList := (ws_wayList st1)[ws_count st :=
                          (if geom_type = ''LINESTRING'' then LINESTRING nmat
                           else POLYGON [nmat])]\<rparr> in
           case RBT.lookup ways wi of
             None \<Rightarrow> (Some undefined_behaviour, st2)
           | Some w \<Rightarrow>
               (case get_value_mat_way w uv (ws_kv_mat st2) (ws_count st) of
                  Inl e \<Rightarrow> (Some e, st2)
                | Inr m' \<Rightarrow>
                    ways_loop twn ways nodes uv geom_type rest
                      (st2\<lparr>ws_kv_mat := m', ws_count := ws_count st + 1\<rparr>))))"

definition get_osm_ways :: "(Ways \<Rightarrow> Nodes \<Rightarrow> osmid_t \<Rightarrow> error + 'm) \<Rightarrow> 'm sf_out
    \<Rightarrow> osmid_t std_set \<Rightarrow> Ways \<Rightarrow> Nodes \<Rightarrow> UniqueVals \<Rightarrow> string
    \<Rightarrow> error option \<times> 'm sf_out" where
  "get_osm_ways twn out way_ids ways nodes unique_vals geom_type =
     (if \<not> (geom_type = ''POLYGON'' \<or> geom_type = ''LINESTRING'')
      then (Some (runtime_error ''geom_type must be POLYGON or LINESTRING''), out)
      else if length (geoms out) \<noteq> set_size way_ids
      then (Some (runtime_error ''ways and IDs must have same lengths''), out)
      else
        (let nrow = set_size way_ids; ncol = set_size (k_way unique_vals) in
         case ways_loop twn ways nodes unique_vals geom_type (set_elems way_ids)
                \<lparr>ws_wayList = geoms out, ws_kv_mat = CharacterMatrix nrow ncol NA_STRING,
                 ws_waynames = [], ws_count = 0\<rparr> of
           (Some e, st) \<Rightarrow> (Some e, out\<lparr>geoms := ws_wayList st\<rparr>)
         | (None, st) \<Rightarrow>
             (None, \<lparr>geoms = ws_wayList st, geom_names = ws_waynames st,
                     geom_class = [''sfc_'' @ geom_type, ''sfc''],
                     kv_df = Some (restructure_kv_mat (ws_waynames st)
                                     (set_elems (k_way unique_vals)) (ws_kv_mat st) False)\<rparr>)))"

section \<open>\<^verbatim>\<open>get_osm_relations\<close>\<close>

text \<open>
  The distinct roles of a relation's member ways (lines 162 to 164 and 196 to 201): every
  role is inserted into a \<^verbatim>\<open>std::set\<close>, which is then read in ascending order.
\<close>

definition roles_set :: "Relation \<Rightarrow> string std_set" where
  "roles_set r = fold (\<lambda>itw s. set_insert (snd itw) s) (r_ways r) RBT.empty"

definition roles_of :: "Relation \<Rightarrow> string list" where
  "roles_of r = set_elems (roles_set r)"

text \<open>The first loop over the relations (lines 153 to 167): the sizes \<open>nmp\<close> and \<open>nls\<close>.\<close>

fun count_relations :: "Relation list \<Rightarrow> nat \<times> nat \<Rightarrow> nat \<times> nat" where
  "count_relations [] (nmp, nls) = (nmp, nls)"
| "count_relations (r # rs) (nmp, nls) =
     (if r_ispoly r then count_relations rs (nmp + 1, nls)
      else count_relations rs (nmp, nls + set_size (roles_set r)))"

text \<open>
  The arrays accumulated for one kind of relation: \<^verbatim>\<open>lon_arr\<close>, \<^verbatim>\<open>lat_arr\<close>, \<^verbatim>\<open>rowname_arr\<close>,
  \<^verbatim>\<open>id_vec\<close>, \<^verbatim>\<open>rel_id\<close>, \<^verbatim>\<open>kv_mat\<close> and \<^verbatim>\<open>count\<close>, once with suffix \<^verbatim>\<open>_mp\<close> and once with
  \<^verbatim>\<open>_ls\<close> in the source. The vector \<^verbatim>\<open>roles_ls\<close> is written and never read, and is left out.
\<close>

record 'i geom_acc =
  a_lon :: float_arr3
  a_lat :: float_arr3
  a_rowname :: string_arr3
  a_id :: "'i list list"
  a_rel_id :: "string list"
  a_kv_mat :: kv_mat
  a_count :: nat

text \<open>
  Storing one traced geometry (lines 184 to 191, and 213 to 220): the label and the four
  traced vectors are appended, and the relation's attribute row is written at \<open>count\<close>.
\<close>

definition emit :: "UniqueVals \<Rightarrow> Relation \<Rightarrow> string \<Rightarrow> 'i traced \<Rightarrow> 'i geom_acc
    \<Rightarrow> error + 'i geom_acc" where
  "emit unique_vals r label tr acc =
     (case tr of (lon_vec, lat_vec, rowname_vec, ids) \<Rightarrow>
        (case get_value_mat_rel r unique_vals (a_kv_mat acc) (a_count acc) of
           Inl e \<Rightarrow> Inl e
         | Inr m' \<Rightarrow>
             Inr \<lparr>a_lon = a_lon acc @ [lon_vec], a_lat = a_lat acc @ [lat_vec],
                  a_rowname = a_rowname acc @ [rowname_vec], a_id = a_id acc @ [ids],
                  a_rel_id = a_rel_id acc @ [label], a_kv_mat = m',
                  a_count = a_count acc + 1\<rparr>))"

definition ls_label :: "Relation \<Rightarrow> string \<Rightarrow> string" where
  "ls_label r role =
     (if role = '''' then to_string (r_id r) @ ''-(no role)''
      else to_string (r_id r) @ ''-'' @ role)"

text \<open>The loop over the roles of one relation (lines 203 to 221).\<close>

fun roles_loop :: "(Relation \<Rightarrow> string \<Rightarrow> Ways \<Rightarrow> Nodes \<Rightarrow> error + osmid_t traced)
    \<Rightarrow> Ways \<Rightarrow> Nodes \<Rightarrow> UniqueVals \<Rightarrow> Relation \<Rightarrow> string list \<Rightarrow> osmid_t geom_acc
    \<Rightarrow> error + osmid_t geom_acc" where
  "roles_loop tls ways nodes uv r [] ls = Inr ls"
| "roles_loop tls ways nodes uv r (role # roles) ls =
     (case tls r role ways nodes of
        Inl e \<Rightarrow> Inl e
      | Inr tr \<Rightarrow>
          (case emit uv r (ls_label r role) tr ls of
             Inl e \<Rightarrow> Inl e
           | Inr ls' \<Rightarrow> roles_loop tls ways nodes uv r roles ls'))"

text \<open>
  The second loop over the relations (lines 177 to 225). \<open>tmp\<close> is \<^verbatim>\<open>trace_multipolygon\<close>
  and \<open>tls\<close> is \<^verbatim>\<open>trace_multilinestring\<close>.
\<close>

fun rels_loop :: "(Relation \<Rightarrow> Ways \<Rightarrow> Nodes \<Rightarrow> error + string traced)
    \<Rightarrow> (Relation \<Rightarrow> string \<Rightarrow> Ways \<Rightarrow> Nodes \<Rightarrow> error + osmid_t traced)
    \<Rightarrow> Ways \<Rightarrow> Nodes \<Rightarrow> UniqueVals \<Rightarrow> Relation list
    \<Rightarrow> string geom_acc \<times> osmid_t geom_acc
    \<Rightarrow> error + string geom_acc \<times> osmid_t geom_acc" where
  "rels_loop tmp tls ways nodes uv [] st = Inr st"
| "rels_loop tmp tls ways nodes uv (r # rs) (mp, ls) =
     (if r_ispoly r then
        (case tmp r ways nodes of
           Inl e \<Rightarrow> Inl e
         | Inr tr \<Rightarrow>
             (case emit uv r (to_string (r_id r)) tr mp of
                Inl e \<Rightarrow> Inl e
              | Inr mp' \<Rightarrow> rels_loop tmp tls ways nodes uv rs (mp', ls)))
      else
        (case roles_loop tls ways nodes uv r (roles_of r) ls of
           Inl e \<Rightarrow> Inl e
         | Inr ls' \<Rightarrow> rels_loop tmp tls ways nodes uv rs (mp, ls')))"

text \<open>
  The matrices of \<^verbatim>\<open>get_osm_relations\<close> are allocated without the \<^verbatim>\<open>NA_STRING\<close> fill of the
  way and node matrices: an allocated character matrix holds empty strings.
\<close>

definition init_acc :: "nat \<Rightarrow> nat \<Rightarrow> 'i geom_acc" where
  "init_acc nrow ncol =
     \<lparr>a_lon = [], a_lat = [], a_rowname = [], a_id = [], a_rel_id = [],
      a_kv_mat = CharacterMatrix nrow ncol (Some ''''), a_count = 0\<rparr>"

definition attr_class :: "string list \<Rightarrow> 'i sfc_multi \<Rightarrow> 'i sfc_multi" where
  "attr_class c g = g\<lparr>mg_class := c\<rparr>"

text \<open>
  The list of four that \<^verbatim>\<open>get_osm_relations\<close> returns. \<^verbatim>\<open>kv_df_mp\<close> and \<^verbatim>\<open>kv_df_ls\<close> are
  variables of type \<^verbatim>\<open>Rcpp::DataFrame\<close> (lines 265 and 274): with at least one geometry
  they are assigned the result of \<^verbatim>\<open>restructure_kv_mat\<close>, otherwise \<^verbatim>\<open>R_NilValue\<close>, which the
  assignment converts to a data frame.
\<close>

record rel_ret =
  polygonList :: "string sfc_multi"
  kv_df_mp :: r_table
  linestringList :: "osmid_t sfc_multi"
  kv_df_ls :: r_table

definition get_osm_relations :: "(Relation \<Rightarrow> Ways \<Rightarrow> Nodes \<Rightarrow> error + string traced)
    \<Rightarrow> (Relation \<Rightarrow> string \<Rightarrow> Ways \<Rightarrow> Nodes \<Rightarrow> error + osmid_t traced)
    \<Rightarrow> Relation list \<Rightarrow> Nodes \<Rightarrow> Ways \<Rightarrow> UniqueVals \<Rightarrow> error + rel_ret" where
  "get_osm_relations tmp tls rels nodes ways unique_vals =
     (case count_relations rels (0, 0) of (nmp, nls) \<Rightarrow>
     (let ncol = set_size (k_rel unique_vals) in
     (case rels_loop tmp tls ways nodes unique_vals rels (init_acc nmp ncol, init_acc nls ncol) of
        Inl e \<Rightarrow> Inl e
      | Inr (mp, ls) \<Rightarrow>
          (case check_geom_arrs (a_lon mp) (a_lat mp) (a_rowname mp) of
             Some e \<Rightarrow> Inl e
           | None \<Rightarrow>
          (case check_geom_arrs (a_lon ls) (a_lat ls) (a_rowname ls) of
             Some e \<Rightarrow> Inl e
           | None \<Rightarrow>
          (case check_id_arr (a_lon ls) (a_id ls) of
             Some e \<Rightarrow> Inl e
           | None \<Rightarrow>
          (case check_id_arr (a_lon mp) (a_id mp) of
             Some e \<Rightarrow> Inl e
           | None \<Rightarrow>
             Inr \<lparr>polygonList =
                    attr_class [''sfc_MULTIPOLYGON'', ''sfc'']
                      (convert_poly_linestring_to_Rcpp (a_lon mp) (a_lat mp) (a_rowname mp)
                         (a_id mp) (a_rel_id mp) ''MULTIPOLYGON''),
                  kv_df_mp =
                    data_frame
                      (if length (a_rel_id mp) > 0
                       then restructure_kv_mat (a_rel_id mp)
                              (set_elems (k_rel unique_vals)) (a_kv_mat mp) False
                       else as_data_frame R_NULL),
                  linestringList =
                    attr_class [''sfc_MULTILINESTRING'', ''sfc'']
                      (convert_poly_linestring_to_Rcpp (a_lon ls) (a_lat ls) (a_rowname ls)
                         (a_id ls) (a_rel_id ls) ''MULTILINESTRING''),
                  kv_df_ls =
                    data_frame
                      (if length (a_rel_id ls) > 0
                       then restructure_kv_mat (a_rel_id ls)
                              (set_elems (k_rel unique_vals)) (a_kv_mat ls) True
                       else as_data_frame R_NULL)\<rparr>)))))))"

text \<open>
  Modelled from the spec: \<^verbatim>\<open>trace_multipolygon\<close> is declared in \<^verbatim>\<open>trace_osm.h\<close>, which is not
  among the sources. Section 4.4 of the specification: member ways are processed in the
  relation's declared order; each member's coordinate sequence is traced individually and
  appended as one ring entry; each ring's member id becomes that ring's label; a ring that
  fails to close is flagged (\<open>UnclosedRingError\<close>), not closed. The way tracer \<open>tw\<close> of
  section 4.1 is a parameter: it returns the longitudes, the latitudes and the row labels
  (the node ids) of one way, or fails.
\<close>

fun trace_rings :: "(Ways \<Rightarrow> Nodes \<Rightarrow> osmid_t \<Rightarrow> error + real list \<times> real list \<times> string list)
    \<Rightarrow> Ways \<Rightarrow> Nodes \<Rightarrow> (osmid_t \<times> string) list \<Rightarrow> error + string traced" where
  "trace_rings tw ways nodes [] = Inr ([], [], [], [])"
| "trace_rings tw ways nodes ((wid, role) # members) =
     (case tw ways nodes wid of
        Inl e \<Rightarrow> Inl e
      | Inr (lons, lats, labels) \<Rightarrow>
          (if labels = [] \<or> hd labels \<noteq> last labels then Inl (UnclosedRingError wid)
           else
             (case trace_rings tw ways nodes members of
                Inl e \<Rightarrow> Inl e
              | Inr (lon_vec, lat_vec, rowname_vec, ids) \<Rightarrow>
                  Inr (lons # lon_vec, lats # lat_vec, labels # rowname_vec,
                       to_string wid # ids))))"

definition trace_multipolygon ::
    "(Ways \<Rightarrow> Nodes \<Rightarrow> osmid_t \<Rightarrow> error + real list \<times> real list \<times> string list)
     \<Rightarrow> Relation \<Rightarrow> Ways \<Rightarrow> Nodes \<Rightarrow> error + string traced" where
  "trace_multipolygon tw r ways nodes = trace_rings tw ways nodes (r_ways r)"

section \<open>\<^verbatim>\<open>rcpp_osmdata_sf\<close>\<close>

text \<open>
  The division of the ways into polygonal and non-polygonal ones (lines 506 to 515).
  \<^verbatim>\<open>front ()\<close> and \<^verbatim>\<open>back ()\<close> of a way without nodes are undefined.
\<close>

fun divide_ways :: "(osmid_t \<times> OneWay) list \<Rightarrow> osmid_t std_set \<times> osmid_t std_set
    \<Rightarrow> error + osmid_t std_set \<times> osmid_t std_set" where
  "divide_ways [] st = Inr st"
| "divide_ways ((wid, w) # rest) (poly_ways, non_poly_ways) =
     (if w_nodes w = [] then Inl undefined_behaviour
      else if hd (w_nodes w) = last (w_nodes w) then
        (if \<not> set_member poly_ways wid
         then divide_ways rest (set_insert wid poly_ways, non_poly_ways)
         else divide_ways rest (poly_ways, non_poly_ways))
      else if \<not> set_member non_poly_ways wid
        then divide_ways rest (poly_ways, set_insert wid non_poly_ways)
        else divide_ways rest (poly_ways, non_poly_ways))"

text \<open>
  \<^verbatim>\<open>Rcpp::List (n)\<close>: a list of \<open>n\<close> \<^verbatim>\<open>NULL\<close> elements without attributes, and a data frame
  variable as declared, to which nothing has been assigned.
\<close>

definition new_List :: "nat \<Rightarrow> 'm sf_out" where
  "new_List n = \<lparr>geoms = replicate n R_NilValue, geom_names = [], geom_class = [], kv_df = None\<rparr>"

text \<open>
  The return list of ten, the three geometry lists each together with its table. The two
  geometry collections of \<^verbatim>\<open>get_osm_relations\<close> are passed on as they are; each of its two
  tables is taken out as an \<^verbatim>\<open>Rcpp::List\<close> and given the class \<^verbatim>\<open>data.frame\<close> (lines 492 to
  499). Parsing the text into \<^verbatim>\<open>XmlData\<close> (\<^verbatim>\<open>osmdata.h\<close>) is outside the sources, so the
  parsed nodes, ways, relations and unique values are the input.
\<close>

record 'm osmdata_sf =
  points :: "'m sf_out"
  linestrings :: "'m sf_out"
  polygons :: "'m sf_out"
  multipolygons :: "string sfc_multi"
  multipolygons_kv :: r_table
  multilinestrings :: "osmid_t sfc_multi"
  multilinestrings_kv :: r_table

definition rcpp_osmdata_sf :: "(Relation \<Rightarrow> Ways \<Rightarrow> Nodes \<Rightarrow> error + string traced)
    \<Rightarrow> (Relation \<Rightarrow> string \<Rightarrow> Ways \<Rightarrow> Nodes \<Rightarrow> error + osmid_t traced)
    \<Rightarrow> (Ways \<Rightarrow> Nodes \<Rightarrow> osmid_t \<Rightarrow> error + 'm)
    \<Rightarrow> Nodes \<Rightarrow> Ways \<Rightarrow> Relation list \<Rightarrow> UniqueVals \<Rightarrow> error + 'm osmdata_sf" where
  "rcpp_osmdata_sf tmp tls twn nodes ways rels unique_vals =
     (case get_osm_relations tmp tls rels nodes ways unique_vals of
        Inl e \<Rightarrow> Inl e
      | Inr tempList \<Rightarrow>
     (case divide_ways (RBT.entries ways) (RBT.empty, RBT.empty) of
        Inl e \<Rightarrow> Inl e
      | Inr (poly_ways, non_poly_ways) \<Rightarrow>
     (case get_osm_ways twn (new_List (set_size poly_ways)) poly_ways ways nodes unique_vals
             ''POLYGON'' of
        (Some e, _) \<Rightarrow> Inl e
      | (None, polyList) \<Rightarrow>
     (case get_osm_ways twn (new_List (set_size non_poly_ways)) non_poly_ways ways nodes
             unique_vals ''LINESTRING'' of
        (Some e, _) \<Rightarrow> Inl e
      | (None, lineList) \<Rightarrow>
     (case get_osm_nodes (new_List (length (RBT.entries nodes))) nodes unique_vals of
        (Some e, _) \<Rightarrow> Inl e
      | (None, pointList) \<Rightarrow>
          Inr \<lparr>points = pointList, linestrings = lineList, polygons = polyList,
               multipolygons = polygonList tempList,
               multipolygons_kv = data_frame (List_class_data_frame (kv_df_mp tempList)),
               multilinestrings = linestringList tempList,
               multilinestrings_kv = data_frame (List_class_data_frame (kv_df_ls tempList))\<rparr>)))))"

section \<open>Closed forms used in the proofs\<close>

text \<open>
  The definitions of this section are not part of the program: they name the values that the
  loops above are proved to compute.
\<close>

definition way_geom :: "string \<Rightarrow> error + 'm \<Rightarrow> 'm sfg" where
  "way_geom gt t = (case t of Inr nmat \<Rightarrow> if gt = ''LINESTRING'' then LINESTRING nmat else POLYGON [nmat]
      | Inl e \<Rightarrow> R_NilValue)"

definition way_row :: "Ways \<Rightarrow> UniqueVals \<Rightarrow> osmid_t \<Rightarrow> cell list" where
  "way_row ways uv wi = (case RBT.lookup ways wi of None \<Rightarrow> []
     | Some w \<Rightarrow> map (RBT.lookup (w_key_val w)) (set_elems (k_way uv)))"

definition traced_of :: "error + 'i traced \<Rightarrow> 'i traced" where
  "traced_of t = (case t of Inr tr \<Rightarrow> tr | Inl e \<Rightarrow> ([], [], [], []))"

definition rel_row :: "UniqueVals \<Rightarrow> Relation \<Rightarrow> cell list" where
  "rel_row uv r = map (RBT.lookup (r_key_val r)) (set_elems (k_rel uv))"

definition emitted :: "UniqueVals \<Rightarrow> (Relation \<times> string \<times> 'i traced) list \<Rightarrow> 'i geom_acc
    \<Rightarrow> 'i geom_acc" where
  "emitted uv items acc =
     \<lparr>a_lon = a_lon acc @ map (\<lambda>x. fst (snd (snd x))) items,
      a_lat = a_lat acc @ map (\<lambda>x. fst (snd (snd (snd x)))) items,
      a_rowname = a_rowname acc @ map (\<lambda>x. fst (snd (snd (snd (snd x))))) items,
      a_id = a_id acc @ map (\<lambda>x. snd (snd (snd (snd (snd x))))) items,
      a_rel_id = a_rel_id acc @ map (\<lambda>x. fst (snd x)) items,
      a_kv_mat = take (a_count acc) (a_kv_mat acc) @ map (\<lambda>x. rel_row uv (fst x)) items
                   @ drop (a_count acc + length items) (a_kv_mat acc),
      a_count = a_count acc + length items\<rparr>"

definition mp_items :: "(Relation \<Rightarrow> Ways \<Rightarrow> Nodes \<Rightarrow> error + string traced) \<Rightarrow> Ways \<Rightarrow> Nodes
    \<Rightarrow> Relation list \<Rightarrow> (Relation \<times> string \<times> string traced) list" where
  "mp_items tmp ways nodes rels =
     map (\<lambda>r. (r, to_string (r_id r), traced_of (tmp r ways nodes))) (filter r_ispoly rels)"

definition role_items :: "(Relation \<Rightarrow> string \<Rightarrow> Ways \<Rightarrow> Nodes \<Rightarrow> error + osmid_t traced)
    \<Rightarrow> Ways \<Rightarrow> Nodes \<Rightarrow> Relation \<Rightarrow> string list \<Rightarrow> (Relation \<times> string \<times> osmid_t traced) list" where
  "role_items tls ways nodes r roles =
     map (\<lambda>role. (r, ls_label r role, traced_of (tls r role ways nodes))) roles"

definition ls_items :: "(Relation \<Rightarrow> string \<Rightarrow> Ways \<Rightarrow> Nodes \<Rightarrow> error + osmid_t traced)
    \<Rightarrow> Ways \<Rightarrow> Nodes \<Rightarrow> Relation list \<Rightarrow> (Relation \<times> string \<times> osmid_t traced) list" where
  "ls_items tls ways nodes rels =
     concat (map (\<lambda>r. role_items tls ways nodes r (roles_of r)) (filter (\<lambda>r. \<not> r_ispoly r) rels))"

definition ret_of :: "UniqueVals \<Rightarrow> string geom_acc \<Rightarrow> osmid_t geom_acc \<Rightarrow> rel_ret" where
  "ret_of uv mp ls =
     \<lparr>polygonList =
        attr_class [''sfc_MULTIPOLYGON'', ''sfc'']
          (convert_poly_linestring_to_Rcpp (a_lon mp) (a_lat mp) (a_rowname mp)
             (a_id mp) (a_rel_id mp) ''MULTIPOLYGON''),
      kv_df_mp =
        data_frame
          (if length (a_rel_id mp) > 0
           then restructure_kv_mat (a_rel_id mp) (set_elems (k_rel uv)) (a_kv_mat mp) False
           else as_data_frame R_NULL),
      linestringList =
        attr_class [''sfc_MULTILINESTRING'', ''sfc'']
          (convert_poly_linestring_to_Rcpp (a_lon ls) (a_lat ls) (a_rowname ls)
             (a_id ls) (a_rel_id ls) ''MULTILINESTRING''),
      kv_df_ls =
        data_frame
          (if length (a_rel_id ls) > 0
           then restructure_kv_mat (a_rel_id ls) (set_elems (k_rel uv)) (a_kv_mat ls) True
           else as_data_frame R_NULL)\<rparr>"

definition checks :: "string geom_acc \<Rightarrow> osmid_t geom_acc \<Rightarrow> error option" where
  "checks mp ls =
     (case check_geom_arrs (a_lon mp) (a_lat mp) (a_rowname mp) of
        Some e \<Rightarrow> Some e
      | None \<Rightarrow>
     (case check_geom_arrs (a_lon ls) (a_lat ls) (a_rowname ls) of
        Some e \<Rightarrow> Some e
      | None \<Rightarrow>
     (case check_id_arr (a_lon ls) (a_id ls) of
        Some e \<Rightarrow> Some e
      | None \<Rightarrow> check_id_arr (a_lon mp) (a_id mp))))"

section \<open>Concrete inputs\<close>

text \<open>
  A small data set used to run the functions: three nodes, a closed and an open way, a
  multipolygon relation, a relation with the empty role (twice) and the role \<^verbatim>\<open>alt\<close>, and
  a relation without members; tracers that return fixed coordinates; and the value
  \<^verbatim>\<open>rcpp_osmdata_sf\<close> returns on it.
\<close>

definition ex_uv :: UniqueVals where
  "ex_uv = \<lparr>k_point = set_insert ''name'' (set_insert ''amenity'' RBT.empty),
            k_way = set_insert ''name'' (set_insert ''highway'' RBT.empty),
            k_rel = set_insert ''type'' RBT.empty\<rparr>"

definition ex_nodes :: Nodes where
  "ex_nodes =
     RBT.insert 1 \<lparr>n_lon = 1, n_lat = 2, n_key_val = RBT.insert ''name'' ''a'' RBT.empty\<rparr>
    (RBT.insert 5 \<lparr>n_lon = 5, n_lat = 6, n_key_val = RBT.insert ''amenity'' ''cafe'' RBT.empty\<rparr>
    (RBT.insert 2 \<lparr>n_lon = 3, n_lat = 4, n_key_val = RBT.empty\<rparr> RBT.empty))"

definition ex_ways :: Ways where
  "ex_ways =
     RBT.insert 11 \<lparr>w_nodes = [1, 2, 5], w_key_val = RBT.empty\<rparr>
    (RBT.insert 10 \<lparr>w_nodes = [1, 2, 1], w_key_val = RBT.insert ''highway'' ''x'' RBT.empty\<rparr>
       RBT.empty)"

definition ex_twn :: "Ways \<Rightarrow> Nodes \<Rightarrow> osmid_t \<Rightarrow> error + osmid_t list" where
  "ex_twn ways nodes wi =
     (case RBT.lookup ways wi of None \<Rightarrow> Inl (runtime_error ''no way'') | Some w \<Rightarrow> Inr (w_nodes w))"

definition ex_nodes_bad :: Nodes where
  "ex_nodes_bad =
     RBT.insert 1 \<lparr>n_lon = 1, n_lat = 2, n_key_val = RBT.insert ''shop'' ''b'' RBT.empty\<rparr>
       RBT.empty"

definition ex_tmp :: "Relation \<Rightarrow> Ways \<Rightarrow> Nodes \<Rightarrow> error + string traced" where
  "ex_tmp r ways nodes =
     Inr (map (\<lambda>m. [1, 2, 1]) (r_ways r), map (\<lambda>m. [3, 4, 3]) (r_ways r),
          map (\<lambda>m. [''1'', ''2'', ''1'']) (r_ways r), map (\<lambda>m. to_string (fst m)) (r_ways r))"

definition ex_tls :: "Relation \<Rightarrow> string \<Rightarrow> Ways \<Rightarrow> Nodes \<Rightarrow> error + osmid_t traced" where
  "ex_tls r role ways nodes =
     (let ms = filter (\<lambda>m. snd m = role) (r_ways r)
      in Inr (map (\<lambda>m. [1, 2]) ms, map (\<lambda>m. [3, 4]) ms, map (\<lambda>m. [''1'', ''2'']) ms,
              map fst ms))"

definition ex_rels :: "Relation list" where
  "ex_rels =
     [\<lparr>r_id = 20, r_ispoly = True, r_ways = [(10, ''outer''), (11, ''inner'')],
       r_key_val = RBT.insert ''type'' ''multipolygon'' RBT.empty\<rparr>,
      \<lparr>r_id = 21, r_ispoly = False, r_ways = [(11, ''''), (10, ''alt''), (11, '''')],
       r_key_val = RBT.insert ''type'' ''route'' RBT.empty\<rparr>,
      \<lparr>r_id = 22, r_ispoly = False, r_ways = [], r_key_val = RBT.empty\<rparr>]"

definition ex_nodes2 :: Nodes where
  "ex_nodes2 =
     RBT.insert 2 \<lparr>n_lon = 3, n_lat = 4, n_key_val = RBT.empty\<rparr>
    (RBT.insert 5 \<lparr>n_lon = 5, n_lat = 6, n_key_val = RBT.insert ''amenity'' ''cafe'' RBT.empty\<rparr>
    (RBT.insert 1 \<lparr>n_lon = 1, n_lat = 2, n_key_val = RBT.insert ''name'' ''a'' RBT.empty\<rparr>
       RBT.empty))"

definition ex_ways2 :: Ways where
  "ex_ways2 =
     RBT.insert 10 \<lparr>w_nodes = [1, 2, 1], w_key_val = RBT.insert ''highway'' ''x'' RBT.empty\<rparr>
    (RBT.insert 11 \<lparr>w_nodes = [1, 2, 5], w_key_val = RBT.empty\<rparr> RBT.empty)"

definition ex_rel_ret :: rel_ret where
  "ex_rel_ret =
     \<lparr>polygonList =
        \<lparr>mg_lon = [[[1, 2, 1], [1, 2, 1]]], mg_lat = [[[3, 4, 3], [3, 4, 3]]],
         mg_rowname = [[[''1'', ''2'', ''1''], [''1'', ''2'', ''1'']]],
         mg_id = [[''10'', ''11'']], mg_rel_id = [''20''], mg_type = ''MULTIPOLYGON'',
         mg_class = [''sfc_MULTIPOLYGON'', ''sfc'']\<rparr>,
      kv_df_mp =
        data_frame \<lparr>df_rownames = [''20''], df_colnames = [''type''],
                     df_cells = [[Some ''multipolygon'']], df_flag = False\<rparr>,
      linestringList =
        \<lparr>mg_lon = [[[1, 2], [1, 2]], [[1, 2]]], mg_lat = [[[3, 4], [3, 4]], [[3, 4]]],
         mg_rowname = [[[''1'', ''2''], [''1'', ''2'']], [[''1'', ''2'']]],
         mg_id = [[11, 11], [10]], mg_rel_id = [''21-(no role)'', ''21-alt''],
         mg_type = ''MULTILINESTRING'', mg_class = [''sfc_MULTILINESTRING'', ''sfc'']\<rparr>,
      kv_df_ls =
        data_frame \<lparr>df_rownames = [''21-(no role)'', ''21-alt''], df_colnames = [''type''],
                     df_cells = [[Some ''route''], [Some ''route'']], df_flag = True\<rparr>\<rparr>"

definition ex_ret :: "osmid_t list osmdata_sf" where
  "ex_ret =
     \<lparr>points =
        \<lparr>geoms = [POINT 1 2, POINT 3 4, POINT 5 6], geom_names = [''1'', ''2'', ''5''],
         geom_class = [''sfc_POINT'', ''sfc''],
         kv_df = Some \<lparr>df_rownames = [''1'', ''2'', ''5''],
                        df_colnames = [''amenity'', ''name''],
                        df_cells = [[None, Some ''a''], [None, None], [Some ''cafe'', None]],
                        df_flag = False\<rparr>\<rparr>,
      linestrings =
        \<lparr>geoms = [LINESTRING [1, 2, 5]], geom_names = [''11''],
         geom_class = [''sfc_LINESTRING'', ''sfc''],
         kv_df = Some \<lparr>df_rownames = [''11''], df_colnames = [''highway'', ''name''],
                        df_cells = [[None, None]], df_flag = False\<rparr>\<rparr>,
      polygons =
        \<lparr>geoms = [POLYGON [[1, 2, 1]]], geom_names = [''10''],
         geom_class = [''sfc_POLYGON'', ''sfc''],
         kv_df = Some \<lparr>df_rownames = [''10''], df_colnames = [''highway'', ''name''],
                        df_cells = [[Some ''x'', None]], df_flag = False\<rparr>\<rparr>,
      multipolygons = polygonList ex_rel_ret,
      multipolygons_kv = kv_df_mp ex_rel_ret,
      multilinestrings = linestringList ex_rel_ret,
      multilinestrings_kv = kv_df_ls ex_rel_ret\<rparr>"

text \<open>
  The closedness of a way in the words of the specification (section 3): a way is closed iff
  its first id equals its last id and its length is greater than 1. The code does not use
  this definition; it is compared with the test of \<open>divide_ways\<close> below.
\<close>

definition way_closed :: "osmid_t list \<Rightarrow> bool" where
  "way_closed ids = (ids \<noteq> [] \<and> hd ids = last ids \<and> length ids > 1)"

definition ex_ways_single :: Ways where
  "ex_ways_single = RBT.insert 7 \<lparr>w_nodes = [5], w_key_val = RBT.empty\<rparr> RBT.empty"

definition ex_ways_empty :: Ways where
  "ex_ways_empty = RBT.insert 8 \<lparr>w_nodes = [], w_key_val = RBT.empty\<rparr> RBT.empty"

definition ex_tmp_bad :: "Relation \<Rightarrow> Ways \<Rightarrow> Nodes \<Rightarrow> error + string traced" where
  "ex_tmp_bad r ways nodes = Inr ([[1, 2]], [[3]], [[''1'', ''2'']], [''10''])"

definition ex_tw :: "Ways \<Rightarrow> Nodes \<Rightarrow> osmid_t \<Rightarrow> error + real list \<times> real list \<times> string list" where
  "ex_tw ways nodes wid =
     (case RBT.lookup ways wid of
        None \<Rightarrow> Inl (runtime_error ''no such way'')
      | Some w \<Rightarrow>
          (case find (\<lambda>nid. RBT.lookup nodes nid = None) (w_nodes w) of
             Some nid \<Rightarrow> Inl (MissingNodeError nid wid)
           | None \<Rightarrow>
               Inr (map (\<lambda>nid. n_lon (the (RBT.lookup nodes nid))) (w_nodes w),
                    map (\<lambda>nid. n_lat (the (RBT.lookup nodes nid))) (w_nodes w),
                    map to_string (w_nodes w))))"

definition ex_rels_mp :: "Relation list" where
  "ex_rels_mp =
     [\<lparr>r_id = 30, r_ispoly = True, r_ways = [(10, ''outer''), (10, ''inner'')],
       r_key_val = RBT.insert ''type'' ''multipolygon'' RBT.empty\<rparr>]"

section \<open>Lemmas about the containers and the loops\<close>

lemma set_member_iff: "set_member s k \<longleftrightarrow> k \<in> set (set_elems s)"
  unfolding set_member_def set_elems_def
  by (metis RBT.lookup_keys domIff)

lemma set_elems_sorted: "sorted (set_elems s)" and set_elems_distinct: "distinct (set_elems s)"
  unfolding set_elems_def by (simp_all add: RBT.sorted_keys RBT.distinct_keys)

lemma set_size_elems: "set_size s = length (set_elems s)"
  unfolding set_size_def set_elems_def by simp

lemma takeWhile_neq_nth:
  "distinct xs \<Longrightarrow> j < length xs \<Longrightarrow> length (takeWhile (\<lambda>x. x \<noteq> xs ! j) xs) = j"
proof -
  assume d: "distinct xs" and j: "j < length xs"
  have "takeWhile (\<lambda>x. x \<noteq> xs ! j) xs = take j xs"
  proof (rule takeWhile_eq_take_P_nth)
    fix i assume "i < j" "i < length xs"
    with d j show "xs ! i \<noteq> xs ! j" by (simp add: nth_eq_iff_index_eq)
  next
    show "j < length xs \<Longrightarrow> \<not> xs ! j \<noteq> xs ! j" by simp
  qed
  with j show ?thesis by simp
qed

lemma set_find_distance_nth:
  "j < set_size s \<Longrightarrow> set_find_distance s (set_elems s ! j) = j"
  unfolding set_find_distance_def
  by (simp add: set_member_iff set_size_elems takeWhile_neq_nth set_elems_distinct)

lemma set_find_distance_member:
  assumes "set_member s k"
  shows "set_find_distance s k < set_size s \<and> set_elems s ! set_find_distance s k = k"
proof -
  from assms obtain j where j: "j < length (set_elems s)" "set_elems s ! j = k"
    by (auto simp: set_member_iff in_set_conv_nth)
  then have "set_find_distance s k = j"
    using set_find_distance_nth [of j s] by (simp add: set_size_elems)
  with j show ?thesis by (simp add: set_size_elems)
qed

lemma set_find_distance_absent: "\<not> set_member s k \<Longrightarrow> set_find_distance s k = set_size s"
  by (simp add: set_find_distance_def)

lemma mat_write_Inr:
  "mat_write m ncol i j v = Inr m' \<longleftrightarrow> i < length m \<and> j < ncol \<and> m' = m[i := (m ! i)[j := v]]"
  by (auto simp: mat_write_def)

lemma node_kv_loop_ok:
  assumes "i < length m" "ncol = set_size ks" "length (m ! i) = ncol"
    and "\<forall>k \<in> fst ` set kvs. set_member ks k" "distinct (map fst kvs)"
  shows "\<exists>row. node_kv_loop ks ncol i kvs m = Inr (m[i := row]) \<and> length row = ncol \<and>
           (\<forall>j < ncol. row ! j = (case map_of kvs (set_elems ks ! j) of
                                    Some v \<Rightarrow> Some v | None \<Rightarrow> m ! i ! j))"
  using assms
proof (induction kvs arbitrary: m)
  case Nil
  then show ?case by (intro exI [of _ "m ! i"]) simp
next
  case (Cons kv kvs)
  obtain k v where kv: "kv = (k, v)" by (cases kv)
  let ?d = "set_find_distance ks k"
  let ?m1 = "m[i := (m ! i)[?d := Some v]]"
  from Cons.prems kv have mem: "set_member ks k" by simp
  then have d: "?d < ncol" "set_elems ks ! ?d = k"
    using set_find_distance_member [of ks k] Cons.prems(2) by simp_all
  have w: "mat_write m ncol i ?d (Some v) = Inr ?m1"
    using Cons.prems(1) d(1) by (simp add: mat_write_def)
  have "\<exists>row. node_kv_loop ks ncol i kvs ?m1 = Inr (?m1[i := row]) \<and> length row = ncol \<and>
           (\<forall>j < ncol. row ! j = (case map_of kvs (set_elems ks ! j) of
                                    Some v \<Rightarrow> Some v | None \<Rightarrow> ?m1 ! i ! j))"
    using Cons.prems by (intro Cons.IH) simp_all
  then obtain row where row: "node_kv_loop ks ncol i kvs ?m1 = Inr (?m1[i := row])"
      "length row = ncol"
      "\<forall>j < ncol. row ! j = (case map_of kvs (set_elems ks ! j) of
                                    Some v \<Rightarrow> Some v | None \<Rightarrow> ?m1 ! i ! j)"
    by blast
  have knot: "map_of kvs k = None"
    using Cons.prems(5) kv by (simp add: map_of_eq_None_iff)
  have "\<forall>j < ncol. row ! j = (case map_of (kv # kvs) (set_elems ks ! j) of
                                    Some v \<Rightarrow> Some v | None \<Rightarrow> m ! i ! j)"
  proof (intro allI impI)
    fix j assume j: "j < ncol"
    have eq: "set_elems ks ! j = k \<longleftrightarrow> j = ?d"
      using j d Cons.prems(2) set_find_distance_nth [of j ks] by auto
    show "row ! j = (case map_of (kv # kvs) (set_elems ks ! j) of
                                    Some v \<Rightarrow> Some v | None \<Rightarrow> m ! i ! j)"
    proof (cases "j = ?d")
      case True
      then show ?thesis
        using row(3) j d knot kv Cons.prems(1,3) by simp
    next
      case False
      then show ?thesis
        using row(3) j eq kv Cons.prems(1,3) by (simp split: option.splits)
    qed
  qed
  moreover have "node_kv_loop ks ncol i (kv # kvs) m = Inr (m[i := row])"
    using w row(1) kv by simp
  ultimately show ?case using row(2) by blast
qed

lemma node_kv_loop_entries:
  assumes "i < length m" "ncol = set_size ks" "m ! i = replicate ncol None"
    and "\<forall>k \<in> set (RBT.keys kv). set_member ks k"
  shows "node_kv_loop ks ncol i (RBT.entries kv) m =
           Inr (m[i := map (RBT.lookup kv) (set_elems ks)])"
proof -
  have dist: "distinct (map fst (RBT.entries kv))"
    using RBT.distinct_keys [of kv] by (simp add: RBT.keys_def_alt)
  have keys: "\<forall>k \<in> fst ` set (RBT.entries kv). set_member ks k"
    using assms(4) by (simp add: RBT.keys_def_alt)
  obtain row where row: "node_kv_loop ks ncol i (RBT.entries kv) m = Inr (m[i := row])"
      "length row = ncol"
      "\<forall>j < ncol. row ! j = (case map_of (RBT.entries kv) (set_elems ks ! j) of
                                    Some v \<Rightarrow> Some v | None \<Rightarrow> m ! i ! j)"
    using node_kv_loop_ok [OF assms(1,2) _ keys dist] assms(3) by auto
  have "row = map (RBT.lookup kv) (set_elems ks)"
  proof (rule nth_equalityI)
    show "length row = length (map (RBT.lookup kv) (set_elems ks))"
      using row(2) assms(2) by (simp add: set_size_elems)
  next
    fix j assume "j < length row"
    then have j: "j < ncol" using row(2) by simp
    then show "row ! j = map (RBT.lookup kv) (set_elems ks) ! j"
      using row(3) assms(2,3) by (simp add: set_size_elems RBT.map_of_entries split: option.splits)
  qed
  with row(1) show ?thesis by simp
qed

lemma node_kv_loop_ub:
  assumes "\<exists>k \<in> fst ` set kvs. \<not> set_member ks k" "ncol = set_size ks"
  shows "node_kv_loop ks ncol i kvs m = Inl undefined_behaviour"
  using assms(1)
proof (induction kvs arbitrary: m)
  case Nil
  then show ?case by simp
next
  case (Cons kv kvs)
  obtain k v where kv: "kv = (k, v)" by (cases kv)
  show ?case
  proof (cases "mat_write m ncol i (set_find_distance ks k) (Some v)")
    case (Inl e)
    then have "e = undefined_behaviour" by (auto simp: mat_write_def split: if_splits)
    with Inl kv show ?thesis by simp
  next
    case (Inr m')
    then have "set_find_distance ks k < set_size ks"
      using assms(2) by (auto simp: mat_write_def split: if_splits)
    then have "set_member ks k"
      using set_find_distance_absent [of ks k] by auto
    with Cons.prems kv have "\<exists>k \<in> fst ` set kvs. \<not> set_member ks k" by auto
    then have "node_kv_loop ks ncol i kvs m' = Inl undefined_behaviour" by (rule Cons.IH)
    with Inr kv show ?thesis by simp
  qed
qed

lemma take_Suc_update: "c < length xs \<Longrightarrow> take (Suc c) (xs[c := x]) = take c xs @ [x]"
  by (simp add: take_Suc_conv_app_nth)

lemma node_kv_loop_err: "node_kv_loop ks ncol i kvs m = Inl e \<Longrightarrow> e = undefined_behaviour"
proof (induction kvs arbitrary: m)
  case Nil
  then show ?case by simp
next
  case (Cons kv kvs)
  then show ?case
    by (cases kv) (auto simp: mat_write_def split: if_splits sum.splits)
qed

lemma nodes_loop_err: "nodes_loop ks ncol es st = (Some e, st') \<Longrightarrow> e = undefined_behaviour"
proof (induction es arbitrary: st)
  case Nil
  then show ?case by simp
next
  case (Cons a es)
  obtain nid nd where a: "a = (nid, nd)" by (cases a)
  show ?case
  proof (cases "node_kv_loop ks ncol (ns_count st) (RBT.entries (n_key_val nd)) (ns_kv_mat st)")
    case (Inl e')
    with Cons.prems a show ?thesis by (auto simp: Let_def dest: node_kv_loop_err)
  next
    case (Inr m')
    with Cons.prems a show ?thesis by (auto simp: Let_def dest: Cons.IH)
  qed
qed

lemma nodes_loop_ok:
  assumes "ncol = set_size ks"
    and "\<forall>a \<in> set es. \<forall>k \<in> set (RBT.keys (n_key_val (snd a))). set_member ks k"
    and "ns_count st + length es \<le> length (ns_kv_mat st)"
    and "ns_count st + length es \<le> length (ns_ptList st)"
    and "\<forall>i. ns_count st \<le> i \<and> i < length (ns_kv_mat st) \<longrightarrow> ns_kv_mat st ! i = replicate ncol None"
  shows "nodes_loop ks ncol es st =
     (None, \<lparr>ns_ptList = take (ns_count st) (ns_ptList st)
                 @ map (\<lambda>a. POINT (n_lon (snd a)) (n_lat (snd a))) es
                 @ drop (ns_count st + length es) (ns_ptList st),
             ns_kv_mat = take (ns_count st) (ns_kv_mat st)
                 @ map (\<lambda>a. map (RBT.lookup (n_key_val (snd a))) (set_elems ks)) es
                 @ drop (ns_count st + length es) (ns_kv_mat st),
             ns_ptnames = ns_ptnames st @ map (\<lambda>a. to_string (fst a)) es,
             ns_count = ns_count st + length es\<rparr>)"
  using assms(2-5)
proof (induction es arbitrary: st)
  case Nil
  then show ?case by simp
next
  case (Cons a es)
  obtain nid nd where a: "a = (nid, nd)" by (cases a)
  let ?c = "ns_count st"
  let ?row = "map (RBT.lookup (n_key_val nd)) (set_elems ks)"
  let ?st2 = "st\<lparr>ns_ptList := (ns_ptList st)[?c := POINT (n_lon nd) (n_lat nd)],
                   ns_ptnames := ns_ptnames st @ [to_string nid],
                   ns_kv_mat := (ns_kv_mat st)[?c := ?row], ns_count := ?c + 1\<rparr>"
  have c: "?c < length (ns_kv_mat st)" "?c < length (ns_ptList st)"
    using Cons.prems(2,3) by simp_all
  have kv: "node_kv_loop ks ncol ?c (RBT.entries (n_key_val nd)) (ns_kv_mat st) =
              Inr ((ns_kv_mat st)[?c := ?row])"
    using Cons.prems(1,4) c a by (intro node_kv_loop_entries assms(1)) simp_all
  have step: "nodes_loop ks ncol (a # es) st = nodes_loop ks ncol es ?st2"
    using kv a by (simp add: Let_def)
  have "nodes_loop ks ncol es ?st2 =
     (None, \<lparr>ns_ptList = take (ns_count ?st2) (ns_ptList ?st2)
                 @ map (\<lambda>a. POINT (n_lon (snd a)) (n_lat (snd a))) es
                 @ drop (ns_count ?st2 + length es) (ns_ptList ?st2),
             ns_kv_mat = take (ns_count ?st2) (ns_kv_mat ?st2)
                 @ map (\<lambda>a. map (RBT.lookup (n_key_val (snd a))) (set_elems ks)) es
                 @ drop (ns_count ?st2 + length es) (ns_kv_mat ?st2),
             ns_ptnames = ns_ptnames ?st2 @ map (\<lambda>a. to_string (fst a)) es,
             ns_count = ns_count ?st2 + length es\<rparr>)"
    using Cons.prems by (intro Cons.IH) simp_all
  then show ?case
    unfolding step using c a by (simp add: take_Suc_update)
qed

lemma nodes_loop_ub:
  assumes "ncol = set_size ks"
    and "\<exists>a \<in> set es. \<exists>k \<in> set (RBT.keys (n_key_val (snd a))). \<not> set_member ks k"
    and "ns_count st + length es \<le> length (ns_kv_mat st)"
    and "\<forall>i. ns_count st \<le> i \<and> i < length (ns_kv_mat st) \<longrightarrow> ns_kv_mat st ! i = replicate ncol None"
  shows "fst (nodes_loop ks ncol es st) = Some undefined_behaviour"
  using assms(2-4)
proof (induction es arbitrary: st)
  case Nil
  then show ?case by simp
next
  case (Cons a es)
  obtain nid nd where a: "a = (nid, nd)" by (cases a)
  let ?c = "ns_count st"
  let ?row = "map (RBT.lookup (n_key_val nd)) (set_elems ks)"
  show ?case
  proof (cases "\<forall>k \<in> set (RBT.keys (n_key_val nd)). set_member ks k")
    case True
    let ?st2 = "st\<lparr>ns_ptList := (ns_ptList st)[?c := POINT (n_lon nd) (n_lat nd)],
                   ns_ptnames := ns_ptnames st @ [to_string nid],
                   ns_kv_mat := (ns_kv_mat st)[?c := ?row], ns_count := ?c + 1\<rparr>"
    have c: "?c < length (ns_kv_mat st)" using Cons.prems(2) by simp
    have kv: "node_kv_loop ks ncol ?c (RBT.entries (n_key_val nd)) (ns_kv_mat st) =
              Inr ((ns_kv_mat st)[?c := ?row])"
      using True Cons.prems(3) c by (intro node_kv_loop_entries assms(1)) simp_all
    have step: "nodes_loop ks ncol (a # es) st = nodes_loop ks ncol es ?st2"
      using kv a by (simp add: Let_def)
    have "fst (nodes_loop ks ncol es ?st2) = Some undefined_behaviour"
      using Cons.prems True a by (intro Cons.IH) auto
    then show ?thesis unfolding step .
  next
    case False
    then have "\<exists>k \<in> fst ` set (RBT.entries (n_key_val nd)). \<not> set_member ks k"
      by (simp add: RBT.keys_def_alt)
    then have "node_kv_loop ks ncol ?c (RBT.entries (n_key_val nd)) (ns_kv_mat st) =
                 Inl undefined_behaviour"
      using assms(1) by (rule node_kv_loop_ub)
    then show ?thesis using a by (simp add: Let_def)
  qed
qed

lemma CharacterMatrix_props:
  "length (CharacterMatrix nrow ncol c) = nrow"
  "i < nrow \<Longrightarrow> CharacterMatrix nrow ncol c ! i = replicate ncol c"
  by (simp_all add: CharacterMatrix_def)

lemma get_osm_nodes_ok:
  assumes "length (geoms out) = length (RBT.entries nodes)"
    and "\<forall>a \<in> set (RBT.entries nodes). \<forall>k \<in> set (RBT.keys (n_key_val (snd a))).
           set_member (k_point uv) k"
  shows "get_osm_nodes out nodes uv =
    (None, \<lparr>geoms = map (\<lambda>a. POINT (n_lon (snd a)) (n_lat (snd a))) (RBT.entries nodes),
            geom_names = map (\<lambda>a. to_string (fst a)) (RBT.entries nodes),
            geom_class = [''sfc_POINT'', ''sfc''],
            kv_df = Some \<lparr>df_rownames = map (\<lambda>a. to_string (fst a)) (RBT.entries nodes),
                           df_colnames = set_elems (k_point uv),
                           df_cells = map (\<lambda>a. map (RBT.lookup (n_key_val (snd a)))
                                                   (set_elems (k_point uv))) (RBT.entries nodes),
                           df_flag = False\<rparr>\<rparr>)"
proof -
  let ?n = "length (RBT.entries nodes)"
  let ?ncol = "set_size (k_point uv)"
  let ?st = "\<lparr>ns_ptList = geoms out, ns_kv_mat = CharacterMatrix ?n ?ncol NA_STRING,
                 ns_ptnames = [], ns_count = 0\<rparr> :: 'a nodes_state"
  have "nodes_loop (k_point uv) ?ncol (RBT.entries nodes) ?st =
     (None, \<lparr>ns_ptList = take (ns_count ?st) (ns_ptList ?st)
                 @ map (\<lambda>a. POINT (n_lon (snd a)) (n_lat (snd a))) (RBT.entries nodes)
                 @ drop (ns_count ?st + ?n) (ns_ptList ?st),
             ns_kv_mat = take (ns_count ?st) (ns_kv_mat ?st)
                 @ map (\<lambda>a. map (RBT.lookup (n_key_val (snd a))) (set_elems (k_point uv)))
                     (RBT.entries nodes)
                 @ drop (ns_count ?st + ?n) (ns_kv_mat ?st),
             ns_ptnames = ns_ptnames ?st @ map (\<lambda>a. to_string (fst a)) (RBT.entries nodes),
             ns_count = ns_count ?st + ?n\<rparr>)"
    using assms by (intro nodes_loop_ok) (simp_all add: CharacterMatrix_props NA_STRING_def)
  then show ?thesis
    using assms(1)
    by (simp add: get_osm_nodes_def Let_def CharacterMatrix_props restructure_kv_mat_def)
qed

lemma get_osm_nodes_ub:
  assumes "length (geoms out) = length (RBT.entries nodes)"
    and "\<exists>a \<in> set (RBT.entries nodes). \<exists>k \<in> set (RBT.keys (n_key_val (snd a))).
           \<not> set_member (k_point uv) k"
  shows "fst (get_osm_nodes out nodes uv) = Some undefined_behaviour"
proof -
  let ?n = "length (RBT.entries nodes)"
  let ?ncol = "set_size (k_point uv)"
  let ?st = "\<lparr>ns_ptList = geoms out, ns_kv_mat = CharacterMatrix ?n ?ncol NA_STRING,
                 ns_ptnames = [], ns_count = 0\<rparr> :: 'a nodes_state"
  have "fst (nodes_loop (k_point uv) ?ncol (RBT.entries nodes) ?st) = Some undefined_behaviour"
    using assms by (intro nodes_loop_ub) (simp_all add: CharacterMatrix_props NA_STRING_def)
  then show ?thesis
    using assms(1)
    by (auto simp: get_osm_nodes_def Let_def split: prod.splits option.splits)
qed

lemma get_osm_nodes_mismatch:
  "length (geoms out) \<noteq> length (RBT.entries nodes) \<Longrightarrow>
   get_osm_nodes out nodes uv = (Some (runtime_error ''points must have same size as nodes''), out)"
  by (simp add: get_osm_nodes_def Let_def)

lemma get_osm_nodes_None:
  assumes "get_osm_nodes out nodes uv = (None, out')"
  shows "length (geoms out) = length (RBT.entries nodes)"
    and "\<forall>a \<in> set (RBT.entries nodes). \<forall>k \<in> set (RBT.keys (n_key_val (snd a))).
           set_member (k_point uv) k"
proof -
  show l: "length (geoms out) = length (RBT.entries nodes)"
    using assms get_osm_nodes_mismatch [of out nodes uv] by auto
  show "\<forall>a \<in> set (RBT.entries nodes). \<forall>k \<in> set (RBT.keys (n_key_val (snd a))).
           set_member (k_point uv) k"
    using assms get_osm_nodes_ub [OF l, of uv] by auto
qed



lemma attribute_row_ok:
  "\<forall>k \<in> set (RBT.keys kv). set_member ks k \<Longrightarrow>
   attribute_row ks kv = Inr (map (RBT.lookup kv) (set_elems ks))"
proof -
  assume "\<forall>k \<in> set (RBT.keys kv). set_member ks k"
  then have "find (\<lambda>k. \<not> set_member ks k) (RBT.keys kv) = None"
    by (simp add: find_None_iff)
  then show ?thesis by (simp add: attribute_row_def)
qed

lemma attribute_row_bad:
  assumes "\<not> (\<forall>k \<in> set (RBT.keys kv). set_member ks k)"
  shows "\<exists>k. attribute_row ks kv = Inl (UnknownKeyError k) \<and> k \<in> set (RBT.keys kv) \<and>
           \<not> set_member ks k"
proof (cases "find (\<lambda>k. \<not> set_member ks k) (RBT.keys kv)")
  case None
  with assms show ?thesis by (auto simp: find_None_iff)
next
  case (Some k)
  then have "k \<in> set (RBT.keys kv) \<and> \<not> set_member ks k"
    by (auto simp: find_Some_iff)
  moreover from Some have "attribute_row ks kv = Inl (UnknownKeyError k)"
    by (simp add: attribute_row_def)
  ultimately show ?thesis by blast
qed

lemma attribute_row_Inr:
  "attribute_row ks kv = Inr row \<longleftrightarrow>
     (\<forall>k \<in> set (RBT.keys kv). set_member ks k) \<and> row = map (RBT.lookup kv) (set_elems ks)"
proof (cases "\<forall>k \<in> set (RBT.keys kv). set_member ks k")
  case True
  then show ?thesis using attribute_row_ok [OF True] by auto
next
  case False
  then show ?thesis using attribute_row_bad [OF False] by auto
qed

lemma write_row_Inr:
  "write_row m rowi row = Inr m' \<longleftrightarrow> rowi < length m \<and> m' = m[rowi := row]"
  by (auto simp: write_row_def)

lemma get_value_mat_way_Inr:
  "get_value_mat_way w uv m rowi = Inr m' \<longleftrightarrow>
     (\<forall>k \<in> set (RBT.keys (w_key_val w)). set_member (k_way uv) k) \<and> rowi < length m \<and>
     m' = m[rowi := map (RBT.lookup (w_key_val w)) (set_elems (k_way uv))]"
proof (cases "\<forall>k \<in> set (RBT.keys (w_key_val w)). set_member (k_way uv) k")
  case True
  then show ?thesis
    using attribute_row_ok [OF True] by (auto simp: get_value_mat_way_def write_row_Inr)
next
  case False
  then show ?thesis
    using attribute_row_bad [OF False] by (auto simp: get_value_mat_way_def)
qed

lemma get_value_mat_rel_Inr:
  "get_value_mat_rel r uv m rowi = Inr m' \<longleftrightarrow>
     (\<forall>k \<in> set (RBT.keys (r_key_val r)). set_member (k_rel uv) k) \<and> rowi < length m \<and>
     m' = m[rowi := map (RBT.lookup (r_key_val r)) (set_elems (k_rel uv))]"
proof (cases "\<forall>k \<in> set (RBT.keys (r_key_val r)). set_member (k_rel uv) k")
  case True
  then show ?thesis
    using attribute_row_ok [OF True] by (auto simp: get_value_mat_rel_def write_row_Inr)
next
  case False
  then show ?thesis
    using attribute_row_bad [OF False] by (auto simp: get_value_mat_rel_def)
qed

lemma ways_loop_None:
  assumes "ways_loop twn ways nodes uv gt wis st = (None, st')"
    and "ws_count st + length wis \<le> length (ws_wayList st)"
    and "ws_count st + length wis \<le> length (ws_kv_mat st)"
  shows "(\<forall>wi \<in> set wis. \<exists>nmat w. twn ways nodes wi = Inr nmat \<and> RBT.lookup ways wi = Some w \<and>
            (\<forall>k \<in> set (RBT.keys (w_key_val w)). set_member (k_way uv) k)) \<and>
         st' = \<lparr>ws_wayList = take (ws_count st) (ws_wayList st)
                   @ map (\<lambda>wi. way_geom gt (twn ways nodes wi)) wis
                   @ drop (ws_count st + length wis) (ws_wayList st),
                 ws_kv_mat = take (ws_count st) (ws_kv_mat st)
                   @ map (way_row ways uv) wis
                   @ drop (ws_count st + length wis) (ws_kv_mat st),
                 ws_waynames = ws_waynames st @ map to_string wis,
                 ws_count = ws_count st + length wis\<rparr>"
  using assms
proof (induction wis arbitrary: st)
  case Nil
  then show ?case by simp
next
  case (Cons wi wis)
  let ?c = "ws_count st"
  from Cons.prems(1) obtain nmat where nmat: "twn ways nodes wi = Inr nmat"
    by (cases "twn ways nodes wi") (simp_all add: Let_def)
  from Cons.prems(1) nmat obtain w where w: "RBT.lookup ways wi = Some w"
    by (cases "RBT.lookup ways wi") (simp_all add: Let_def)
  let ?g = "if gt = ''LINESTRING'' then LINESTRING nmat else POLYGON [nmat]"
  from Cons.prems(1) nmat w obtain m' where
    m': "get_value_mat_way w uv (ws_kv_mat st) ?c = Inr m'"
    by (cases "get_value_mat_way w uv (ws_kv_mat st) ?c") (simp_all add: Let_def)
  let ?row = "map (RBT.lookup (w_key_val w)) (set_elems (k_way uv))"
  from m' have keys: "\<forall>k \<in> set (RBT.keys (w_key_val w)). set_member (k_way uv) k"
    and c: "?c < length (ws_kv_mat st)" and m'_eq: "m' = (ws_kv_mat st)[?c := ?row]"
    by (simp_all add: get_value_mat_way_Inr)
  let ?st2 = "st\<lparr>ws_waynames := ws_waynames st @ [to_string wi],
                   ws_wayList := (ws_wayList st)[?c := ?g],
                   ws_kv_mat := m', ws_count := ?c + 1\<rparr>"
  have step: "ways_loop twn ways nodes uv gt (wi # wis) st = ways_loop twn ways nodes uv gt wis ?st2"
    using nmat w m' by (simp add: Let_def)
  with Cons.prems(1) have rest: "ways_loop twn ways nodes uv gt wis ?st2 = (None, st')" by simp
  have c2: "?c < length (ws_wayList st)" using Cons.prems(2) by simp
  have ih: "(\<forall>wi \<in> set wis. \<exists>nmat w. twn ways nodes wi = Inr nmat \<and> RBT.lookup ways wi = Some w \<and>
            (\<forall>k \<in> set (RBT.keys (w_key_val w)). set_member (k_way uv) k)) \<and>
         st' = \<lparr>ws_wayList = take (ws_count ?st2) (ws_wayList ?st2)
                   @ map (\<lambda>wi. way_geom gt (twn ways nodes wi)) wis
                   @ drop (ws_count ?st2 + length wis) (ws_wayList ?st2),
                 ws_kv_mat = take (ws_count ?st2) (ws_kv_mat ?st2)
                   @ map (way_row ways uv) wis
                   @ drop (ws_count ?st2 + length wis) (ws_kv_mat ?st2),
                 ws_waynames = ws_waynames ?st2 @ map to_string wis,
                 ws_count = ws_count ?st2 + length wis\<rparr>"
    using rest Cons.prems(2,3) by (intro Cons.IH) (simp_all add: m'_eq)
  have g: "way_geom gt (twn ways nodes wi) = ?g" by (simp add: way_geom_def nmat)
  have r: "way_row ways uv wi = ?row" by (simp add: way_row_def w)
  from ih have "\<forall>wi \<in> set (wi # wis). \<exists>nmat w. twn ways nodes wi = Inr nmat \<and>
      RBT.lookup ways wi = Some w \<and> (\<forall>k \<in> set (RBT.keys (w_key_val w)). set_member (k_way uv) k)"
    using nmat w keys by simp
  moreover from ih have "st' = \<lparr>ws_wayList = take (ws_count st) (ws_wayList st)
                   @ map (\<lambda>wi. way_geom gt (twn ways nodes wi)) (wi # wis)
                   @ drop (ws_count st + length (wi # wis)) (ws_wayList st),
                 ws_kv_mat = take (ws_count st) (ws_kv_mat st)
                   @ map (way_row ways uv) (wi # wis)
                   @ drop (ws_count st + length (wi # wis)) (ws_kv_mat st),
                 ws_waynames = ws_waynames st @ map to_string (wi # wis),
                 ws_count = ws_count st + length (wi # wis)\<rparr>"
    using c c2 by (simp add: m'_eq take_Suc_update g r)
  ultimately show ?case by blast
qed

lemma get_osm_ways_None:
  assumes "get_osm_ways twn out way_ids ways nodes uv gt = (None, out')"
  shows "(gt = ''POLYGON'' \<or> gt = ''LINESTRING'') \<and> length (geoms out) = set_size way_ids \<and>
      (\<forall>wi \<in> set (set_elems way_ids). \<exists>nmat w. twn ways nodes wi = Inr nmat \<and>
          RBT.lookup ways wi = Some w \<and>
          (\<forall>k \<in> set (RBT.keys (w_key_val w)). set_member (k_way uv) k)) \<and>
      out' = \<lparr>geoms = map (\<lambda>wi. way_geom gt (twn ways nodes wi)) (set_elems way_ids),
              geom_names = map to_string (set_elems way_ids),
              geom_class = [''sfc_'' @ gt, ''sfc''],
              kv_df = Some \<lparr>df_rownames = map to_string (set_elems way_ids),
                             df_colnames = set_elems (k_way uv),
                             df_cells = map (way_row ways uv) (set_elems way_ids),
                             df_flag = False\<rparr>\<rparr>"
proof -
  from assms have gt: "gt = ''POLYGON'' \<or> gt = ''LINESTRING''"
    by (auto simp: get_osm_ways_def split: if_splits)
  from assms gt have len: "length (geoms out) = set_size way_ids"
    by (auto simp: get_osm_ways_def split: if_splits)
  let ?st = "\<lparr>ws_wayList = geoms out,
               ws_kv_mat = CharacterMatrix (set_size way_ids) (set_size (k_way uv)) NA_STRING,
               ws_waynames = [], ws_count = 0\<rparr> :: 'a ways_state"
  obtain st' where loop: "ways_loop twn ways nodes uv gt (set_elems way_ids) ?st = (None, st')"
    and out': "out' = \<lparr>geoms = ws_wayList st', geom_names = ws_waynames st',
                     geom_class = [''sfc_'' @ gt, ''sfc''],
                     kv_df = Some (restructure_kv_mat (ws_waynames st')
                                     (set_elems (k_way uv)) (ws_kv_mat st') False)\<rparr>"
    using assms gt len
    by (auto simp: get_osm_ways_def Let_def split: if_splits prod.splits option.splits)
  have "ws_count ?st + length (set_elems way_ids) \<le> length (ws_wayList ?st)"
    using len by (simp add: set_size_elems)
  moreover have "ws_count ?st + length (set_elems way_ids) \<le> length (ws_kv_mat ?st)"
    by (simp add: set_size_elems CharacterMatrix_props)
  ultimately show ?thesis
    using ways_loop_None [OF loop] out' gt len
    by (simp add: set_size_elems CharacterMatrix_props restructure_kv_mat_def)
qed

lemma emitted_Nil: "emitted uv [] acc = acc"
  by (simp add: emitted_def)

lemma emitted_append:
  "a_count acc + length xs \<le> length (a_kv_mat acc) \<Longrightarrow>
   emitted uv (xs @ ys) acc = emitted uv ys (emitted uv xs acc)"
proof -
  assume a: "a_count acc + length xs \<le> length (a_kv_mat acc)"
  then have "length (a_kv_mat acc) \<le> a_count acc \<Longrightarrow> xs = []" by (cases xs) simp_all
  with a show ?thesis by (auto simp: emitted_def min_def ac_simps)
qed

lemma emitted_fields:
  "a_count (emitted uv xs acc) = a_count acc + length xs"
  "a_rel_id (emitted uv xs acc) = a_rel_id acc @ map (\<lambda>x. fst (snd x)) xs"
  "a_count acc + length xs \<le> length (a_kv_mat acc) \<Longrightarrow>
     length (a_kv_mat (emitted uv xs acc)) = length (a_kv_mat acc)"
  by (simp_all add: emitted_def)

lemma emit_Inr:
  "emit uv r label tr acc = Inr acc' \<longleftrightarrow>
     (\<forall>k \<in> set (RBT.keys (r_key_val r)). set_member (k_rel uv) k) \<and>
     a_count acc < length (a_kv_mat acc) \<and> acc' = emitted uv [(r, label, tr)] acc"
proof (cases "get_value_mat_rel r uv (a_kv_mat acc) (a_count acc)")
  case (Inl e)
  then have "\<not> ((\<forall>k \<in> set (RBT.keys (r_key_val r)). set_member (k_rel uv) k) \<and>
     a_count acc < length (a_kv_mat acc))"
    using get_value_mat_rel_Inr [of r uv "a_kv_mat acc" "a_count acc"] by auto
  with Inl show ?thesis by (auto simp: emit_def split: prod.splits)
next
  case (Inr m')
  then have *: "(\<forall>k \<in> set (RBT.keys (r_key_val r)). set_member (k_rel uv) k)"
     "a_count acc < length (a_kv_mat acc)"
     "m' = (a_kv_mat acc)[a_count acc := rel_row uv r]"
    by (simp_all add: get_value_mat_rel_Inr rel_row_def)
  have "(a_kv_mat acc)[a_count acc := rel_row uv r] =
        take (a_count acc) (a_kv_mat acc) @ rel_row uv r # drop (Suc (a_count acc)) (a_kv_mat acc)"
    using *(2) by (simp add: upd_conv_take_nth_drop)
  with Inr * show ?thesis
    by (cases tr) (auto simp: emit_def emitted_def)
qed

lemma roles_loop_Inr:
  assumes "roles_loop tls ways nodes uv r roles ls = Inr ls'"
  shows "(\<forall>role \<in> set roles. \<exists>tr. tls r role ways nodes = Inr tr) \<and>
         (roles \<noteq> [] \<longrightarrow> (\<forall>k \<in> set (RBT.keys (r_key_val r)). set_member (k_rel uv) k)) \<and>
         (roles \<noteq> [] \<longrightarrow> a_count ls + length roles \<le> length (a_kv_mat ls)) \<and>
         ls' = emitted uv (role_items tls ways nodes r roles) ls"
  using assms
proof (induction roles arbitrary: ls)
  case Nil
  then show ?case by (simp add: role_items_def emitted_Nil)
next
  case (Cons role roles)
  from Cons.prems obtain tr where tr: "tls r role ways nodes = Inr tr"
    by (cases "tls r role ways nodes") simp_all
  from Cons.prems tr obtain ls1 where ls1: "emit uv r (ls_label r role) tr ls = Inr ls1"
    by (cases "emit uv r (ls_label r role) tr ls") simp_all
  from Cons.prems tr ls1 have rest: "roles_loop tls ways nodes uv r roles ls1 = Inr ls'" by simp
  from ls1 have keys: "\<forall>k \<in> set (RBT.keys (r_key_val r)). set_member (k_rel uv) k"
    and c: "a_count ls < length (a_kv_mat ls)"
    and ls1_eq: "ls1 = emitted uv [(r, ls_label r role, tr)] ls"
    by (simp_all add: emit_Inr)
  have c1: "a_count ls + length [(r, ls_label r role, tr)] \<le> length (a_kv_mat ls)"
    using c by simp
  note ih = Cons.IH [OF rest]
  have items: "role_items tls ways nodes r (role # roles) =
                [(r, ls_label r role, tr)] @ role_items tls ways nodes r roles"
    by (simp add: role_items_def traced_of_def tr)
  have "ls' = emitted uv (role_items tls ways nodes r (role # roles)) ls"
    unfolding items emitted_append [OF c1] using ih ls1_eq by simp
  moreover have "a_count ls + length (role # roles) \<le> length (a_kv_mat ls)"
  proof (cases "roles = []")
    case True
    then show ?thesis using c by simp
  next
    case False
    with ih have "a_count ls1 + length roles \<le> length (a_kv_mat ls1)" by simp
    then show ?thesis
      using c1 by (simp add: ls1_eq emitted_fields)
  qed
  moreover have "\<forall>role' \<in> set (role # roles). \<exists>tr. tls r role' ways nodes = Inr tr"
    using ih tr by (simp del: split_paired_Ex)
  ultimately show ?case using keys by blast
qed

lemma length_role_items [simp]: "length (role_items tls ways nodes r roles) = length roles"
  by (simp add: role_items_def)

lemma ls_items_simps:
  "ls_items tls ways nodes [] = []"
  "r_ispoly r \<Longrightarrow> ls_items tls ways nodes (r # rs) = ls_items tls ways nodes rs"
  "\<not> r_ispoly r \<Longrightarrow> ls_items tls ways nodes (r # rs) =
      role_items tls ways nodes r (roles_of r) @ ls_items tls ways nodes rs"
  by (simp_all add: ls_items_def)

lemma mp_items_simps:
  "mp_items tmp ways nodes [] = []"
  "r_ispoly r \<Longrightarrow> mp_items tmp ways nodes (r # rs) =
      [(r, to_string (r_id r), traced_of (tmp r ways nodes))] @ mp_items tmp ways nodes rs"
  "\<not> r_ispoly r \<Longrightarrow> mp_items tmp ways nodes (r # rs) = mp_items tmp ways nodes rs"
  by (simp_all add: mp_items_def)

lemma rels_loop_Inr:
  assumes "rels_loop tmp tls ways nodes uv rels (mp, ls) = Inr (mp', ls')"
    and "a_count mp \<le> length (a_kv_mat mp)" "a_count ls \<le> length (a_kv_mat ls)"
  shows "mp' = emitted uv (mp_items tmp ways nodes rels) mp \<and>
         ls' = emitted uv (ls_items tls ways nodes rels) ls \<and>
         a_count mp + length (mp_items tmp ways nodes rels) \<le> length (a_kv_mat mp) \<and>
         a_count ls + length (ls_items tls ways nodes rels) \<le> length (a_kv_mat ls) \<and>
         (\<forall>r \<in> set rels. r_ispoly r \<longrightarrow> (\<exists>tr. tmp r ways nodes = Inr tr)) \<and>
         (\<forall>r \<in> set rels. \<not> r_ispoly r \<longrightarrow>
            (\<forall>role \<in> set (roles_of r). \<exists>tr. tls r role ways nodes = Inr tr)) \<and>
         (\<forall>r \<in> set rels. r_ispoly r \<or> roles_of r \<noteq> [] \<longrightarrow>
            (\<forall>k \<in> set (RBT.keys (r_key_val r)). set_member (k_rel uv) k))"
  using assms
proof (induction rels arbitrary: mp ls)
  case Nil
  then show ?case by (simp add: ls_items_simps mp_items_simps emitted_Nil)
next
  case (Cons r rs)
  show ?case
  proof (cases "r_ispoly r")
    case True
    from Cons.prems(1) True obtain tr where tr: "tmp r ways nodes = Inr tr"
      by (cases "tmp r ways nodes") simp_all
    from Cons.prems(1) True tr obtain mp1 where
      mp1: "emit uv r (to_string (r_id r)) tr mp = Inr mp1"
      by (cases "emit uv r (to_string (r_id r)) tr mp") simp_all
    from Cons.prems(1) True tr mp1 have
      rest: "rels_loop tmp tls ways nodes uv rs (mp1, ls) = Inr (mp', ls')" by simp
    from mp1 have keys: "\<forall>k \<in> set (RBT.keys (r_key_val r)). set_member (k_rel uv) k"
      and c: "a_count mp < length (a_kv_mat mp)"
      and mp1_eq: "mp1 = emitted uv [(r, to_string (r_id r), tr)] mp"
      by (simp_all add: emit_Inr)
    have c1: "a_count mp + length [(r, to_string (r_id r), tr)] \<le> length (a_kv_mat mp)"
      using c by simp
    have c2: "a_count mp1 \<le> length (a_kv_mat mp1)"
      using c1 by (simp add: mp1_eq emitted_fields)
    note ih = Cons.IH [OF rest c2 Cons.prems(3)]
    have items: "mp_items tmp ways nodes (r # rs) =
        [(r, to_string (r_id r), tr)] @ mp_items tmp ways nodes rs"
      using True by (simp add: mp_items_simps traced_of_def tr)
    have "mp' = emitted uv (mp_items tmp ways nodes (r # rs)) mp"
      unfolding items emitted_append [OF c1] using ih mp1_eq by simp
    moreover have "a_count mp + length (mp_items tmp ways nodes (r # rs)) \<le> length (a_kv_mat mp)"
      using ih c1 by (simp add: items mp1_eq emitted_fields)
    moreover have "\<forall>r' \<in> set (r # rs). r_ispoly r' \<longrightarrow> (\<exists>tr. tmp r' ways nodes = Inr tr)"
      using ih tr by (simp del: split_paired_Ex)
    moreover have "\<forall>r' \<in> set (r # rs). \<not> r_ispoly r' \<longrightarrow>
            (\<forall>role \<in> set (roles_of r'). \<exists>tr. tls r' role ways nodes = Inr tr)"
      using ih True by (simp del: split_paired_Ex)
    moreover have "ls' = emitted uv (ls_items tls ways nodes (r # rs)) ls"
      "a_count ls + length (ls_items tls ways nodes (r # rs)) \<le> length (a_kv_mat ls)"
      using ih True by (simp_all add: ls_items_simps)
    moreover have "\<forall>r' \<in> set (r # rs). r_ispoly r' \<or> roles_of r' \<noteq> [] \<longrightarrow>
            (\<forall>k \<in> set (RBT.keys (r_key_val r')). set_member (k_rel uv) k)"
      using ih keys by simp
    ultimately show ?thesis by blast
  next
    case False
    from Cons.prems(1) False obtain ls1 where
      ls1: "roles_loop tls ways nodes uv r (roles_of r) ls = Inr ls1"
      by (cases "roles_loop tls ways nodes uv r (roles_of r) ls") simp_all
    from Cons.prems(1) False ls1 have
      rest: "rels_loop tmp tls ways nodes uv rs (mp, ls1) = Inr (mp', ls')" by simp
    note rl = roles_loop_Inr [OF ls1]
    have c1: "a_count ls + length (role_items tls ways nodes r (roles_of r)) \<le> length (a_kv_mat ls)"
      using rl Cons.prems(3) by (cases "roles_of r = []") simp_all
    have ls1_eq: "ls1 = emitted uv (role_items tls ways nodes r (roles_of r)) ls"
      using rl by simp
    have c2: "a_count ls1 \<le> length (a_kv_mat ls1)"
      using c1 by (simp add: ls1_eq emitted_fields)
    note ih = Cons.IH [OF rest Cons.prems(2) c2]
    have items: "ls_items tls ways nodes (r # rs) =
        role_items tls ways nodes r (roles_of r) @ ls_items tls ways nodes rs"
      using False by (simp add: ls_items_simps)
    have "ls' = emitted uv (ls_items tls ways nodes (r # rs)) ls"
      unfolding items emitted_append [OF c1] using ih ls1_eq by simp
    moreover have "a_count ls + length (ls_items tls ways nodes (r # rs)) \<le> length (a_kv_mat ls)"
      using ih c1 by (simp add: items ls1_eq emitted_fields)
    moreover have "\<forall>r' \<in> set (r # rs). r_ispoly r' \<longrightarrow> (\<exists>tr. tmp r' ways nodes = Inr tr)"
      using ih False by (simp del: split_paired_Ex)
    moreover have "\<forall>r' \<in> set (r # rs). \<not> r_ispoly r' \<longrightarrow>
            (\<forall>role \<in> set (roles_of r'). \<exists>tr. tls r' role ways nodes = Inr tr)"
      using ih rl by (simp del: split_paired_Ex)
    moreover have "mp' = emitted uv (mp_items tmp ways nodes (r # rs)) mp"
      "a_count mp + length (mp_items tmp ways nodes (r # rs)) \<le> length (a_kv_mat mp)"
      using ih False by (simp_all add: mp_items_simps)
    moreover have "\<forall>r' \<in> set (r # rs). r_ispoly r' \<or> roles_of r' \<noteq> [] \<longrightarrow>
            (\<forall>k \<in> set (RBT.keys (r_key_val r')). set_member (k_rel uv) k)"
      using ih rl False by simp
    ultimately show ?thesis by blast
  qed
qed

lemma count_relations_eq:
  "count_relations rels (a, b) =
     (a + length (filter r_ispoly rels),
      b + sum_list (map (\<lambda>r. length (roles_of r)) (filter (\<lambda>r. \<not> r_ispoly r) rels)))"
  by (induction rels arbitrary: a b) (simp_all add: roles_of_def set_size_elems)

lemma length_ls_items:
  "length (ls_items tls ways nodes rels) =
     sum_list (map (\<lambda>r. length (roles_of r)) (filter (\<lambda>r. \<not> r_ispoly r) rels))"
  by (simp add: ls_items_def length_concat comp_def)

lemma length_mp_items: "length (mp_items tmp ways nodes rels) = length (filter r_ispoly rels)"
  by (simp add: mp_items_def)

lemma same_length_None: "same_length nm xs ys = None \<longleftrightarrow> length xs = length ys"
  by (simp add: same_length_def)

lemma same_length_Some:
  "same_length nm xs ys = Some e \<Longrightarrow> \<exists>a b. e = StructuralMismatchError nm a b \<and> a \<noteq> b"
  by (auto simp: same_length_def split: if_splits)

lemma first_error_None: "first_error es = None \<longleftrightarrow> (\<forall>e \<in> set es. e = None)"
  by (induction es rule: first_error.induct) auto

lemma first_error_Some: "first_error es = Some e \<Longrightarrow> Some e \<in> set es"
  by (induction es rule: first_error.induct) auto

lemma seq_None:
  "(case x of Some e \<Rightarrow> Some e | None \<Rightarrow> y) = None \<longleftrightarrow> x = None \<and> y = None"
  by (cases x) simp_all

lemma seq_Some:
  "(case x of Some e \<Rightarrow> Some e | None \<Rightarrow> y) = Some e \<longleftrightarrow>
     x = Some e \<or> (x = None \<and> y = Some e)"
  by (cases x) simp_all

lemma check_arr2_None:
  "check_arr2 nm xss yss = None \<longleftrightarrow> list_all2 (\<lambda>xs ys. length xs = length ys) xss yss"
  unfolding check_arr2_def seq_None
  by (auto simp: same_length_None first_error_None list_all2_iff)

lemma check_arr2_Some:
  "check_arr2 nm xss yss = Some e \<Longrightarrow> \<exists>a b. e = StructuralMismatchError nm a b \<and> a \<noteq> b"
  unfolding check_arr2_def seq_Some
  by (auto dest!: first_error_Some dest: same_length_Some same_length_Some [OF sym])

lemma check_arr3_None:
  "check_arr3 nm xsss ysss = None \<longleftrightarrow>
     list_all2 (list_all2 (\<lambda>xs ys. length xs = length ys)) xsss ysss"
  unfolding check_arr3_def seq_None
  by (auto simp: same_length_None first_error_None list_all2_iff [of _ xsss ysss]
        check_arr2_None)

lemma check_arr3_Some:
  "check_arr3 nm xsss ysss = Some e \<Longrightarrow> \<exists>a b. e = StructuralMismatchError nm a b \<and> a \<noteq> b"
  unfolding check_arr3_def seq_Some
  by (auto dest!: first_error_Some dest: same_length_Some check_arr2_Some check_arr2_Some [OF sym])

lemma check_geom_arrs_None:
  "check_geom_arrs lon lat rn = None \<longleftrightarrow>
     list_all2 (list_all2 (\<lambda>xs ys. length xs = length ys)) lon lat \<and>
     list_all2 (list_all2 (\<lambda>xs ys. length xs = length ys)) lon rn"
  unfolding check_geom_arrs_def seq_None by (simp add: check_arr3_None)

lemma check_geom_arrs_Some:
  "check_geom_arrs lon lat rn = Some e \<Longrightarrow> \<exists>nm a b. e = StructuralMismatchError nm a b \<and> a \<noteq> b"
  unfolding check_geom_arrs_def seq_Some by (auto dest: check_arr3_Some)

lemma check_id_arr_None:
  "check_id_arr lon ids = None \<longleftrightarrow> list_all2 (\<lambda>xs ys. length xs = length ys) lon ids"
  by (simp add: check_id_arr_def check_arr2_None)

lemma check_id_arr_Some:
  "check_id_arr lon ids = Some e \<Longrightarrow> \<exists>nm a b. e = StructuralMismatchError nm a b \<and> a \<noteq> b"
  by (auto simp: check_id_arr_def dest: check_arr2_Some)

lemma emitted_init:
  "emitted uv items (init_acc (length items) ncol) =
     \<lparr>a_lon = map (\<lambda>x. fst (snd (snd x))) items,
      a_lat = map (\<lambda>x. fst (snd (snd (snd x)))) items,
      a_rowname = map (\<lambda>x. fst (snd (snd (snd (snd x))))) items,
      a_id = map (\<lambda>x. snd (snd (snd (snd (snd x))))) items,
      a_rel_id = map (\<lambda>x. fst (snd x)) items,
      a_kv_mat = map (\<lambda>x. rel_row uv (fst x)) items,
      a_count = length items\<rparr>"
  by (simp add: emitted_def init_acc_def CharacterMatrix_def)

lemma get_osm_relations_alt:
  "get_osm_relations tmp tls rels nodes ways uv =
     (case rels_loop tmp tls ways nodes uv rels
             (init_acc (length (mp_items tmp ways nodes rels)) (set_size (k_rel uv)),
              init_acc (length (ls_items tls ways nodes rels)) (set_size (k_rel uv))) of
        Inl e \<Rightarrow> Inl e
      | Inr (mp, ls) \<Rightarrow> (case checks mp ls of Some e \<Rightarrow> Inl e | None \<Rightarrow> Inr (ret_of uv mp ls)))"
  unfolding get_osm_relations_def
  by (simp add: count_relations_eq length_ls_items length_mp_items Let_def checks_def ret_of_def
           split: sum.splits prod.splits option.splits)

lemma checks_None:
  "checks mp ls = None \<longleftrightarrow>
     list_all2 (list_all2 (\<lambda>xs ys. length xs = length ys)) (a_lon mp) (a_lat mp) \<and>
     list_all2 (list_all2 (\<lambda>xs ys. length xs = length ys)) (a_lon mp) (a_rowname mp) \<and>
     list_all2 (\<lambda>xs ys. length xs = length ys) (a_lon mp) (a_id mp) \<and>
     list_all2 (list_all2 (\<lambda>xs ys. length xs = length ys)) (a_lon ls) (a_lat ls) \<and>
     list_all2 (list_all2 (\<lambda>xs ys. length xs = length ys)) (a_lon ls) (a_rowname ls) \<and>
     list_all2 (\<lambda>xs ys. length xs = length ys) (a_lon ls) (a_id ls)"
  unfolding checks_def seq_None by (auto simp: check_geom_arrs_None check_id_arr_None)

lemma checks_Some:
  "checks mp ls = Some e \<Longrightarrow> \<exists>nm a b. e = StructuralMismatchError nm a b \<and> a \<noteq> b"
  unfolding checks_def seq_Some by (auto dest: check_geom_arrs_Some check_id_arr_Some)

lemma get_osm_relations_Inr:
  assumes "get_osm_relations tmp tls rels nodes ways uv = Inr ret"
  defines "mp \<equiv> emitted uv (mp_items tmp ways nodes rels)
                   (init_acc (length (mp_items tmp ways nodes rels)) (set_size (k_rel uv)))"
    and "ls \<equiv> emitted uv (ls_items tls ways nodes rels)
                   (init_acc (length (ls_items tls ways nodes rels)) (set_size (k_rel uv)))"
  shows "ret = ret_of uv mp ls" and "checks mp ls = None"
    and "\<forall>r \<in> set rels. r_ispoly r \<longrightarrow> (\<exists>tr. tmp r ways nodes = Inr tr)"
    and "\<forall>r \<in> set rels. \<not> r_ispoly r \<longrightarrow>
            (\<forall>role \<in> set (roles_of r). \<exists>tr. tls r role ways nodes = Inr tr)"
    and "\<forall>r \<in> set rels. r_ispoly r \<or> roles_of r \<noteq> [] \<longrightarrow>
            (\<forall>k \<in> set (RBT.keys (r_key_val r)). set_member (k_rel uv) k)"
proof -
  let ?mp0 = "init_acc (length (mp_items tmp ways nodes rels)) (set_size (k_rel uv)) :: string geom_acc"
  let ?ls0 = "init_acc (length (ls_items tls ways nodes rels)) (set_size (k_rel uv)) :: osmid_t geom_acc"
  from assms(1) obtain mp' ls' where
    loop: "rels_loop tmp tls ways nodes uv rels (?mp0, ?ls0) = Inr (mp', ls')"
    and c: "checks mp' ls' = None" and r: "ret = ret_of uv mp' ls'"
    unfolding get_osm_relations_alt
    by (auto split: sum.splits option.splits)
  have "a_count ?mp0 \<le> length (a_kv_mat ?mp0)" "a_count ?ls0 \<le> length (a_kv_mat ?ls0)"
    by (simp_all add: init_acc_def)
  note rl = rels_loop_Inr [OF loop this]
  from rl have "mp' = mp" "ls' = ls" by (simp_all add: mp_def ls_def)
  with c r show "ret = ret_of uv mp ls" "checks mp ls = None" by simp_all
  from rl show "\<forall>r \<in> set rels. r_ispoly r \<longrightarrow> (\<exists>tr. tmp r ways nodes = Inr tr)" by blast
  from rl show "\<forall>r \<in> set rels. \<not> r_ispoly r \<longrightarrow>
            (\<forall>role \<in> set (roles_of r). \<exists>tr. tls r role ways nodes = Inr tr)" by blast
  from rl show "\<forall>r \<in> set rels. r_ispoly r \<or> roles_of r \<noteq> [] \<longrightarrow>
            (\<forall>k \<in> set (RBT.keys (r_key_val r)). set_member (k_rel uv) k)" by blast
qed

lemma set_elems_insert: "set (set_elems (set_insert x s)) = insert x (set (set_elems s))"
proof -
  have "dom (RBT.lookup (RBT.insert x () s)) = insert x (dom (RBT.lookup s))"
    by (simp add: RBT.lookup_insert)
  then show ?thesis
    unfolding set_elems_def set_insert_def by (simp add: RBT.lookup_keys [symmetric])
qed

lemma set_elems_empty: "set_elems RBT.empty = []"
proof -
  have "set (RBT.keys (RBT.empty :: ('a, unit) rbt)) = {}"
    by (simp add: RBT.lookup_keys [symmetric])
  then show ?thesis unfolding set_elems_def by simp
qed

lemma set_fold_insert:
  "set (set_elems (fold (\<lambda>itw s. set_insert (f itw) s) xs t)) = f ` set xs \<union> set (set_elems t)"
  by (induction xs arbitrary: t) (auto simp: set_elems_insert)

lemma set_roles_of: "set (roles_of r) = snd ` set (r_ways r)"
  by (simp add: roles_of_def roles_set_def set_fold_insert set_elems_empty)

lemma strict_sorted_set_elems: "sorted_wrt (<) (set_elems s)"
  by (simp add: strict_sorted_iff set_elems_sorted set_elems_distinct)

lemma length_roles_of: "length (roles_of r) = card (snd ` set (r_ways r))"
  using set_roles_of [of r] set_elems_distinct [of "roles_set r"]
  by (metis distinct_card roles_of_def)

lemma roles_of_Nil: "r_ways r = [] \<Longrightarrow> roles_of r = []"
  using set_roles_of [of r] by simp

lemma set_insert_member: "set_member s x \<Longrightarrow> insert x (set (set_elems s)) = set (set_elems s)"
  by (auto simp: set_member_iff)

lemma divide_ways_Inr:
  assumes "divide_ways es (p, n) = Inr (p', n')"
  shows "(\<forall>a \<in> set es. w_nodes (snd a) \<noteq> []) \<and>
     set (set_elems p') = set (set_elems p) \<union>
        fst ` {a \<in> set es. hd (w_nodes (snd a)) = last (w_nodes (snd a))} \<and>
     set (set_elems n') = set (set_elems n) \<union>
        fst ` {a \<in> set es. hd (w_nodes (snd a)) \<noteq> last (w_nodes (snd a))}"
  using assms
proof (induction es arbitrary: p n)
  case Nil
  then show ?case by simp
next
  case (Cons a es)
  obtain wid w where a: "a = (wid, w)" by (cases a)
  from Cons.prems a have ne: "w_nodes w \<noteq> []" by (auto split: if_splits)
  show ?case
  proof (cases "hd (w_nodes w) = last (w_nodes w)")
    case True
    let ?p1 = "if \<not> set_member p wid then set_insert wid p else p"
    from Cons.prems a ne True have "divide_ways es (?p1, n) = Inr (p', n')"
      by (auto split: if_splits)
    note ih = Cons.IH [OF this]
    have p1: "set (set_elems ?p1) = insert wid (set (set_elems p))"
      by (auto simp: set_elems_insert set_member_iff)
    have s1: "fst ` {x \<in> set (a # es). hd (w_nodes (snd x)) = last (w_nodes (snd x))} =
        insert wid (fst ` {x \<in> set es. hd (w_nodes (snd x)) = last (w_nodes (snd x))})"
      using a True by force
    have s2: "fst ` {x \<in> set (a # es). hd (w_nodes (snd x)) \<noteq> last (w_nodes (snd x))} =
        fst ` {x \<in> set es. hd (w_nodes (snd x)) \<noteq> last (w_nodes (snd x))}"
      using a True by force
    have "\<forall>x \<in> set (a # es). w_nodes (snd x) \<noteq> []" using ih a ne by simp
    then show ?thesis unfolding s1 s2 using ih p1 by simp
  next
    case False
    let ?n1 = "if \<not> set_member n wid then set_insert wid n else n"
    from Cons.prems a ne False have "divide_ways es (p, ?n1) = Inr (p', n')"
      by (auto split: if_splits)
    note ih = Cons.IH [OF this]
    have n1: "set (set_elems ?n1) = insert wid (set (set_elems n))"
      by (auto simp: set_elems_insert set_member_iff)
    have s1: "fst ` {x \<in> set (a # es). hd (w_nodes (snd x)) = last (w_nodes (snd x))} =
        fst ` {x \<in> set es. hd (w_nodes (snd x)) = last (w_nodes (snd x))}"
      using a False by force
    have s2: "fst ` {x \<in> set (a # es). hd (w_nodes (snd x)) \<noteq> last (w_nodes (snd x))} =
        insert wid (fst ` {x \<in> set es. hd (w_nodes (snd x)) \<noteq> last (w_nodes (snd x))})"
      using a False by force
    have "\<forall>x \<in> set (a # es). w_nodes (snd x) \<noteq> []" using ih a ne by simp
    then show ?thesis unfolding s1 s2 using ih n1 by simp
  qed
qed

lemma entries_sorted_distinct:
  "sorted (map fst (RBT.entries t))" "distinct (map fst (RBT.entries t))"
  using RBT.sorted_keys [of t] RBT.distinct_keys [of t] by (simp_all add: RBT.keys_def_alt)

lemma set_elems_eq_filter:
  assumes "set (set_elems s) = fst ` {a \<in> set (RBT.entries t). P a}"
  shows "set_elems s = map fst (filter P (RBT.entries t))"
proof (rule sorted_distinct_set_unique)
  show "sorted (set_elems s)" "distinct (set_elems s)"
    by (rule set_elems_sorted set_elems_distinct)+
  show "sorted (map fst (filter P (RBT.entries t)))"
    by (rule sorted_filter) (rule entries_sorted_distinct)
  show "distinct (map fst (filter P (RBT.entries t)))"
    by (rule distinct_map_filter) (rule entries_sorted_distinct)
  show "set (set_elems s) = set (map fst (filter P (RBT.entries t)))"
    using assms by auto
qed

lemma divide_ways_entries:
  assumes "divide_ways (RBT.entries ways) (RBT.empty, RBT.empty) = Inr (p, n)"
  shows "\<forall>a \<in> set (RBT.entries ways). w_nodes (snd a) \<noteq> []"
    and "set_elems p = map fst (filter (\<lambda>a. hd (w_nodes (snd a)) = last (w_nodes (snd a)))
                                  (RBT.entries ways))"
    and "set_elems n = map fst (filter (\<lambda>a. hd (w_nodes (snd a)) \<noteq> last (w_nodes (snd a)))
                                  (RBT.entries ways))"
  using divide_ways_Inr [OF assms]
  by (simp_all add: set_elems_empty set_elems_eq_filter)

lemma divide_ways_total:
  "\<forall>a \<in> set es. w_nodes (snd a) \<noteq> [] \<Longrightarrow> \<exists>st'. divide_ways es st = Inr st'"
proof (induction es arbitrary: st)
  case Nil
  then show ?case by simp
next
  case (Cons a es)
  then show ?case by (cases a; cases st) (simp del: split_paired_Ex)
qed

lemma trace_rings_Inr:
  assumes "trace_rings tw ways nodes ms = Inr (lo, la, rn, ids)"
  shows "length lo = length ms \<and> length la = length ms \<and> length rn = length ms \<and>
         ids = map (\<lambda>m. to_string (fst m)) ms \<and>
         (\<forall>i < length ms. tw ways nodes (fst (ms ! i)) = Inr (lo ! i, la ! i, rn ! i))"
  using assms
proof (induction ms arbitrary: lo la rn ids)
  case Nil
  then show ?case by simp
next
  case (Cons m ms)
  obtain wid role where m: "m = (wid, role)" by (cases m)
  from Cons.prems m obtain lons lats labels where
    tw: "tw ways nodes wid = Inr (lons, lats, labels)"
    by (cases "tw ways nodes wid") auto
  from Cons.prems m tw obtain lo' la' rn' ids' where
    rest: "trace_rings tw ways nodes ms = Inr (lo', la', rn', ids')"
    and eq: "lo = lons # lo'" "la = lats # la'" "rn = labels # rn'" "ids = to_string wid # ids'"
    by (auto split: if_splits sum.splits)
  note ih = Cons.IH [OF rest]
  show ?case
    using ih eq m tw by (auto simp: nth_Cons split: nat.splits)
qed


lemma get_osm_nodes_err:
  "fst (get_osm_nodes out nodes uv) = Some e \<Longrightarrow>
   e = undefined_behaviour \<or> e = runtime_error ''points must have same size as nodes''"
  by (auto simp: get_osm_nodes_def Let_def split: if_splits prod.splits option.splits
           dest: nodes_loop_err)

lemma rcpp_osmdata_sf_Inr:
  assumes "rcpp_osmdata_sf tmp tls twn nodes ways rels uv = Inr ret"
  shows "\<exists>tempList poly_ways non_poly_ways.
     get_osm_relations tmp tls rels nodes ways uv = Inr tempList \<and>
     multipolygons ret = polygonList tempList \<and>
     multipolygons_kv ret = data_frame (List_class_data_frame (kv_df_mp tempList)) \<and>
     multilinestrings ret = linestringList tempList \<and>
     multilinestrings_kv ret = data_frame (List_class_data_frame (kv_df_ls tempList)) \<and>
     divide_ways (RBT.entries ways) (RBT.empty, RBT.empty) = Inr (poly_ways, non_poly_ways) \<and>
     get_osm_ways twn (new_List (set_size poly_ways)) poly_ways ways nodes uv ''POLYGON'' =
       (None, polygons ret) \<and>
     get_osm_ways twn (new_List (set_size non_poly_ways)) non_poly_ways ways nodes uv
       ''LINESTRING'' = (None, linestrings ret) \<and>
     get_osm_nodes (new_List (length (RBT.entries nodes))) nodes uv = (None, points ret)"
  using assms unfolding rcpp_osmdata_sf_def
  by (auto split: sum.splits prod.splits option.splits)

lemma get_osm_nodes_names:
  assumes "get_osm_nodes out nodes uv = (None, out')"
  shows "geom_names out' = map to_string (RBT.keys nodes)"
    and "\<exists>df. kv_df out' = Some df \<and> df_rownames df = map to_string (RBT.keys nodes)"
proof -
  note pre = get_osm_nodes_None [OF assms]
  from get_osm_nodes_ok [OF pre] assms
  show "geom_names out' = map to_string (RBT.keys nodes)"
    "\<exists>df. kv_df out' = Some df \<and> df_rownames df = map to_string (RBT.keys nodes)"
    by (auto simp: RBT.keys_def_alt)
qed

lemma strict_sorted_keys: "sorted_wrt (<) (RBT.keys t)"
  by (simp add: strict_sorted_iff RBT.sorted_keys RBT.distinct_keys)

lemma ls_items_maps:
  "map (\<lambda>x. fst (snd x)) (ls_items tls ways nodes rels) =
     concat (map (\<lambda>r. map (ls_label r) (roles_of r)) (filter (\<lambda>r. \<not> r_ispoly r) rels))"
  "map (\<lambda>x. rel_row uv (fst x)) (ls_items tls ways nodes rels) =
     concat (map (\<lambda>r. replicate (length (roles_of r)) (rel_row uv r))
               (filter (\<lambda>r. \<not> r_ispoly r) rels))"
  "map (\<lambda>x. fst (snd (snd x))) (ls_items tls ways nodes rels) =
     concat (map (\<lambda>r. map (\<lambda>role. fst (traced_of (tls r role ways nodes))) (roles_of r))
               (filter (\<lambda>r. \<not> r_ispoly r) rels))"
  by (simp_all add: ls_items_def role_items_def map_concat comp_def map_replicate_const)

lemma mp_items_maps:
  "map (\<lambda>x. fst (snd x)) (mp_items tmp ways nodes rels) =
     map (\<lambda>r. to_string (r_id r)) (filter r_ispoly rels)"
  "map (\<lambda>x. rel_row uv (fst x)) (mp_items tmp ways nodes rels) =
     map (rel_row uv) (filter r_ispoly rels)"
  "map (\<lambda>x. fst (snd (snd x))) (mp_items tmp ways nodes rels) =
     map (\<lambda>r. fst (traced_of (tmp r ways nodes))) (filter r_ispoly rels)"
  "map (\<lambda>x. fst (snd (snd (snd x)))) (mp_items tmp ways nodes rels) =
     map (\<lambda>r. fst (snd (traced_of (tmp r ways nodes)))) (filter r_ispoly rels)"
  "map (\<lambda>x. fst (snd (snd (snd (snd x))))) (mp_items tmp ways nodes rels) =
     map (\<lambda>r. fst (snd (snd (traced_of (tmp r ways nodes))))) (filter r_ispoly rels)"
  "map (\<lambda>x. snd (snd (snd (snd (snd x))))) (mp_items tmp ways nodes rels) =
     map (\<lambda>r. snd (snd (snd (traced_of (tmp r ways nodes))))) (filter r_ispoly rels)"
  by (simp_all add: mp_items_def comp_def)

lemma get_osm_relations_mp:
  assumes "get_osm_relations tmp tls rels nodes ways uv = Inr ret"
  shows "mg_rel_id (polygonList ret) = map (\<lambda>r. to_string (r_id r)) (filter r_ispoly rels)"
    and "mg_lon (polygonList ret) =
           map (\<lambda>r. fst (traced_of (tmp r ways nodes))) (filter r_ispoly rels)"
    and "mg_lat (polygonList ret) =
           map (\<lambda>r. fst (snd (traced_of (tmp r ways nodes)))) (filter r_ispoly rels)"
    and "mg_rowname (polygonList ret) =
           map (\<lambda>r. fst (snd (snd (traced_of (tmp r ways nodes))))) (filter r_ispoly rels)"
    and "mg_id (polygonList ret) =
           map (\<lambda>r. snd (snd (snd (traced_of (tmp r ways nodes))))) (filter r_ispoly rels)"
    and "kv_df_mp ret =
           data_frame
             (if filter r_ispoly rels = [] then empty_data_frame
              else \<lparr>df_rownames = map (\<lambda>r. to_string (r_id r)) (filter r_ispoly rels),
                    df_colnames = set_elems (k_rel uv),
                    df_cells = map (rel_row uv) (filter r_ispoly rels), df_flag = False\<rparr>)"
  using get_osm_relations_Inr(1) [OF assms]
  by (simp_all add: ret_of_def emitted_init mp_items_maps attr_class_def
        convert_poly_linestring_to_Rcpp_def restructure_kv_mat_def as_data_frame_def)

lemma get_osm_relations_ls:
  assumes "get_osm_relations tmp tls rels nodes ways uv = Inr ret"
  shows "mg_rel_id (linestringList ret) =
           concat (map (\<lambda>r. map (ls_label r) (roles_of r)) (filter (\<lambda>r. \<not> r_ispoly r) rels))"
    and "mg_lon (linestringList ret) =
           concat (map (\<lambda>r. map (\<lambda>role. fst (traced_of (tls r role ways nodes))) (roles_of r))
               (filter (\<lambda>r. \<not> r_ispoly r) rels))"
    and "length (mg_lat (linestringList ret)) = length (mg_rel_id (linestringList ret))"
    and "length (mg_rowname (linestringList ret)) = length (mg_rel_id (linestringList ret))"
    and "length (mg_id (linestringList ret)) = length (mg_rel_id (linestringList ret))"
    and "kv_df_ls ret =
           data_frame
             (if mg_rel_id (linestringList ret) = [] then empty_data_frame
              else \<lparr>df_rownames = mg_rel_id (linestringList ret),
                    df_colnames = set_elems (k_rel uv),
                    df_cells = concat (map (\<lambda>r. replicate (length (roles_of r)) (rel_row uv r))
                       (filter (\<lambda>r. \<not> r_ispoly r) rels)),
                    df_flag = True\<rparr>)"
proof -
  note r = get_osm_relations_Inr(1) [OF assms]
  let ?items = "ls_items tls ways nodes rels"
  have l: "linestringList ret = \<lparr>mg_lon = map (\<lambda>x. fst (snd (snd x))) ?items,
      mg_lat = map (\<lambda>x. fst (snd (snd (snd x)))) ?items,
      mg_rowname = map (\<lambda>x. fst (snd (snd (snd (snd x))))) ?items,
      mg_id = map (\<lambda>x. snd (snd (snd (snd (snd x))))) ?items,
      mg_rel_id = map (\<lambda>x. fst (snd x)) ?items,
      mg_type = ''MULTILINESTRING'', mg_class = [''sfc_MULTILINESTRING'', ''sfc'']\<rparr>"
    using r by (simp add: ret_of_def emitted_init attr_class_def
        convert_poly_linestring_to_Rcpp_def)
  show "mg_rel_id (linestringList ret) =
           concat (map (\<lambda>r. map (ls_label r) (roles_of r)) (filter (\<lambda>r. \<not> r_ispoly r) rels))"
    unfolding l by (simp add: ls_items_maps)
  show "mg_lon (linestringList ret) =
           concat (map (\<lambda>r. map (\<lambda>role. fst (traced_of (tls r role ways nodes))) (roles_of r))
               (filter (\<lambda>r. \<not> r_ispoly r) rels))"
    unfolding l by (simp add: ls_items_maps)
  show "length (mg_lat (linestringList ret)) = length (mg_rel_id (linestringList ret))"
    "length (mg_rowname (linestringList ret)) = length (mg_rel_id (linestringList ret))"
    "length (mg_id (linestringList ret)) = length (mg_rel_id (linestringList ret))"
    unfolding l by simp_all
  have "kv_df_ls ret =
           data_frame
             (if map (\<lambda>x. fst (snd x)) ?items = [] then empty_data_frame
              else \<lparr>df_rownames = map (\<lambda>x. fst (snd x)) ?items,
                    df_colnames = set_elems (k_rel uv),
                    df_cells = map (\<lambda>x. rel_row uv (fst x)) ?items,
                    df_flag = True\<rparr>)"
    using r by (simp add: ret_of_def emitted_init restructure_kv_mat_def as_data_frame_def)
  then show "kv_df_ls ret =
           data_frame
             (if mg_rel_id (linestringList ret) = [] then empty_data_frame
              else \<lparr>df_rownames = mg_rel_id (linestringList ret),
                    df_colnames = set_elems (k_rel uv),
                    df_cells = concat (map (\<lambda>r. replicate (length (roles_of r)) (rel_row uv r))
                       (filter (\<lambda>r. \<not> r_ispoly r) rels)),
                    df_flag = True\<rparr>)"
    unfolding l by (simp add: ls_items_maps(2))
qed

lemma roles_of_Nil_iff: "roles_of r = [] \<longleftrightarrow> r_ways r = []"
  using set_roles_of [of r] by (metis image_is_empty set_empty)

lemma rels_loop_skip:
  assumes "\<not> r_ispoly r0" "r_ways r0 = []"
  shows "rels_loop tmp tls ways nodes uv (rs1 @ r0 # rs2) st =
         rels_loop tmp tls ways nodes uv (rs1 @ rs2) st"
proof (induction rs1 arbitrary: st)
  case Nil
  obtain mp ls where st: "st = (mp, ls)" by (cases st)
  show ?case using assms by (simp add: st roles_of_Nil)
next
  case (Cons r rs1)
  obtain mp ls where st: "st = (mp, ls)" by (cases st)
  show ?case
    unfolding st by (simp add: Cons.IH split: sum.splits)
qed

lemma items_skip:
  assumes "\<not> r_ispoly r0" "r_ways r0 = []"
  shows "mp_items tmp ways nodes (rs1 @ r0 # rs2) = mp_items tmp ways nodes (rs1 @ rs2)"
    and "ls_items tls ways nodes (rs1 @ r0 # rs2) = ls_items tls ways nodes (rs1 @ rs2)"
  using assms by (simp_all add: mp_items_def ls_items_def role_items_def roles_of_Nil)

lemma get_osm_relations_skip:
  assumes "\<not> r_ispoly r0" "r_ways r0 = []"
  shows "get_osm_relations tmp tls (rs1 @ r0 # rs2) nodes ways uv =
         get_osm_relations tmp tls (rs1 @ rs2) nodes ways uv"
  unfolding get_osm_relations_alt items_skip [OF assms] rels_loop_skip [OF assms] ..

lemma traced_of_Inr:
  "t = Inr tr \<Longrightarrow> \<exists>la rn ids. t = Inr (fst (traced_of t), la, rn, ids)"
  by (cases tr) (simp add: traced_of_def)

lemma get_osm_relations_traced:
  assumes "get_osm_relations tmp tls rels nodes ways uv = Inr ret"
  shows "list_all2 (\<lambda>g x. \<exists>la rn ids. tls (fst x) (snd x) ways nodes = Inr (g, la, rn, ids))
           (mg_lon (linestringList ret))
           (concat (map (\<lambda>r. map (Pair r) (roles_of r)) (filter (\<lambda>r. \<not> r_ispoly r) rels)))"
proof -
  let ?pairs = "concat (map (\<lambda>r. map (Pair r) (roles_of r)) (filter (\<lambda>r. \<not> r_ispoly r) rels))"
  have lon: "mg_lon (linestringList ret) =
      map (\<lambda>x. fst (traced_of (tls (fst x) (snd x) ways nodes))) ?pairs"
    unfolding get_osm_relations_ls(2) [OF assms] by (simp add: map_concat comp_def)
  have "\<forall>x \<in> set ?pairs. \<exists>tr. tls (fst x) (snd x) ways nodes = Inr tr"
    using get_osm_relations_Inr(4) [OF assms] by (auto simp del: split_paired_Ex)
  then have "\<forall>x \<in> set ?pairs. \<exists>la rn ids. tls (fst x) (snd x) ways nodes =
      Inr (fst (traced_of (tls (fst x) (snd x) ways nodes)), la, rn, ids)"
    using traced_of_Inr by blast
  then show ?thesis
    unfolding lon by (simp add: list_all2_map1 list_all2_same)
qed

lemma in_set_zip_concat_replicate:
  assumes "(l, c) \<in> set (zip (concat (map (\<lambda>r. map (f r) (g r)) rs))
                              (concat (map (\<lambda>r. replicate (length (g r)) (h r)) rs)))"
  shows "\<exists>r \<in> set rs. \<exists>x \<in> set (g r). l = f r x \<and> c = h r"
  using assms
proof (induction rs)
  case Nil
  then show ?case by simp
next
  case (Cons r rs)
  have len: "length (map (f r) (g r)) = length (replicate (length (g r)) (h r))" by simp
  from Cons.prems have "(l, c) \<in> set (zip (map (f r) (g r)) (replicate (length (g r)) (h r))) \<or>
      (l, c) \<in> set (zip (concat (map (\<lambda>r. map (f r) (g r)) rs))
                              (concat (map (\<lambda>r. replicate (length (g r)) (h r)) rs)))"
    by (simp add: zip_append [OF len])
  then show ?case
  proof
    assume "(l, c) \<in> set (zip (map (f r) (g r)) (replicate (length (g r)) (h r)))"
    then have "l \<in> set (map (f r) (g r))" "c \<in> set (replicate (length (g r)) (h r))"
      by (auto dest: set_zip_leftD set_zip_rightD)
    then show ?thesis by auto
  next
    assume "(l, c) \<in> set (zip (concat (map (\<lambda>r. map (f r) (g r)) rs))
                              (concat (map (\<lambda>r. replicate (length (g r)) (h r)) rs)))"
    from Cons.IH [OF this] show ?thesis by auto
  qed
qed

lemma ret_of_fields:
  "mg_lon (polygonList (ret_of uv mp ls)) = a_lon mp"
  "mg_lat (polygonList (ret_of uv mp ls)) = a_lat mp"
  "mg_rowname (polygonList (ret_of uv mp ls)) = a_rowname mp"
  "mg_id (polygonList (ret_of uv mp ls)) = a_id mp"
  "mg_lon (linestringList (ret_of uv mp ls)) = a_lon ls"
  "mg_lat (linestringList (ret_of uv mp ls)) = a_lat ls"
  "mg_rowname (linestringList (ret_of uv mp ls)) = a_rowname ls"
  "mg_id (linestringList (ret_of uv mp ls)) = a_id ls"
  by (simp_all add: ret_of_def attr_class_def convert_poly_linestring_to_Rcpp_def)

lemma trace_multipolygon_rings:
  assumes "trace_multipolygon tw r ways nodes = Inr tr"
  shows "length (fst tr) = length (r_ways r)"
    and "snd (snd (snd tr)) = map (\<lambda>m. to_string (fst m)) (r_ways r)"
    and "list_all2 (\<lambda>ring m. \<exists>la rn. tw ways nodes (fst m) = Inr (ring, la, rn))
           (fst tr) (r_ways r)"
proof -
  obtain lo la rn ids where tr: "tr = (lo, la, rn, ids)" by (cases tr)
  note t = trace_rings_Inr [OF assms [unfolded tr trace_multipolygon_def]]
  from t show "length (fst tr) = length (r_ways r)"
    "snd (snd (snd tr)) = map (\<lambda>m. to_string (fst m)) (r_ways r)"
    by (simp_all add: tr)
  from t show "list_all2 (\<lambda>ring m. \<exists>la rn. tw ways nodes (fst m) = Inr (ring, la, rn))
           (fst tr) (r_ways r)"
    by (auto simp: tr list_all2_conv_all_nth)
qed

lemma roles_loop_cong:
  assumes "\<forall>role. tls r role ways nodes = tls r role ways' nodes'"
  shows "roles_loop tls ways nodes uv r roles ls = roles_loop tls ways' nodes' uv r roles ls"
proof (induction roles arbitrary: ls)
  case Nil
  show ?case by simp
next
  case (Cons role roles)
  show ?case using assms by (simp add: Cons.IH split: sum.splits)
qed

lemma rels_loop_cong:
  assumes "\<forall>r. tmp r ways nodes = tmp r ways' nodes'"
    and "\<forall>r role. tls r role ways nodes = tls r role ways' nodes'"
  shows "rels_loop tmp tls ways nodes uv rels st = rels_loop tmp tls ways' nodes' uv rels st"
proof (induction rels arbitrary: st)
  case Nil
  show ?case by simp
next
  case (Cons r rels)
  obtain mp ls where st: "st = (mp, ls)" by (cases st)
  have rl: "roles_loop tls ways nodes uv r (roles_of r) ls =
      roles_loop tls ways' nodes' uv r (roles_of r) ls"
    using assms(2) by (intro roles_loop_cong) simp
  show ?case
    unfolding st using assms(1) by (simp add: Cons.IH rl split: sum.splits)
qed

lemma get_osm_relations_cong:
  assumes "\<forall>r. tmp r ways nodes = tmp r ways' nodes'"
    and "\<forall>r role. tls r role ways nodes = tls r role ways' nodes'"
  shows "get_osm_relations tmp tls rels nodes ways uv =
         get_osm_relations tmp tls rels nodes' ways' uv"
  unfolding get_osm_relations_def rels_loop_cong [OF assms] ..

lemma ways_loop_cong:
  assumes "RBT.lookup ways = RBT.lookup ways'"
    and "\<forall>wi. twn ways nodes wi = twn ways' nodes' wi"
  shows "ways_loop twn ways nodes uv gt wis st = ways_loop twn ways' nodes' uv gt wis st"
proof (induction wis arbitrary: st)
  case Nil
  show ?case by simp
next
  case (Cons wi wis)
  show ?case
    unfolding ways_loop.simps Cons.IH assms(1) assms(2) [rule_format] ..
qed

lemma get_osm_ways_cong:
  assumes "RBT.lookup ways = RBT.lookup ways'"
    and "\<forall>wi. twn ways nodes wi = twn ways' nodes' wi"
  shows "get_osm_ways twn out way_ids ways nodes uv gt =
         get_osm_ways twn out way_ids ways' nodes' uv gt"
  unfolding get_osm_ways_def ways_loop_cong [OF assms] ..

lemma get_osm_nodes_cong:
  assumes "RBT.lookup nodes = RBT.lookup nodes'"
  shows "get_osm_nodes out nodes uv = get_osm_nodes out nodes' uv"
proof -
  from assms have e: "RBT.entries nodes = RBT.entries nodes'" by (simp add: RBT.entries_lookup)
  show ?thesis unfolding get_osm_nodes_def e by (rule refl)
qed

lemma rcpp_osmdata_sf_cong:
  assumes "RBT.lookup nodes = RBT.lookup nodes'" and "RBT.lookup ways = RBT.lookup ways'"
    and "\<forall>r. tmp r ways nodes = tmp r ways' nodes'"
    and "\<forall>r role. tls r role ways nodes = tls r role ways' nodes'"
    and "\<forall>wi. twn ways nodes wi = twn ways' nodes' wi"
  shows "rcpp_osmdata_sf tmp tls twn nodes ways rels uv =
         rcpp_osmdata_sf tmp tls twn nodes' ways' rels uv"
proof -
  from assms(1) have en: "RBT.entries nodes = RBT.entries nodes'"
    by (simp add: RBT.entries_lookup)
  from assms(2) have ew: "RBT.entries ways = RBT.entries ways'"
    by (simp add: RBT.entries_lookup)
  have gw: "get_osm_ways twn out way_ids ways nodes uv gt =
         get_osm_ways twn out way_ids ways' nodes' uv gt" for out way_ids gt
    by (rule get_osm_ways_cong [OF assms(2) assms(5)])
  have gn: "get_osm_nodes out nodes uv = get_osm_nodes out nodes' uv" for out :: "'a sf_out"
    by (rule get_osm_nodes_cong [OF assms(1)])
  show ?thesis
    unfolding rcpp_osmdata_sf_def get_osm_relations_cong [OF assms(3) assms(4)] ew gw gn en ..
qed

lemma get_osm_nodes_geoms:
  assumes "get_osm_nodes out nodes uv = (None, out')"
  shows "geoms out' = map (\<lambda>a. POINT (n_lon (snd a)) (n_lat (snd a))) (RBT.entries nodes)"
  using get_osm_nodes_ok [OF get_osm_nodes_None [OF assms]] assms by simp

lemma strict_sorted_filter_entries: "sorted_wrt (<) (map fst (filter P (RBT.entries t)))"
proof -
  have "sorted_wrt (<) (map fst (RBT.entries t))"
    using strict_sorted_keys [of t] by (simp add: RBT.keys_def_alt)
  then have "sorted_wrt (\<lambda>a b. fst a < fst b) (RBT.entries t)" by (simp add: sorted_wrt_map)
  then have "sorted_wrt (\<lambda>a b. fst a < fst b) (filter P (RBT.entries t))"
    by (rule sorted_wrt_filter)
  then show ?thesis by (simp add: sorted_wrt_map)
qed



section \<open>The claims\<close>

text \<open>
  Claim C8. Argument misuse is rejected before any work is done and leaves the outputs as they
  were: \<^verbatim>\<open>get_osm_ways\<close> throws when the geometry type is neither \<^verbatim>\<open>POLYGON\<close> nor
  \<^verbatim>\<open>LINESTRING\<close>, or when the size of the output list differs from the number of way ids,
  and \<^verbatim>\<open>get_osm_nodes\<close> throws when the size of the output list differs from the number of
  nodes. In each case the outputs are returned unchanged, whatever the way tracer is.
\<close>

theorem argument_misuse_rejected:
  "(\<not> (geom_type = ''POLYGON'' \<or> geom_type = ''LINESTRING'') \<longrightarrow>
      (\<forall>twn. get_osm_ways twn out way_ids ways nodes unique_vals geom_type =
         (Some (runtime_error ''geom_type must be POLYGON or LINESTRING''), out))) \<and>
   ((geom_type = ''POLYGON'' \<or> geom_type = ''LINESTRING'') \<and>
      length (geoms out) \<noteq> set_size way_ids \<longrightarrow>
      (\<forall>twn. get_osm_ways twn out way_ids ways nodes unique_vals geom_type =
         (Some (runtime_error ''ways and IDs must have same lengths''), out))) \<and>
   (length (geoms out) \<noteq> length (RBT.entries nodes) \<longrightarrow>
      get_osm_nodes out nodes unique_vals =
        (Some (runtime_error ''points must have same size as nodes''), out))"
  by (simp add: get_osm_ways_def get_osm_nodes_def Let_def)

text \<open>The three rejections on concrete arguments.\<close>

theorem argument_misuse_rejected_witness:
  "get_osm_ways (\<lambda>ways nodes wi. Inr wi) (new_List 0) RBT.empty RBT.empty RBT.empty
      \<lparr>k_point = RBT.empty, k_way = RBT.empty, k_rel = RBT.empty\<rparr> ''MULTIPOLYGON'' =
     (Some (runtime_error ''geom_type must be POLYGON or LINESTRING''), new_List 0) \<and>
   get_osm_ways (\<lambda>ways nodes wi. Inr wi) (new_List 2) (set_insert 7 RBT.empty) RBT.empty RBT.empty
      \<lparr>k_point = RBT.empty, k_way = RBT.empty, k_rel = RBT.empty\<rparr> ''POLYGON'' =
     (Some (runtime_error ''ways and IDs must have same lengths''), new_List 2) \<and>
   get_osm_nodes (new_List 1 :: int sf_out) RBT.empty
      \<lparr>k_point = RBT.empty, k_way = RBT.empty, k_rel = RBT.empty\<rparr> =
     (Some (runtime_error ''points must have same size as nodes''), new_List 1)"
proof -
  let ?uv = "\<lparr>k_point = RBT.empty, k_way = RBT.empty, k_rel = RBT.empty\<rparr>"
  have a: "\<not> (''MULTIPOLYGON'' = ''POLYGON'' \<or> ''MULTIPOLYGON'' = ''LINESTRING'')" by simp
  have b: "(''POLYGON'' = ''POLYGON'' \<or> ''POLYGON'' = ''LINESTRING'') \<and>
      length (geoms (new_List 2 :: int sf_out)) \<noteq> set_size (set_insert (7::int) RBT.empty)"
    by code_simp
  have c: "length (geoms (new_List 1 :: int sf_out)) \<noteq> length (RBT.entries (RBT.empty :: Nodes))"
    by code_simp
  note t1 = argument_misuse_rejected [where geom_type = "''MULTIPOLYGON''" and out = "new_List 0"
        and way_ids = RBT.empty and ways = RBT.empty and nodes = RBT.empty and unique_vals = ?uv,
        THEN conjunct1, rule_format, OF a]
  note t2 = argument_misuse_rejected [where geom_type = "''POLYGON''" and out = "new_List 2"
        and way_ids = "set_insert 7 RBT.empty" and ways = RBT.empty and nodes = RBT.empty
        and unique_vals = ?uv, THEN conjunct2, THEN conjunct1, rule_format, OF b]
  note t3 = argument_misuse_rejected [where geom_type = "''POLYGON''"
        and out = "new_List 1 :: int sf_out" and way_ids = RBT.empty and ways = RBT.empty
        and nodes = RBT.empty and unique_vals = ?uv, THEN conjunct2, THEN conjunct2,
        rule_format, OF c]
  show ?thesis by (intro conjI t1 t2 t3)
qed



text \<open>
  Claim C7, as the code has it. \<^verbatim>\<open>get_osm_nodes\<close> has no check for a tag key that is missing
  from \<^verbatim>\<open>unique_vals.k_point\<close> and never fails with \<open>UnknownKeyError\<close>. When the output list
  has the size of the node map: with every tag key in the key set the call ends without an
  error and every write is to a column below \<open>ncol\<close>; a tag key outside the key set has the
  column \<open>ncol\<close>, and the call ends in the unchecked write outside the matrix.
\<close>

theorem unknown_key_unchecked:
  "(\<forall>key. fst (get_osm_nodes out nodes uv) \<noteq> Some (UnknownKeyError key)) \<and>
   (length (geoms out) = length (RBT.entries nodes) \<longrightarrow>
      (fst (get_osm_nodes out nodes uv) = None \<longleftrightarrow>
         (\<forall>a \<in> set (RBT.entries nodes). \<forall>k \<in> set (RBT.keys (n_key_val (snd a))).
            set_member (k_point uv) k)) \<and>
      (fst (get_osm_nodes out nodes uv) = Some undefined_behaviour \<longleftrightarrow>
         (\<exists>a \<in> set (RBT.entries nodes). \<exists>k \<in> set (RBT.keys (n_key_val (snd a))).
            \<not> set_member (k_point uv) k))) \<and>
   (\<forall>k. (set_member (k_point uv) k \<longrightarrow> set_find_distance (k_point uv) k < set_size (k_point uv)) \<and>
        (\<not> set_member (k_point uv) k \<longrightarrow> set_find_distance (k_point uv) k = set_size (k_point uv)))"
proof (intro conjI allI impI)
  fix key
  show "fst (get_osm_nodes out nodes uv) \<noteq> Some (UnknownKeyError key)"
    using get_osm_nodes_err [of out nodes uv "UnknownKeyError key"] by auto
next
  assume len: "length (geoms out) = length (RBT.entries nodes)"
  let ?ok = "\<forall>a \<in> set (RBT.entries nodes). \<forall>k \<in> set (RBT.keys (n_key_val (snd a))).
            set_member (k_point uv) k"
  have a: "?ok \<Longrightarrow> fst (get_osm_nodes out nodes uv) = None"
    using get_osm_nodes_ok [OF len, of uv] by simp
  have b: "\<not> ?ok \<Longrightarrow> fst (get_osm_nodes out nodes uv) = Some undefined_behaviour"
    using get_osm_nodes_ub [OF len, of uv] by blast
  from a b show "fst (get_osm_nodes out nodes uv) = None \<longleftrightarrow> ?ok"
    by (cases ?ok) simp_all
  from a b show "fst (get_osm_nodes out nodes uv) = Some undefined_behaviour \<longleftrightarrow>
         (\<exists>a \<in> set (RBT.entries nodes). \<exists>k \<in> set (RBT.keys (n_key_val (snd a))).
            \<not> set_member (k_point uv) k)"
    by (cases ?ok) auto
next
  fix k assume "set_member (k_point uv) k"
  then show "set_find_distance (k_point uv) k < set_size (k_point uv)"
    using set_find_distance_member by blast
next
  fix k assume "\<not> set_member (k_point uv) k"
  then show "set_find_distance (k_point uv) k = set_size (k_point uv)"
    by (rule set_find_distance_absent)
qed

text \<open>
  A run with known keys only, and a run on the node of the counterexample below.
\<close>

theorem unknown_key_unchecked_witness:
  "length (geoms (new_List 3 :: unit sf_out)) = length (RBT.entries ex_nodes) \<and>
   fst (get_osm_nodes (new_List 3 :: unit sf_out) ex_nodes ex_uv) = None \<and>
   set_member (k_point ex_uv) ''name'' \<and>
   set_find_distance (k_point ex_uv) ''name'' < set_size (k_point ex_uv) \<and>
   \<not> set_member (k_point ex_uv) ''shop'' \<and>
   set_find_distance (k_point ex_uv) ''shop'' = set_size (k_point ex_uv)"
proof -
  note t = unknown_key_unchecked [where out = "new_List 3 :: unit sf_out" and nodes = ex_nodes
      and uv = ex_uv]
  have len: "length (geoms (new_List 3 :: unit sf_out)) = length (RBT.entries ex_nodes)"
    by code_simp
  have keys: "\<forall>a \<in> set (RBT.entries ex_nodes). \<forall>k \<in> set (RBT.keys (n_key_val (snd a))).
            set_member (k_point ex_uv) k"
    by code_simp
  have m1: "set_member (k_point ex_uv) ''name''" by code_simp
  have m2: "\<not> set_member (k_point ex_uv) ''shop''" by code_simp
  from t len keys have "fst (get_osm_nodes (new_List 3 :: unit sf_out) ex_nodes ex_uv) = None"
    by blast
  moreover from t m1 have "set_find_distance (k_point ex_uv) ''name'' < set_size (k_point ex_uv)"
    by blast
  moreover from t m2 have "set_find_distance (k_point ex_uv) ''shop'' = set_size (k_point ex_uv)"
    by blast
  ultimately show ?thesis using len m1 m2 by (intro conjI)
qed

text \<open>
  The claim as stated fails on a node with the tag \<^verbatim>\<open>shop\<close> when the key set holds
  \<^verbatim>\<open>amenity\<close> and \<^verbatim>\<open>name\<close> only: the key is not in the key set, and the call does not fail
  with \<open>UnknownKeyError\<close>; it ends in the write outside the matrix.
\<close>

theorem unknown_key_counterexample:
  "\<not> set_member (k_point ex_uv) ''shop'' \<and>
   RBT.lookup (n_key_val (snd (hd (RBT.entries ex_nodes_bad)))) ''shop'' = Some ''b'' \<and>
   fst (get_osm_nodes (new_List 1 :: unit sf_out) ex_nodes_bad ex_uv) \<noteq> Some (UnknownKeyError ''shop'') \<and>
   fst (get_osm_nodes (new_List 1 :: unit sf_out) ex_nodes_bad ex_uv) = Some undefined_behaviour"
  by code_simp

text \<open>
  Claim C10. Every geometry list is in ascending order of entity id. The points are the
  nodes of the node map in the order of its keys; \<^verbatim>\<open>get_osm_ways\<close> emits the traced
  geometry of every id of its id set, the \<open>i\<close>-th geometry for the \<open>i\<close>-th smallest id; in
  \<^verbatim>\<open>rcpp_osmdata_sf\<close> the polygons are all the ways with equal end points and the linestrings
  all the other ways, each in the order of the way map. The labels of a list and the row
  names of its table are the decimal renderings of these strictly increasing ids. The maps
  enter the result only through their contents: two node maps and two way maps that hold
  the same entries under the same ids, built by whatever order of insertion, give the same
  result, for tracers that read the maps through their contents.
\<close>

theorem labels_ascending:
  "(rcpp_osmdata_sf tmp tls twn nodes ways rels uv = Inr ret \<longrightarrow>
      geom_names (points ret) = map to_string (RBT.keys nodes) \<and>
      sorted_wrt (<) (RBT.keys nodes) \<and>
      geoms (points ret) =
        map (\<lambda>a. POINT (n_lon (snd a)) (n_lat (snd a))) (RBT.entries nodes) \<and>
      geom_names (polygons ret) =
        map to_string (map fst (filter (\<lambda>a. hd (w_nodes (snd a)) = last (w_nodes (snd a)))
                                  (RBT.entries ways))) \<and>
      sorted_wrt (<) (map fst (filter (\<lambda>a. hd (w_nodes (snd a)) = last (w_nodes (snd a)))
                                 (RBT.entries ways))) \<and>
      geom_names (linestrings ret) =
        map to_string (map fst (filter (\<lambda>a. hd (w_nodes (snd a)) \<noteq> last (w_nodes (snd a)))
                                  (RBT.entries ways))) \<and>
      sorted_wrt (<) (map fst (filter (\<lambda>a. hd (w_nodes (snd a)) \<noteq> last (w_nodes (snd a)))
                                 (RBT.entries ways))) \<and>
      (\<exists>ndf pdf ldf.
         kv_df (points ret) = Some ndf \<and> df_rownames ndf = geom_names (points ret) \<and>
         kv_df (polygons ret) = Some pdf \<and> df_rownames pdf = geom_names (polygons ret) \<and>
         kv_df (linestrings ret) = Some ldf \<and>
         df_rownames ldf = geom_names (linestrings ret))) \<and>
   (get_osm_ways twn wout way_ids ways nodes uv geom_type = (None, wout') \<longrightarrow>
      geom_names wout' = map to_string (set_elems way_ids) \<and>
      sorted_wrt (<) (set_elems way_ids) \<and>
      length (geoms wout') = length (set_elems way_ids) \<and>
      (\<forall>i < length (set_elems way_ids).
         \<exists>nmat. twn ways nodes (set_elems way_ids ! i) = Inr nmat \<and>
           geoms wout' ! i =
             (if geom_type = ''LINESTRING'' then LINESTRING nmat else POLYGON [nmat])) \<and>
      (\<exists>df. kv_df wout' = Some df \<and> df_rownames df = map to_string (set_elems way_ids))) \<and>
   (RBT.lookup nodes = RBT.lookup nodes' \<and> RBT.lookup ways = RBT.lookup ways' \<and>
    (\<forall>r. tmp r ways nodes = tmp r ways' nodes') \<and>
    (\<forall>r role. tls r role ways nodes = tls r role ways' nodes') \<and>
    (\<forall>wi. twn ways nodes wi = twn ways' nodes' wi) \<longrightarrow>
      rcpp_osmdata_sf tmp tls twn nodes ways rels uv =
      rcpp_osmdata_sf tmp tls twn nodes' ways' rels uv) \<and>
   (RBT.lookup nodes = RBT.lookup nodes' \<longrightarrow>
      get_osm_nodes out nodes uv = get_osm_nodes out nodes' uv) \<and>
   (RBT.lookup ways = RBT.lookup ways' \<longrightarrow>
      divide_ways (RBT.entries ways) st = divide_ways (RBT.entries ways') st)"
proof (intro conjI impI)
  assume "rcpp_osmdata_sf tmp tls twn nodes ways rels uv = Inr ret"
  from rcpp_osmdata_sf_Inr [OF this] obtain p n where
    dw: "divide_ways (RBT.entries ways) (RBT.empty, RBT.empty) = Inr (p, n)"
    and polys: "get_osm_ways twn (new_List (set_size p)) p ways nodes uv ''POLYGON'' =
       (None, polygons ret)"
    and lines: "get_osm_ways twn (new_List (set_size n)) n ways nodes uv ''LINESTRING'' =
       (None, linestrings ret)"
    and pts: "get_osm_nodes (new_List (length (RBT.entries nodes))) nodes uv = (None, points ret)"
    by blast
  note d = divide_ways_entries [OF dw]
  note np = get_osm_nodes_names [OF pts]
  show pn: "geom_names (points ret) = map to_string (RBT.keys nodes)" by (rule np(1))
  show "sorted_wrt (<) (RBT.keys nodes)" by (rule strict_sorted_keys)
  show "geoms (points ret) =
        map (\<lambda>a. POINT (n_lon (snd a)) (n_lat (snd a))) (RBT.entries nodes)"
    by (rule get_osm_nodes_geoms [OF pts])
  note gp = get_osm_ways_None [OF polys]
  note gl = get_osm_ways_None [OF lines]
  show gpn: "geom_names (polygons ret) =
        map to_string (map fst (filter (\<lambda>a. hd (w_nodes (snd a)) = last (w_nodes (snd a)))
                                  (RBT.entries ways)))"
    using gp unfolding d(2) [symmetric] by simp
  show gln: "geom_names (linestrings ret) =
        map to_string (map fst (filter (\<lambda>a. hd (w_nodes (snd a)) \<noteq> last (w_nodes (snd a)))
                                  (RBT.entries ways)))"
    using gl unfolding d(3) [symmetric] by simp
  show "sorted_wrt (<) (map fst (filter (\<lambda>a. hd (w_nodes (snd a)) = last (w_nodes (snd a)))
                                 (RBT.entries ways)))"
    "sorted_wrt (<) (map fst (filter (\<lambda>a. hd (w_nodes (snd a)) \<noteq> last (w_nodes (snd a)))
                                 (RBT.entries ways)))"
    by (rule strict_sorted_filter_entries)+
  from np(2) pn obtain ndf where ndf: "kv_df (points ret) = Some ndf"
    "df_rownames ndf = geom_names (points ret)" by auto
  from gp obtain pdf where pdf: "kv_df (polygons ret) = Some pdf"
    "df_rownames pdf = geom_names (polygons ret)" by simp
  from gl obtain ldf where ldf: "kv_df (linestrings ret) = Some ldf"
    "df_rownames ldf = geom_names (linestrings ret)" by simp
  from ndf pdf ldf show "\<exists>ndf pdf ldf.
         kv_df (points ret) = Some ndf \<and> df_rownames ndf = geom_names (points ret) \<and>
         kv_df (polygons ret) = Some pdf \<and> df_rownames pdf = geom_names (polygons ret) \<and>
         kv_df (linestrings ret) = Some ldf \<and>
         df_rownames ldf = geom_names (linestrings ret)"
    by blast
next
  assume ok: "get_osm_ways twn wout way_ids ways nodes uv geom_type = (None, wout')"
  note g = get_osm_ways_None [OF ok]
  from g show "geom_names wout' = map to_string (set_elems way_ids)" by simp
  show "sorted_wrt (<) (set_elems way_ids)" by (rule strict_sorted_set_elems)
  from g show "length (geoms wout') = length (set_elems way_ids)" by simp
  from g show "\<exists>df. kv_df wout' = Some df \<and> df_rownames df = map to_string (set_elems way_ids)"
    by simp
  show "\<forall>i < length (set_elems way_ids).
         \<exists>nmat. twn ways nodes (set_elems way_ids ! i) = Inr nmat \<and>
           geoms wout' ! i =
             (if geom_type = ''LINESTRING'' then LINESTRING nmat else POLYGON [nmat])"
  proof (intro allI impI)
    fix i assume i: "i < length (set_elems way_ids)"
    then have "set_elems way_ids ! i \<in> set (set_elems way_ids)" by simp
    with g obtain nmat where t: "twn ways nodes (set_elems way_ids ! i) = Inr nmat" by blast
    from g i have "geoms wout' ! i = way_geom geom_type (twn ways nodes (set_elems way_ids ! i))"
      by simp
    with t show "\<exists>nmat. twn ways nodes (set_elems way_ids ! i) = Inr nmat \<and>
           geoms wout' ! i =
             (if geom_type = ''LINESTRING'' then LINESTRING nmat else POLYGON [nmat])"
      by (simp add: way_geom_def)
  qed
next
  assume "RBT.lookup nodes = RBT.lookup nodes' \<and> RBT.lookup ways = RBT.lookup ways' \<and>
    (\<forall>r. tmp r ways nodes = tmp r ways' nodes') \<and>
    (\<forall>r role. tls r role ways nodes = tls r role ways' nodes') \<and>
    (\<forall>wi. twn ways nodes wi = twn ways' nodes' wi)"
  then show "rcpp_osmdata_sf tmp tls twn nodes ways rels uv =
      rcpp_osmdata_sf tmp tls twn nodes' ways' rels uv"
    by (intro rcpp_osmdata_sf_cong) simp_all
next
  assume "RBT.lookup nodes = RBT.lookup nodes'"
  then show "get_osm_nodes out nodes uv = get_osm_nodes out nodes' uv"
    by (rule get_osm_nodes_cong)
next
  assume "RBT.lookup ways = RBT.lookup ways'"
  then have "RBT.entries ways = RBT.entries ways'" by (simp add: RBT.entries_lookup)
  then show "divide_ways (RBT.entries ways) st = divide_ways (RBT.entries ways') st" by simp
qed

text \<open>
  The example input: nodes 1, 2 and 5, the closed way 10 and the open way 11; and the same
  nodes and the same ways inserted in another order.
\<close>

theorem labels_ascending_witness:
  "rcpp_osmdata_sf ex_tmp ex_tls ex_twn ex_nodes ex_ways ex_rels ex_uv = Inr ex_ret \<and>
   geom_names (points ex_ret) = map to_string (RBT.keys ex_nodes) \<and>
   map to_string (RBT.keys ex_nodes) = [''1'', ''2'', ''5''] \<and>
   geom_names (polygons ex_ret) = [''10''] \<and> geom_names (linestrings ex_ret) = [''11''] \<and>
   map fst (filter (\<lambda>a. hd (w_nodes (snd a)) = last (w_nodes (snd a))) (RBT.entries ex_ways)) =
     [10] \<and>
   map fst (filter (\<lambda>a. hd (w_nodes (snd a)) \<noteq> last (w_nodes (snd a))) (RBT.entries ex_ways)) =
     [11] \<and>
   get_osm_ways ex_twn (new_List 2) (set_insert 10 (set_insert 11 RBT.empty)) ex_ways ex_nodes
       ex_uv ''LINESTRING'' =
     (None, \<lparr>geoms = [LINESTRING [1, 2, 1], LINESTRING [1, 2, 5]], geom_names = [''10'', ''11''],
             geom_class = [''sfc_LINESTRING'', ''sfc''],
             kv_df = Some \<lparr>df_rownames = [''10'', ''11''],
                            df_colnames = [''highway'', ''name''],
                            df_cells = [[Some ''x'', None], [None, None]],
                            df_flag = False\<rparr>\<rparr>) \<and>
   set_elems (set_insert 10 (set_insert (11 :: osmid_t) RBT.empty)) = [10, 11] \<and>
   RBT.lookup ex_nodes = RBT.lookup ex_nodes2 \<and> RBT.lookup ex_ways = RBT.lookup ex_ways2 \<and>
   RBT.keys ex_nodes = RBT.keys ex_nodes2 \<and>
   rcpp_osmdata_sf ex_tmp ex_tls ex_twn ex_nodes2 ex_ways2 ex_rels ex_uv = Inr ex_ret \<and>
   get_osm_nodes (new_List 3 :: unit sf_out) ex_nodes ex_uv =
     get_osm_nodes (new_List 3) ex_nodes2 ex_uv \<and>
   divide_ways (RBT.entries ex_ways) (RBT.empty, RBT.empty) =
     divide_ways (RBT.entries ex_ways2) (RBT.empty, RBT.empty)"
proof -
  let ?lns = "\<lparr>geoms = [LINESTRING [1, 2, 1], LINESTRING [1, 2, 5]], geom_names = [''10'', ''11''],
             geom_class = [''sfc_LINESTRING'', ''sfc''],
             kv_df = Some \<lparr>df_rownames = [''10'', ''11''],
                            df_colnames = [''highway'', ''name''],
                            df_cells = [[Some ''x'', None], [None, None]],
                            df_flag = False\<rparr>\<rparr> :: osmid_t list sf_out"
  have h: "rcpp_osmdata_sf ex_tmp ex_tls ex_twn ex_nodes ex_ways ex_rels ex_uv = Inr ex_ret"
    by code_simp
  have hw: "get_osm_ways ex_twn (new_List 2) (set_insert 10 (set_insert 11 RBT.empty)) ex_ways
              ex_nodes ex_uv ''LINESTRING'' = (None, ?lns)"
    by code_simp
  have l: "RBT.lookup ex_nodes = RBT.lookup ex_nodes2"
    by (auto simp: ex_nodes_def ex_nodes2_def RBT.lookup_insert fun_eq_iff)
  have l2: "RBT.lookup ex_ways = RBT.lookup ex_ways2"
    by (auto simp: ex_ways_def ex_ways2_def RBT.lookup_insert fun_eq_iff)
  have tr: "(\<forall>r. ex_tmp r ex_ways ex_nodes = ex_tmp r ex_ways2 ex_nodes2) \<and>
    (\<forall>r role. ex_tls r role ex_ways ex_nodes = ex_tls r role ex_ways2 ex_nodes2) \<and>
    (\<forall>wi. ex_twn ex_ways ex_nodes wi = ex_twn ex_ways2 ex_nodes2 wi)"
    by (simp add: ex_tmp_def ex_tls_def ex_twn_def l2)
  note t = labels_ascending [where tmp = ex_tmp and tls = ex_tls and twn = ex_twn
      and nodes = ex_nodes and ways = ex_ways and rels = ex_rels and uv = ex_uv and ret = ex_ret
      and nodes' = ex_nodes2 and ways' = ex_ways2 and out = "new_List 3 :: unit sf_out"
      and st = "(RBT.empty, RBT.empty)" and wout = "new_List 2"
      and way_ids = "set_insert 10 (set_insert 11 RBT.empty)" and geom_type = "''LINESTRING''"
      and wout' = ?lns]
  note t1 = t [THEN conjunct1, rule_format, OF h]
  note t2 = t [THEN conjunct2, THEN conjunct1, rule_format, OF hw]
  note t3 = t [THEN conjunct2, THEN conjunct2, THEN conjunct1, rule_format, OF conjI [OF l conjI [OF l2 tr]]]
  note t4 = t [THEN conjunct2, THEN conjunct2, THEN conjunct2, THEN conjunct1, rule_format, OF l]
  note t5 = t [THEN conjunct2, THEN conjunct2, THEN conjunct2, THEN conjunct2, rule_format, OF l2]
  have a: "geom_names (points ex_ret) = map to_string (RBT.keys ex_nodes)"
    by (rule t1 [THEN conjunct1])
  have b: "map to_string (RBT.keys ex_nodes) = [''1'', ''2'', ''5'']"
    unfolding a [symmetric] by (simp add: ex_ret_def)
  have c: "geom_names (polygons ex_ret) = [''10'']" "geom_names (linestrings ex_ret) = [''11'']"
    by (simp_all add: ex_ret_def)
  have d: "map fst (filter (\<lambda>a. hd (w_nodes (snd a)) = last (w_nodes (snd a)))
                      (RBT.entries ex_ways)) = [10]"
    "map fst (filter (\<lambda>a. hd (w_nodes (snd a)) \<noteq> last (w_nodes (snd a)))
                      (RBT.entries ex_ways)) = [11]"
    by code_simp+
  have e: "set_elems (set_insert 10 (set_insert (11 :: osmid_t) RBT.empty)) = [10, 11]"
    by code_simp
  have k: "RBT.keys ex_nodes = RBT.keys ex_nodes2" by code_simp
  from h t3 have h': "rcpp_osmdata_sf ex_tmp ex_tls ex_twn ex_nodes2 ex_ways2 ex_rels ex_uv =
      Inr ex_ret" by simp
  from h a b c d hw e l l2 k h' t4 t5 show ?thesis by (intro conjI)
qed

text \<open>
  Claim C6, as the code has it. When \<^verbatim>\<open>rcpp_osmdata_sf\<close> returns, every way has at least one
  node id; the ways whose first node id equals their last node id, a way of a single node
  among them, are the polygons, in ascending order of way id, and all other ways are the
  linestrings; every polygon element is a \<^verbatim>\<open>POLYGON\<close> and every linestring element a
  \<^verbatim>\<open>LINESTRING\<close>. The two lists are the two halves of a filter of the way map, so they
  partition the ways.
\<close>

theorem ways_divided_by_endpoints:
  "rcpp_osmdata_sf tmp tls twn nodes ways rels uv = Inr ret \<longrightarrow>
     (\<forall>a \<in> set (RBT.entries ways). w_nodes (snd a) \<noteq> []) \<and>
     geom_names (polygons ret) =
       map (\<lambda>a. to_string (fst a))
         (filter (\<lambda>a. hd (w_nodes (snd a)) = last (w_nodes (snd a))) (RBT.entries ways)) \<and>
     geom_names (linestrings ret) =
       map (\<lambda>a. to_string (fst a))
         (filter (\<lambda>a. hd (w_nodes (snd a)) \<noteq> last (w_nodes (snd a))) (RBT.entries ways)) \<and>
     length (geoms (polygons ret)) = length (geom_names (polygons ret)) \<and>
     length (geoms (linestrings ret)) = length (geom_names (linestrings ret)) \<and>
     length (geoms (polygons ret)) + length (geoms (linestrings ret)) =
       length (RBT.entries ways) \<and>
     (\<forall>g \<in> set (geoms (polygons ret)). \<exists>nmat. g = POLYGON [nmat]) \<and>
     (\<forall>g \<in> set (geoms (linestrings ret)). \<exists>nmat. g = LINESTRING nmat) \<and>
     geom_class (polygons ret) = [''sfc_POLYGON'', ''sfc''] \<and>
     geom_class (linestrings ret) = [''sfc_LINESTRING'', ''sfc'']"
proof
  assume "rcpp_osmdata_sf tmp tls twn nodes ways rels uv = Inr ret"
  from rcpp_osmdata_sf_Inr [OF this] obtain p n where
    dw: "divide_ways (RBT.entries ways) (RBT.empty, RBT.empty) = Inr (p, n)"
    and polys: "get_osm_ways twn (new_List (set_size p)) p ways nodes uv ''POLYGON'' =
       (None, polygons ret)"
    and lines: "get_osm_ways twn (new_List (set_size n)) n ways nodes uv ''LINESTRING'' =
       (None, linestrings ret)"
    by blast
  note d = divide_ways_entries [OF dw]
  note gp = get_osm_ways_None [OF polys]
  note gl = get_osm_ways_None [OF lines]
  let ?P = "\<lambda>a. hd (w_nodes (snd a)) = last (w_nodes (snd a))"
  have np: "geom_names (polygons ret) = map (\<lambda>a. to_string (fst a)) (filter ?P (RBT.entries ways))"
    using gp d(2) by (simp add: comp_def)
  have nl: "geom_names (linestrings ret) =
      map (\<lambda>a. to_string (fst a)) (filter (\<lambda>a. \<not> ?P a) (RBT.entries ways))"
    using gl d(3) by (simp add: comp_def)
  have lp: "length (geoms (polygons ret)) = length (geom_names (polygons ret))"
    using gp by simp
  have ll: "length (geoms (linestrings ret)) = length (geom_names (linestrings ret))"
    using gl by simp
  have tot: "length (geoms (polygons ret)) + length (geoms (linestrings ret)) =
       length (RBT.entries ways)"
    unfolding lp ll np nl by (simp add: sum_length_filter_compl)
  have tp: "\<forall>wi \<in> set (set_elems p). \<exists>nmat. twn ways nodes wi = Inr nmat"
    using gp by blast
  have tl: "\<forall>wi \<in> set (set_elems n). \<exists>nmat. twn ways nodes wi = Inr nmat"
    using gl by blast
  have cp: "\<forall>g \<in> set (geoms (polygons ret)). \<exists>nmat. g = POLYGON [nmat]"
    using tp gp by (auto simp: way_geom_def)
  have cl: "\<forall>g \<in> set (geoms (linestrings ret)). \<exists>nmat. g = LINESTRING nmat"
    using tl gl by (auto simp: way_geom_def)
  have kp: "geom_class (polygons ret) = [''sfc_POLYGON'', ''sfc'']" using gp by simp
  have kl: "geom_class (linestrings ret) = [''sfc_LINESTRING'', ''sfc'']" using gl by simp
  from d(1) np nl lp ll tot cp cl kp kl
  show "(\<forall>a \<in> set (RBT.entries ways). w_nodes (snd a) \<noteq> []) \<and>
     geom_names (polygons ret) =
       map (\<lambda>a. to_string (fst a))
         (filter (\<lambda>a. hd (w_nodes (snd a)) = last (w_nodes (snd a))) (RBT.entries ways)) \<and>
     geom_names (linestrings ret) =
       map (\<lambda>a. to_string (fst a))
         (filter (\<lambda>a. hd (w_nodes (snd a)) \<noteq> last (w_nodes (snd a))) (RBT.entries ways)) \<and>
     length (geoms (polygons ret)) = length (geom_names (polygons ret)) \<and>
     length (geoms (linestrings ret)) = length (geom_names (linestrings ret)) \<and>
     length (geoms (polygons ret)) + length (geoms (linestrings ret)) =
       length (RBT.entries ways) \<and>
     (\<forall>g \<in> set (geoms (polygons ret)). \<exists>nmat. g = POLYGON [nmat]) \<and>
     (\<forall>g \<in> set (geoms (linestrings ret)). \<exists>nmat. g = LINESTRING nmat) \<and>
     geom_class (polygons ret) = [''sfc_POLYGON'', ''sfc''] \<and>
     geom_class (linestrings ret) = [''sfc_LINESTRING'', ''sfc'']"
    by (intro conjI)
qed

text \<open>The example input: way 10 is closed and is the polygon, way 11 is the linestring.\<close>

theorem ways_divided_by_endpoints_witness:
  "rcpp_osmdata_sf ex_tmp ex_tls ex_twn ex_nodes ex_ways ex_rels ex_uv = Inr ex_ret \<and>
   geom_names (polygons ex_ret) =
       map (\<lambda>a. to_string (fst a))
         (filter (\<lambda>a. hd (w_nodes (snd a)) = last (w_nodes (snd a))) (RBT.entries ex_ways)) \<and>
   geom_names (linestrings ex_ret) =
       map (\<lambda>a. to_string (fst a))
         (filter (\<lambda>a. hd (w_nodes (snd a)) \<noteq> last (w_nodes (snd a))) (RBT.entries ex_ways)) \<and>
   geom_names (polygons ex_ret) = [''10''] \<and> geom_names (linestrings ex_ret) = [''11'']"
proof -
  have h: "rcpp_osmdata_sf ex_tmp ex_tls ex_twn ex_nodes ex_ways ex_rels ex_uv = Inr ex_ret"
    by code_simp
  note t = ways_divided_by_endpoints [where tmp = ex_tmp and tls = ex_tls and twn = ex_twn
      and nodes = ex_nodes and ways = ex_ways and rels = ex_rels and uv = ex_uv and ret = ex_ret,
      rule_format, OF h]
  have "geom_names (polygons ex_ret) = [''10'']" "geom_names (linestrings ex_ret) = [''11'']"
    by (simp_all add: ex_ret_def)
  with t h show ?thesis by (intro conjI) blast+
qed

text \<open>
  The claim as stated fails on a way with the single node 5: by the definition of the
  specification this way is not closed (its length is not greater than 1), so the claim
  makes it a linestring; the code emits it as a polygon. It also fails on a way without
  nodes: the test reads \<^verbatim>\<open>front ()\<close> of an empty vector, and the way is emitted as neither.
\<close>

theorem single_node_way_counterexample:
  "map (\<lambda>a. (fst a, w_nodes (snd a), way_closed (w_nodes (snd a)))) (RBT.entries ex_ways_single) =
     [(7, [5], False)] \<and>
   rcpp_osmdata_sf ex_tmp ex_tls ex_twn RBT.empty ex_ways_single [] ex_uv =
     Inr \<lparr>points =
            \<lparr>geoms = [], geom_names = [], geom_class = [''sfc_POINT'', ''sfc''],
             kv_df = Some \<lparr>df_rownames = [], df_colnames = [''amenity'', ''name''],
                            df_cells = [], df_flag = False\<rparr>\<rparr>,
          linestrings =
            \<lparr>geoms = [], geom_names = [], geom_class = [''sfc_LINESTRING'', ''sfc''],
             kv_df = Some \<lparr>df_rownames = [], df_colnames = [''highway'', ''name''],
                            df_cells = [], df_flag = False\<rparr>\<rparr>,
          polygons =
            \<lparr>geoms = [POLYGON [[5]]], geom_names = [''7''],
             geom_class = [''sfc_POLYGON'', ''sfc''],
             kv_df = Some \<lparr>df_rownames = [''7''], df_colnames = [''highway'', ''name''],
                            df_cells = [[None, None]], df_flag = False\<rparr>\<rparr>,
          multipolygons =
            \<lparr>mg_lon = [], mg_lat = [], mg_rowname = [], mg_id = [], mg_rel_id = [],
             mg_type = ''MULTIPOLYGON'', mg_class = [''sfc_MULTIPOLYGON'', ''sfc'']\<rparr>,
          multipolygons_kv =
            data_frame \<lparr>df_rownames = [], df_colnames = [], df_cells = [], df_flag = False\<rparr>,
          multilinestrings =
            \<lparr>mg_lon = [], mg_lat = [], mg_rowname = [], mg_id = [], mg_rel_id = [],
             mg_type = ''MULTILINESTRING'', mg_class = [''sfc_MULTILINESTRING'', ''sfc'']\<rparr>,
          multilinestrings_kv =
            data_frame \<lparr>df_rownames = [], df_colnames = [], df_cells = [], df_flag = False\<rparr>\<rparr> \<and>
   map (\<lambda>a. (fst a, w_nodes (snd a))) (RBT.entries ex_ways_empty) = [(8, [])] \<and>
   rcpp_osmdata_sf ex_tmp ex_tls ex_twn RBT.empty ex_ways_empty [] ex_uv =
     Inl undefined_behaviour"
  by code_simp

text \<open>
  Claim C9, as the code has it. The two attribute tables in the list returned by
  \<^verbatim>\<open>get_osm_relations\<close> are never \<^verbatim>\<open>NULL\<close>: each is a variable of type \<^verbatim>\<open>Rcpp::DataFrame\<close>,
  and assigning \<^verbatim>\<open>R_NilValue\<close> to it gives the data frame without columns and without rows.
  The multipolygon table is that empty data frame exactly when the input has no polygon
  relation, and the multilinestring table exactly when no relation linestring is emitted,
  that is when every non-polygon relation has no member way; in both cases this is exactly
  when the geometry collection of the kind is empty. A table always has the labels of the
  geometries as row names and one row per geometry, and with at least one geometry its
  columns are the relation keys. \<^verbatim>\<open>rcpp_osmdata_sf\<close> returns both tables as they are.
\<close>

theorem relation_tables_never_null:
  "(get_osm_relations tmp tls rels nodes ways uv = Inr ret \<longrightarrow>
      kv_df_mp ret \<noteq> R_NULL \<and> kv_df_ls ret \<noteq> R_NULL \<and>
      (kv_df_mp ret = data_frame empty_data_frame \<longleftrightarrow> (\<forall>r \<in> set rels. \<not> r_ispoly r)) \<and>
      (kv_df_mp ret = data_frame empty_data_frame \<longleftrightarrow> mg_lon (polygonList ret) = []) \<and>
      (kv_df_ls ret = data_frame empty_data_frame \<longleftrightarrow>
         (\<forall>r \<in> set rels. \<not> r_ispoly r \<longrightarrow> r_ways r = [])) \<and>
      (kv_df_ls ret = data_frame empty_data_frame \<longleftrightarrow> mg_lon (linestringList ret) = []) \<and>
      (\<exists>df. kv_df_mp ret = data_frame df \<and> df_rownames df = mg_rel_id (polygonList ret) \<and>
         length (df_cells df) = length (mg_lon (polygonList ret)) \<and>
         (mg_lon (polygonList ret) \<noteq> [] \<longrightarrow> df_colnames df = set_elems (k_rel uv))) \<and>
      (\<exists>df. kv_df_ls ret = data_frame df \<and> df_rownames df = mg_rel_id (linestringList ret) \<and>
         length (df_cells df) = length (mg_lon (linestringList ret)) \<and>
         (mg_lon (linestringList ret) \<noteq> [] \<longrightarrow> df_colnames df = set_elems (k_rel uv)))) \<and>
   (rcpp_osmdata_sf tmp tls twn nodes ways rels uv = Inr res \<longrightarrow>
      (\<exists>ret. get_osm_relations tmp tls rels nodes ways uv = Inr ret \<and>
         multipolygons_kv res = kv_df_mp ret \<and> multilinestrings_kv res = kv_df_ls ret))"
proof (intro conjI impI)
  assume ok: "get_osm_relations tmp tls rels nodes ways uv = Inr ret"
  note mp = get_osm_relations_mp [OF ok]
  note ls = get_osm_relations_ls [OF ok]
  show "kv_df_mp ret \<noteq> R_NULL" unfolding mp(6) by simp
  show "kv_df_ls ret \<noteq> R_NULL" unfolding ls(6) by simp
  have e1: "filter r_ispoly rels = [] \<longleftrightarrow> (\<forall>r \<in> set rels. \<not> r_ispoly r)"
    by (simp add: filter_empty_conv)
  show "kv_df_mp ret = data_frame empty_data_frame \<longleftrightarrow> (\<forall>r \<in> set rels. \<not> r_ispoly r)"
    unfolding mp(6) e1 [symmetric] by (simp add: empty_data_frame_def)
  show "kv_df_mp ret = data_frame empty_data_frame \<longleftrightarrow> mg_lon (polygonList ret) = []"
    unfolding mp(6) mp(2) by (simp add: empty_data_frame_def)
  have e2: "mg_rel_id (linestringList ret) = [] \<longleftrightarrow>
      (\<forall>r \<in> set rels. \<not> r_ispoly r \<longrightarrow> r_ways r = [])"
    unfolding ls(1) by (auto simp: roles_of_Nil_iff)
  have e3: "mg_rel_id (linestringList ret) = [] \<longleftrightarrow> mg_lon (linestringList ret) = []"
    unfolding ls(1) ls(2) by simp
  have e4: "kv_df_ls ret = data_frame empty_data_frame \<longleftrightarrow> mg_rel_id (linestringList ret) = []"
    unfolding ls(6) by (simp add: empty_data_frame_def)
  show "kv_df_ls ret = data_frame empty_data_frame \<longleftrightarrow>
         (\<forall>r \<in> set rels. \<not> r_ispoly r \<longrightarrow> r_ways r = [])"
    unfolding e4 by (rule e2)
  show "kv_df_ls ret = data_frame empty_data_frame \<longleftrightarrow> mg_lon (linestringList ret) = []"
    unfolding e4 by (rule e3)
  show "\<exists>df. kv_df_mp ret = data_frame df \<and> df_rownames df = mg_rel_id (polygonList ret) \<and>
         length (df_cells df) = length (mg_lon (polygonList ret)) \<and>
         (mg_lon (polygonList ret) \<noteq> [] \<longrightarrow> df_colnames df = set_elems (k_rel uv))"
    unfolding mp(6) mp(1) mp(2) by (simp add: empty_data_frame_def)
  have len: "length (mg_lon (linestringList ret)) = length (mg_rel_id (linestringList ret))"
    unfolding ls(1) ls(2) by (simp add: length_concat comp_def)
  have "\<exists>df. kv_df_ls ret = data_frame df \<and> df_rownames df = mg_rel_id (linestringList ret) \<and>
         length (df_cells df) = length (mg_rel_id (linestringList ret)) \<and>
         (mg_rel_id (linestringList ret) \<noteq> [] \<longrightarrow> df_colnames df = set_elems (k_rel uv))"
    unfolding ls(6) by (auto simp: ls(1) empty_data_frame_def length_concat comp_def)
  then show "\<exists>df. kv_df_ls ret = data_frame df \<and> df_rownames df = mg_rel_id (linestringList ret) \<and>
         length (df_cells df) = length (mg_lon (linestringList ret)) \<and>
         (mg_lon (linestringList ret) \<noteq> [] \<longrightarrow> df_colnames df = set_elems (k_rel uv))"
    unfolding len e3 [symmetric] .
next
  assume "rcpp_osmdata_sf tmp tls twn nodes ways rels uv = Inr res"
  from rcpp_osmdata_sf_Inr [OF this] obtain ret where
    ok: "get_osm_relations tmp tls rels nodes ways uv = Inr ret"
    and m: "multipolygons_kv res = data_frame (List_class_data_frame (kv_df_mp ret))"
      "multilinestrings_kv res = data_frame (List_class_data_frame (kv_df_ls ret))"
    by blast
  have "multipolygons_kv res = kv_df_mp ret"
    unfolding m get_osm_relations_mp(6) [OF ok] by (simp add: List_class_data_frame_def)
  moreover have "multilinestrings_kv res = kv_df_ls ret"
    unfolding m get_osm_relations_ls(6) [OF ok] by (simp add: List_class_data_frame_def)
  ultimately show "\<exists>ret. get_osm_relations tmp tls rels nodes ways uv = Inr ret \<and>
         multipolygons_kv res = kv_df_mp ret \<and> multilinestrings_kv res = kv_df_ls ret"
    using ok by blast
qed

text \<open>
  The example input has a polygon relation and a non-polygon relation with members: both
  tables are data frames with rows, and \<^verbatim>\<open>rcpp_osmdata_sf\<close> returns them.
\<close>

theorem relation_tables_never_null_witness:
  "get_osm_relations ex_tmp ex_tls ex_rels ex_nodes ex_ways ex_uv = Inr ex_rel_ret \<and>
   kv_df_mp ex_rel_ret \<noteq> R_NULL \<and> kv_df_ls ex_rel_ret \<noteq> R_NULL \<and>
   kv_df_mp ex_rel_ret \<noteq> data_frame empty_data_frame \<and>
   mg_lon (polygonList ex_rel_ret) \<noteq> [] \<and>
   kv_df_ls ex_rel_ret \<noteq> data_frame empty_data_frame \<and>
   mg_lon (linestringList ex_rel_ret) \<noteq> [] \<and>
   rcpp_osmdata_sf ex_tmp ex_tls ex_twn ex_nodes ex_ways ex_rels ex_uv = Inr ex_ret \<and>
   multipolygons_kv ex_ret = kv_df_mp ex_rel_ret \<and>
   multilinestrings_kv ex_ret = kv_df_ls ex_rel_ret"
proof -
  have h: "get_osm_relations ex_tmp ex_tls ex_rels ex_nodes ex_ways ex_uv = Inr ex_rel_ret"
    by code_simp
  have h2: "rcpp_osmdata_sf ex_tmp ex_tls ex_twn ex_nodes ex_ways ex_rels ex_uv = Inr ex_ret"
    by code_simp
  note t = relation_tables_never_null [where tmp = ex_tmp and tls = ex_tls and rels = ex_rels
      and nodes = ex_nodes and ways = ex_ways and uv = ex_uv and ret = ex_rel_ret,
      THEN conjunct1, rule_format, OF h]
  note u = relation_tables_never_null [where tmp = ex_tmp and tls = ex_tls and twn = ex_twn
      and rels = ex_rels and nodes = ex_nodes and ways = ex_ways and uv = ex_uv and res = ex_ret,
      THEN conjunct2, rule_format, OF h2]
  have p: "kv_df_mp ex_rel_ret \<noteq> data_frame empty_data_frame"
    "kv_df_ls ex_rel_ret \<noteq> data_frame empty_data_frame"
    by (simp_all add: ex_rel_ret_def empty_data_frame_def)
  from t have n: "kv_df_mp ex_rel_ret \<noteq> R_NULL" "kv_df_ls ex_rel_ret \<noteq> R_NULL" by blast+
  from t p have g: "mg_lon (polygonList ex_rel_ret) \<noteq> []"
    "mg_lon (linestringList ex_rel_ret) \<noteq> []"
    by blast+
  from u h have m: "multipolygons_kv ex_ret = kv_df_mp ex_rel_ret"
    "multilinestrings_kv ex_ret = kv_df_ls ex_rel_ret"
    by auto
  from h n p g h2 m show ?thesis by (intro conjI)
qed

text \<open>
  The claim as stated fails on an input without relations: no multipolygon and no
  multilinestring exists, and both tables of the returned list are the data frame without
  columns and rows, not \<^verbatim>\<open>NULL\<close>.
\<close>

theorem null_table_counterexample:
  "filter r_ispoly ([] :: Relation list) = [] \<and>
   get_osm_relations ex_tmp ex_tls [] ex_nodes ex_ways ex_uv =
     Inr \<lparr>polygonList =
            \<lparr>mg_lon = [], mg_lat = [], mg_rowname = [], mg_id = [], mg_rel_id = [],
             mg_type = ''MULTIPOLYGON'', mg_class = [''sfc_MULTIPOLYGON'', ''sfc'']\<rparr>,
          kv_df_mp =
            data_frame \<lparr>df_rownames = [], df_colnames = [], df_cells = [], df_flag = False\<rparr>,
          linestringList =
            \<lparr>mg_lon = [], mg_lat = [], mg_rowname = [], mg_id = [], mg_rel_id = [],
             mg_type = ''MULTILINESTRING'', mg_class = [''sfc_MULTILINESTRING'', ''sfc'']\<rparr>,
          kv_df_ls =
            data_frame \<lparr>df_rownames = [], df_colnames = [], df_cells = [], df_flag = False\<rparr>\<rparr> \<and>
   data_frame \<lparr>df_rownames = [], df_colnames = [], df_cells = [], df_flag = False\<rparr> \<noteq> R_NULL"
  by code_simp

text \<open>
  Claim C2. For the non-polygon relations, in the order of the input,
  \<^verbatim>\<open>get_osm_relations\<close> emits one label, one traced geometry and one attribute row per
  distinct role of the relation's member ways, the roles in ascending order; the geometry of
  a role is what \<^verbatim>\<open>trace_multilinestring\<close> returns for the relation and the role; the label
  is the relation id followed by \<^verbatim>\<open>-(no role)\<close> for the empty role and by \<^verbatim>\<open>-\<close> and the role
  otherwise. A non-polygon relation without members changes neither the result nor a
  failure: it emits nothing and is not an error.
\<close>

theorem one_linestring_per_role:
  "(get_osm_relations tmp tls rels nodes ways uv = Inr ret \<longrightarrow>
      mg_rel_id (linestringList ret) =
        concat (map (\<lambda>r. map (\<lambda>role. if role = '''' then to_string (r_id r) @ ''-(no role)''
                                      else to_string (r_id r) @ ''-'' @ role) (roles_of r))
                  (filter (\<lambda>r. \<not> r_ispoly r) rels)) \<and>
      list_all2 (\<lambda>g x. \<exists>la rn ids. tls (fst x) (snd x) ways nodes = Inr (g, la, rn, ids))
        (mg_lon (linestringList ret))
        (concat (map (\<lambda>r. map (Pair r) (roles_of r)) (filter (\<lambda>r. \<not> r_ispoly r) rels))) \<and>
      length (mg_lon (linestringList ret)) = length (mg_rel_id (linestringList ret)) \<and>
      length (mg_lat (linestringList ret)) = length (mg_rel_id (linestringList ret)) \<and>
      length (mg_rowname (linestringList ret)) = length (mg_rel_id (linestringList ret)) \<and>
      length (mg_id (linestringList ret)) = length (mg_rel_id (linestringList ret)) \<and>
      length (mg_rel_id (linestringList ret)) =
        sum_list (map (\<lambda>r. card (snd ` set (r_ways r))) (filter (\<lambda>r. \<not> r_ispoly r) rels)) \<and>
      (mg_rel_id (linestringList ret) = [] \<longrightarrow> kv_df_ls ret = data_frame empty_data_frame) \<and>
      (\<exists>df. kv_df_ls ret = data_frame df \<and>
         df_rownames df = mg_rel_id (linestringList ret) \<and>
         length (df_cells df) = length (mg_rel_id (linestringList ret)))) \<and>
   set (roles_of r) = snd ` set (r_ways r) \<and> sorted_wrt (<) (roles_of r) \<and>
   (\<not> r_ispoly r0 \<and> r_ways r0 = [] \<longrightarrow>
      get_osm_relations tmp tls (rs1 @ r0 # rs2) nodes ways uv =
      get_osm_relations tmp tls (rs1 @ rs2) nodes ways uv)"
proof (intro conjI impI)
  assume ok: "get_osm_relations tmp tls rels nodes ways uv = Inr ret"
  note ls = get_osm_relations_ls [OF ok]
  show "mg_rel_id (linestringList ret) =
        concat (map (\<lambda>r. map (\<lambda>role. if role = '''' then to_string (r_id r) @ ''-(no role)''
                                      else to_string (r_id r) @ ''-'' @ role) (roles_of r))
                  (filter (\<lambda>r. \<not> r_ispoly r) rels))"
    unfolding ls(1) ls_label_def [abs_def] ..
  show "list_all2 (\<lambda>g x. \<exists>la rn ids. tls (fst x) (snd x) ways nodes = Inr (g, la, rn, ids))
        (mg_lon (linestringList ret))
        (concat (map (\<lambda>r. map (Pair r) (roles_of r)) (filter (\<lambda>r. \<not> r_ispoly r) rels)))"
    by (rule get_osm_relations_traced [OF ok])
  show "length (mg_lon (linestringList ret)) = length (mg_rel_id (linestringList ret))"
    unfolding ls(1) ls(2) by (simp add: length_concat comp_def)
  show "length (mg_lat (linestringList ret)) = length (mg_rel_id (linestringList ret))"
    "length (mg_rowname (linestringList ret)) = length (mg_rel_id (linestringList ret))"
    "length (mg_id (linestringList ret)) = length (mg_rel_id (linestringList ret))"
    by (rule ls)+
  show "length (mg_rel_id (linestringList ret)) =
        sum_list (map (\<lambda>r. card (snd ` set (r_ways r))) (filter (\<lambda>r. \<not> r_ispoly r) rels))"
    unfolding ls(1) by (simp add: length_concat comp_def length_roles_of)
  show "kv_df_ls ret = data_frame empty_data_frame" if "mg_rel_id (linestringList ret) = []"
    using that unfolding ls(6) by simp
  show "\<exists>df. kv_df_ls ret = data_frame df \<and>
         df_rownames df = mg_rel_id (linestringList ret) \<and>
         length (df_cells df) = length (mg_rel_id (linestringList ret))"
    unfolding ls(6) by (auto simp: ls(1) length_concat comp_def empty_data_frame_def)
next
  show "set (roles_of r) = snd ` set (r_ways r)" by (rule set_roles_of)
  show "sorted_wrt (<) (roles_of r)"
    unfolding roles_of_def by (rule strict_sorted_set_elems)
next
  assume "\<not> r_ispoly r0 \<and> r_ways r0 = []"
  then show "get_osm_relations tmp tls (rs1 @ r0 # rs2) nodes ways uv =
      get_osm_relations tmp tls (rs1 @ rs2) nodes ways uv"
    using get_osm_relations_skip by blast
qed

text \<open>
  The example input: relation 21 has three member ways, the first and the third with the
  empty role and the second with the role \<^verbatim>\<open>alt\<close>, and gives two linestrings; relation 22
  has no members.
\<close>

theorem one_linestring_per_role_witness:
  "get_osm_relations ex_tmp ex_tls ex_rels ex_nodes ex_ways ex_uv = Inr ex_rel_ret \<and>
   map snd (r_ways (ex_rels ! 1)) = ['''', ''alt'', ''''] \<and>
   roles_of (ex_rels ! 1) = ['''', ''alt''] \<and>
   mg_rel_id (linestringList ex_rel_ret) = [''21-(no role)'', ''21-alt''] \<and>
   length (mg_lon (linestringList ex_rel_ret)) = 2 \<and>
   sorted_wrt (<) (roles_of (ex_rels ! 1)) \<and>
   \<not> r_ispoly (ex_rels ! 2) \<and> r_ways (ex_rels ! 2) = [] \<and>
   get_osm_relations ex_tmp ex_tls (take 2 ex_rels @ ex_rels ! 2 # []) ex_nodes ex_ways ex_uv =
     get_osm_relations ex_tmp ex_tls (take 2 ex_rels @ []) ex_nodes ex_ways ex_uv"
proof -
  have h: "get_osm_relations ex_tmp ex_tls ex_rels ex_nodes ex_ways ex_uv = Inr ex_rel_ret"
    by code_simp
  have z: "\<not> r_ispoly (ex_rels ! 2) \<and> r_ways (ex_rels ! 2) = []"
    by (simp add: ex_rels_def)
  note t = one_linestring_per_role [where tmp = ex_tmp and tls = ex_tls and rels = ex_rels
      and nodes = ex_nodes and ways = ex_ways and uv = ex_uv and ret = ex_rel_ret
      and r = "ex_rels ! 1" and ?r0.0 = "ex_rels ! 2" and ?rs1.0 = "take 2 ex_rels"
      and ?rs2.0 = "[]"]
  have m: "map snd (r_ways (ex_rels ! 1)) = ['''', ''alt'', '''']" by (simp add: ex_rels_def)
  have r: "roles_of (ex_rels ! 1) = ['''', ''alt'']" by code_simp
  have l: "mg_rel_id (linestringList ex_rel_ret) = [''21-(no role)'', ''21-alt'']"
    by (simp add: ex_rel_ret_def)
  from t h l have n: "length (mg_lon (linestringList ex_rel_ret)) = 2" by simp
  from t have s: "sorted_wrt (<) (roles_of (ex_rels ! 1))" by blast
  from t z have e:
    "get_osm_relations ex_tmp ex_tls (take 2 ex_rels @ ex_rels ! 2 # []) ex_nodes ex_ways ex_uv =
     get_osm_relations ex_tmp ex_tls (take 2 ex_rels @ []) ex_nodes ex_ways ex_uv"
    by blast
  from h m r l n s z e show ?thesis by (intro conjI) simp_all
qed

text \<open>
  Claim C3. In the multilinestring table, the rows of a non-polygon relation, one per
  distinct role, are all the relation's own attribute row: the table is, relation by
  relation, as many copies of the row built from the relation's tags as the relation has
  roles, and every labelled row of the table is the row that \<open>attribute_row\<close> builds for the
  relation the label belongs to.
\<close>

theorem role_rows_copy_relation_row:
  "get_osm_relations tmp tls rels nodes ways uv = Inr ret \<longrightarrow>
     (\<exists>df. kv_df_ls ret = data_frame df \<and>
        (mg_rel_id (linestringList ret) \<noteq> [] \<longrightarrow> df_colnames df = set_elems (k_rel uv)) \<and>
        df_cells df =
          concat (map (\<lambda>r. replicate (length (roles_of r))
                              (map (RBT.lookup (r_key_val r)) (set_elems (k_rel uv))))
                    (filter (\<lambda>r. \<not> r_ispoly r) rels)) \<and>
        (\<forall>label row. (label, row) \<in> set (zip (df_rownames df) (df_cells df)) \<longrightarrow>
           (\<exists>r \<in> set rels. \<exists>role \<in> set (roles_of r). \<not> r_ispoly r \<and>
              label = ls_label r role \<and>
              attribute_row (k_rel uv) (r_key_val r) = Inr row))) \<and>
     (\<forall>r \<in> set rels. \<not> r_ispoly r \<and> r_ways r \<noteq> [] \<longrightarrow>
        (\<exists>row. attribute_row (k_rel uv) (r_key_val r) = Inr row))"
proof (rule impI)
  assume ok: "get_osm_relations tmp tls rels nodes ways uv = Inr ret"
  note ls = get_osm_relations_ls [OF ok]
  note keys = get_osm_relations_Inr(5) [OF ok]
  let ?N = "filter (\<lambda>r. \<not> r_ispoly r) rels"
  define df where "df =
     (if mg_rel_id (linestringList ret) = [] then empty_data_frame
      else \<lparr>df_rownames = mg_rel_id (linestringList ret),
            df_colnames = set_elems (k_rel uv),
            df_cells = concat (map (\<lambda>r. replicate (length (roles_of r)) (rel_row uv r)) ?N),
            df_flag = True\<rparr>)"
  have kv: "kv_df_ls ret = data_frame df" unfolding df_def by (rule ls(6))
  have cols: "mg_rel_id (linestringList ret) \<noteq> [] \<longrightarrow> df_colnames df = set_elems (k_rel uv)"
    by (simp add: df_def)
  have names: "df_rownames df = mg_rel_id (linestringList ret)"
    by (simp add: df_def empty_data_frame_def)
  have "mg_rel_id (linestringList ret) = [] \<Longrightarrow>
      concat (map (\<lambda>r. replicate (length (roles_of r)) (rel_row uv r)) ?N) = []"
    unfolding ls(1) by simp
  then have cells0: "df_cells df =
      concat (map (\<lambda>r. replicate (length (roles_of r)) (rel_row uv r)) ?N)"
    by (simp add: df_def empty_data_frame_def)
  have cells: "df_cells df = concat (map (\<lambda>r. replicate (length (roles_of r))
                              (map (RBT.lookup (r_key_val r)) (set_elems (k_rel uv)))) ?N)"
    unfolding cells0 by (simp add: rel_row_def [abs_def])
  have rows: "\<forall>label row. (label, row) \<in> set (zip (df_rownames df) (df_cells df)) \<longrightarrow>
           (\<exists>r \<in> set rels. \<exists>role \<in> set (roles_of r). \<not> r_ispoly r \<and>
              label = ls_label r role \<and>
              attribute_row (k_rel uv) (r_key_val r) = Inr row)"
  proof (intro allI impI)
    fix label row
    assume "(label, row) \<in> set (zip (df_rownames df) (df_cells df))"
    then have "(label, row) \<in> set (zip (concat (map (\<lambda>r. map (ls_label r) (roles_of r)) ?N))
        (concat (map (\<lambda>r. replicate (length (roles_of r)) (rel_row uv r)) ?N)))"
      unfolding names cells0 ls(1) .
    from in_set_zip_concat_replicate [OF this]
    obtain r role where r: "r \<in> set ?N" "role \<in> set (roles_of r)"
      "label = ls_label r role" "row = rel_row uv r"
      by blast
    from r(1,2) have "r \<in> set rels" "\<not> r_ispoly r" "roles_of r \<noteq> []" by auto
    with keys have "\<forall>k \<in> set (RBT.keys (r_key_val r)). set_member (k_rel uv) k" by blast
    from attribute_row_ok [OF this] r(4)
    have "attribute_row (k_rel uv) (r_key_val r) = Inr row" by (simp add: rel_row_def)
    with r \<open>r \<in> set rels\<close> \<open>\<not> r_ispoly r\<close>
    show "\<exists>r \<in> set rels. \<exists>role \<in> set (roles_of r). \<not> r_ispoly r \<and>
              label = ls_label r role \<and>
              attribute_row (k_rel uv) (r_key_val r) = Inr row"
      by blast
  qed
  have part2: "\<forall>r \<in> set rels. \<not> r_ispoly r \<and> r_ways r \<noteq> [] \<longrightarrow>
        (\<exists>row. attribute_row (k_rel uv) (r_key_val r) = Inr row)"
  proof (intro ballI impI)
    fix r assume "r \<in> set rels" "\<not> r_ispoly r \<and> r_ways r \<noteq> []"
    then have "\<forall>k \<in> set (RBT.keys (r_key_val r)). set_member (k_rel uv) k"
      using keys by (simp add: roles_of_Nil_iff)
    from attribute_row_ok [OF this]
    show "\<exists>row. attribute_row (k_rel uv) (r_key_val r) = Inr row" by blast
  qed
  from kv cols cells rows part2 show "(\<exists>df. kv_df_ls ret = data_frame df \<and>
        (mg_rel_id (linestringList ret) \<noteq> [] \<longrightarrow> df_colnames df = set_elems (k_rel uv)) \<and>
        df_cells df =
          concat (map (\<lambda>r. replicate (length (roles_of r))
                              (map (RBT.lookup (r_key_val r)) (set_elems (k_rel uv))))
                    (filter (\<lambda>r. \<not> r_ispoly r) rels)) \<and>
        (\<forall>label row. (label, row) \<in> set (zip (df_rownames df) (df_cells df)) \<longrightarrow>
           (\<exists>r \<in> set rels. \<exists>role \<in> set (roles_of r). \<not> r_ispoly r \<and>
              label = ls_label r role \<and>
              attribute_row (k_rel uv) (r_key_val r) = Inr row))) \<and>
     (\<forall>r \<in> set rels. \<not> r_ispoly r \<and> r_ways r \<noteq> [] \<longrightarrow>
        (\<exists>row. attribute_row (k_rel uv) (r_key_val r) = Inr row))"
    by blast
qed

text \<open>
  The example input: the two rows of relation 21, for the empty role and for \<^verbatim>\<open>alt\<close>, are
  both the row of its tag \<^verbatim>\<open>type = route\<close>.
\<close>

theorem role_rows_copy_relation_row_witness:
  "get_osm_relations ex_tmp ex_tls ex_rels ex_nodes ex_ways ex_uv = Inr ex_rel_ret \<and>
   kv_df_ls ex_rel_ret =
     data_frame \<lparr>df_rownames = [''21-(no role)'', ''21-alt''], df_colnames = [''type''],
                  df_cells = [[Some ''route''], [Some ''route'']], df_flag = True\<rparr> \<and>
   [[Some ''route''], [Some ''route'']] =
     concat (map (\<lambda>r. replicate (length (roles_of r))
                         (map (RBT.lookup (r_key_val r)) (set_elems (k_rel ex_uv))))
               (filter (\<lambda>r. \<not> r_ispoly r) ex_rels)) \<and>
   ex_rels ! 1 \<in> set ex_rels \<and> \<not> r_ispoly (ex_rels ! 1) \<and> r_ways (ex_rels ! 1) \<noteq> [] \<and>
   attribute_row (k_rel ex_uv) (r_key_val (ex_rels ! 1)) = Inr [Some ''route'']"
proof -
  let ?df = "\<lparr>df_rownames = [''21-(no role)'', ''21-alt''], df_colnames = [''type''],
            df_cells = [[Some ''route''], [Some ''route'']], df_flag = True\<rparr>"
  have h: "get_osm_relations ex_tmp ex_tls ex_rels ex_nodes ex_ways ex_uv = Inr ex_rel_ret"
    by code_simp
  have d: "kv_df_ls ex_rel_ret = data_frame ?df" by (simp add: ex_rel_ret_def)
  note t = role_rows_copy_relation_row [where tmp = ex_tmp and tls = ex_tls and rels = ex_rels
      and nodes = ex_nodes and ways = ex_ways and uv = ex_uv and ret = ex_rel_ret,
      rule_format, OF h]
  from t [THEN conjunct1] obtain df where df: "kv_df_ls ex_rel_ret = data_frame df"
    "df_cells df =
     concat (map (\<lambda>r. replicate (length (roles_of r))
                         (map (RBT.lookup (r_key_val r)) (set_elems (k_rel ex_uv))))
               (filter (\<lambda>r. \<not> r_ispoly r) ex_rels))"
    by blast
  from df(1) d have "df = ?df" by simp
  with df(2) have c: "[[Some ''route''], [Some ''route'']] =
     concat (map (\<lambda>r. replicate (length (roles_of r))
                         (map (RBT.lookup (r_key_val r)) (set_elems (k_rel ex_uv))))
               (filter (\<lambda>r. \<not> r_ispoly r) ex_rels))"
    by simp
  have m: "ex_rels ! 1 \<in> set ex_rels" "\<not> r_ispoly (ex_rels ! 1)" "r_ways (ex_rels ! 1) \<noteq> []"
    by (simp_all add: ex_rels_def)
  have a: "attribute_row (k_rel ex_uv) (r_key_val (ex_rels ! 1)) = Inr [Some ''route'']"
    by code_simp
  from h d c m a show ?thesis by (intro conjI)
qed

text \<open>
  Claim C1. \<^verbatim>\<open>get_osm_relations\<close> checks the accumulated arrays before it builds any
  geometry collection. A result that is returned has aligned arrays at every level, for the
  multipolygons and for the multilinestrings: longitudes against latitudes and against row
  labels per relation, per geometry and per point, and longitudes against ids per relation
  and per geometry. When the loop over the relations ends with arrays that are not aligned,
  the call fails with \<open>StructuralMismatchError\<close> and two different lengths, and a failure of
  \<^verbatim>\<open>get_osm_relations\<close> is the failure of the whole of \<^verbatim>\<open>rcpp_osmdata_sf\<close>.
\<close>

theorem misaligned_arrays_abort:
  "(get_osm_relations tmp tls rels nodes ways uv = Inr ret \<longrightarrow>
      list_all2 (list_all2 (\<lambda>xs ys. length xs = length ys))
        (mg_lon (polygonList ret)) (mg_lat (polygonList ret)) \<and>
      list_all2 (list_all2 (\<lambda>xs ys. length xs = length ys))
        (mg_lon (polygonList ret)) (mg_rowname (polygonList ret)) \<and>
      list_all2 (\<lambda>xs ys. length xs = length ys)
        (mg_lon (polygonList ret)) (mg_id (polygonList ret)) \<and>
      list_all2 (list_all2 (\<lambda>xs ys. length xs = length ys))
        (mg_lon (linestringList ret)) (mg_lat (linestringList ret)) \<and>
      list_all2 (list_all2 (\<lambda>xs ys. length xs = length ys))
        (mg_lon (linestringList ret)) (mg_rowname (linestringList ret)) \<and>
      list_all2 (\<lambda>xs ys. length xs = length ys)
        (mg_lon (linestringList ret)) (mg_id (linestringList ret))) \<and>
   (count_relations rels (0, 0) = (nmp, nls) \<and>
    rels_loop tmp tls ways nodes uv rels
      (init_acc nmp (set_size (k_rel uv)), init_acc nls (set_size (k_rel uv))) = Inr (mp, ls) \<and>
    \<not> (list_all2 (list_all2 (\<lambda>xs ys. length xs = length ys)) (a_lon mp) (a_lat mp) \<and>
       list_all2 (list_all2 (\<lambda>xs ys. length xs = length ys)) (a_lon mp) (a_rowname mp) \<and>
       list_all2 (\<lambda>xs ys. length xs = length ys) (a_lon mp) (a_id mp) \<and>
       list_all2 (list_all2 (\<lambda>xs ys. length xs = length ys)) (a_lon ls) (a_lat ls) \<and>
       list_all2 (list_all2 (\<lambda>xs ys. length xs = length ys)) (a_lon ls) (a_rowname ls) \<and>
       list_all2 (\<lambda>xs ys. length xs = length ys) (a_lon ls) (a_id ls)) \<longrightarrow>
    (\<exists>nm a b. a \<noteq> b \<and>
       get_osm_relations tmp tls rels nodes ways uv = Inl (StructuralMismatchError nm a b))) \<and>
   (get_osm_relations tmp tls rels nodes ways uv = Inl e \<longrightarrow>
      rcpp_osmdata_sf tmp tls twn nodes ways rels uv = Inl e)"
proof (intro conjI impI)
  assume ok: "get_osm_relations tmp tls rels nodes ways uv = Inr ret"
  note r = get_osm_relations_Inr(1,2) [OF ok]
  from r(2) [unfolded checks_None]
  show "list_all2 (list_all2 (\<lambda>xs ys. length xs = length ys))
        (mg_lon (polygonList ret)) (mg_lat (polygonList ret))"
    "list_all2 (list_all2 (\<lambda>xs ys. length xs = length ys))
        (mg_lon (polygonList ret)) (mg_rowname (polygonList ret))"
    "list_all2 (\<lambda>xs ys. length xs = length ys)
        (mg_lon (polygonList ret)) (mg_id (polygonList ret))"
    "list_all2 (list_all2 (\<lambda>xs ys. length xs = length ys))
        (mg_lon (linestringList ret)) (mg_lat (linestringList ret))"
    "list_all2 (list_all2 (\<lambda>xs ys. length xs = length ys))
        (mg_lon (linestringList ret)) (mg_rowname (linestringList ret))"
    "list_all2 (\<lambda>xs ys. length xs = length ys)
        (mg_lon (linestringList ret)) (mg_id (linestringList ret))"
    unfolding r(1) ret_of_fields by blast+
next
  assume a: "count_relations rels (0, 0) = (nmp, nls) \<and>
    rels_loop tmp tls ways nodes uv rels
      (init_acc nmp (set_size (k_rel uv)), init_acc nls (set_size (k_rel uv))) = Inr (mp, ls) \<and>
    \<not> (list_all2 (list_all2 (\<lambda>xs ys. length xs = length ys)) (a_lon mp) (a_lat mp) \<and>
       list_all2 (list_all2 (\<lambda>xs ys. length xs = length ys)) (a_lon mp) (a_rowname mp) \<and>
       list_all2 (\<lambda>xs ys. length xs = length ys) (a_lon mp) (a_id mp) \<and>
       list_all2 (list_all2 (\<lambda>xs ys. length xs = length ys)) (a_lon ls) (a_lat ls) \<and>
       list_all2 (list_all2 (\<lambda>xs ys. length xs = length ys)) (a_lon ls) (a_rowname ls) \<and>
       list_all2 (\<lambda>xs ys. length xs = length ys) (a_lon ls) (a_id ls))"
  then have n: "nmp = length (mp_items tmp ways nodes rels)"
      "nls = length (ls_items tls ways nodes rels)"
    by (simp_all add: count_relations_eq length_ls_items length_mp_items)
  from a have "checks mp ls \<noteq> None" unfolding checks_None by blast
  then obtain e where e: "checks mp ls = Some e" by blast
  from checks_Some [OF e] obtain nm x y where
    m: "e = StructuralMismatchError nm x y" "x \<noteq> y" by blast
  from a e have "get_osm_relations tmp tls rels nodes ways uv = Inl e"
    unfolding get_osm_relations_alt n by simp
  with m show "\<exists>nm a b. a \<noteq> b \<and>
       get_osm_relations tmp tls rels nodes ways uv = Inl (StructuralMismatchError nm a b)"
    by blast
next
  assume "get_osm_relations tmp tls rels nodes ways uv = Inl e"
  then show "rcpp_osmdata_sf tmp tls twn nodes ways rels uv = Inl e"
    by (simp add: rcpp_osmdata_sf_def)
qed

text \<open>
  The example input gives aligned arrays and a result. A multipolygon tracer that returns
  two longitudes and one latitude for a ring leaves misaligned arrays after the loop, and the
  call fails.
\<close>

theorem misaligned_arrays_abort_witness:
  "get_osm_relations ex_tmp ex_tls ex_rels ex_nodes ex_ways ex_uv = Inr ex_rel_ret \<and>
   list_all2 (list_all2 (\<lambda>xs ys. length xs = length ys))
     (mg_lon (polygonList ex_rel_ret)) (mg_lat (polygonList ex_rel_ret)) \<and>
   list_all2 (\<lambda>xs ys. length xs = length ys)
     (mg_lon (linestringList ex_rel_ret)) (mg_id (linestringList ex_rel_ret)) \<and>
   count_relations [ex_rels ! 0] (0, 0) = (1, 0) \<and>
   rels_loop ex_tmp_bad ex_tls ex_ways ex_nodes ex_uv [ex_rels ! 0]
      (init_acc 1 (set_size (k_rel ex_uv)), init_acc 0 (set_size (k_rel ex_uv))) =
     Inr (\<lparr>a_lon = [[[1, 2]]], a_lat = [[[3]]], a_rowname = [[[''1'', ''2'']]],
           a_id = [[''10'']], a_rel_id = [''20''], a_kv_mat = [[Some ''multipolygon'']],
           a_count = 1\<rparr>,
          \<lparr>a_lon = [], a_lat = [], a_rowname = [], a_id = [], a_rel_id = [], a_kv_mat = [],
           a_count = 0\<rparr>) \<and>
   \<not> list_all2 (list_all2 (\<lambda>xs ys. length xs = length ys)) [[[1, 2 :: real]]] [[[3 :: real]]] \<and>
   (\<exists>nm a b. a \<noteq> b \<and>
      get_osm_relations ex_tmp_bad ex_tls [ex_rels ! 0] ex_nodes ex_ways ex_uv =
        Inl (StructuralMismatchError nm a b)) \<and>
   get_osm_relations ex_tmp_bad ex_tls [ex_rels ! 0] ex_nodes ex_ways ex_uv =
     Inl (StructuralMismatchError ''lon/lat'' 2 1) \<and>
   rcpp_osmdata_sf ex_tmp_bad ex_tls ex_twn ex_nodes ex_ways [ex_rels ! 0] ex_uv =
     Inl (StructuralMismatchError ''lon/lat'' 2 1)"
proof -
  let ?mp = "\<lparr>a_lon = [[[1, 2]]], a_lat = [[[3]]], a_rowname = [[[''1'', ''2'']]],
           a_id = [[''10'']], a_rel_id = [''20''], a_kv_mat = [[Some ''multipolygon'']],
           a_count = 1\<rparr> :: string geom_acc"
  let ?ls = "\<lparr>a_lon = [], a_lat = [], a_rowname = [], a_id = [], a_rel_id = [], a_kv_mat = [],
           a_count = 0\<rparr> :: osmid_t geom_acc"
  have h: "get_osm_relations ex_tmp ex_tls ex_rels ex_nodes ex_ways ex_uv = Inr ex_rel_ret"
    by code_simp
  note t1 = misaligned_arrays_abort [where tmp = ex_tmp and tls = ex_tls and rels = ex_rels
      and nodes = ex_nodes and ways = ex_ways and uv = ex_uv and ret = ex_rel_ret,
      THEN conjunct1, rule_format, OF h]
  have c: "count_relations [ex_rels ! 0] (0, 0) = (1, 0)" by code_simp
  have l: "rels_loop ex_tmp_bad ex_tls ex_ways ex_nodes ex_uv [ex_rels ! 0]
      (init_acc 1 (set_size (k_rel ex_uv)), init_acc 0 (set_size (k_rel ex_uv))) = Inr (?mp, ?ls)"
    by code_simp
  have n: "\<not> list_all2 (list_all2 (\<lambda>xs ys. length xs = length ys)) [[[1, 2 :: real]]] [[[3 :: real]]]"
    by simp
  have e: "get_osm_relations ex_tmp_bad ex_tls [ex_rels ! 0] ex_nodes ex_ways ex_uv =
     Inl (StructuralMismatchError ''lon/lat'' 2 1)"
    by code_simp
  have pre: "count_relations [ex_rels ! 0] (0, 0) = (1, 0) \<and>
    rels_loop ex_tmp_bad ex_tls ex_ways ex_nodes ex_uv [ex_rels ! 0]
      (init_acc 1 (set_size (k_rel ex_uv)), init_acc 0 (set_size (k_rel ex_uv))) = Inr (?mp, ?ls) \<and>
    \<not> (list_all2 (list_all2 (\<lambda>xs ys. length xs = length ys)) (a_lon ?mp) (a_lat ?mp) \<and>
       list_all2 (list_all2 (\<lambda>xs ys. length xs = length ys)) (a_lon ?mp) (a_rowname ?mp) \<and>
       list_all2 (\<lambda>xs ys. length xs = length ys) (a_lon ?mp) (a_id ?mp) \<and>
       list_all2 (list_all2 (\<lambda>xs ys. length xs = length ys)) (a_lon ?ls) (a_lat ?ls) \<and>
       list_all2 (list_all2 (\<lambda>xs ys. length xs = length ys)) (a_lon ?ls) (a_rowname ?ls) \<and>
       list_all2 (\<lambda>xs ys. length xs = length ys) (a_lon ?ls) (a_id ?ls))"
    using c l by simp
  note t2 = misaligned_arrays_abort [where tmp = ex_tmp_bad and tls = ex_tls
      and rels = "[ex_rels ! 0]" and nodes = ex_nodes and ways = ex_ways and uv = ex_uv
      and nmp = 1 and nls = 0 and mp = ?mp and ls = ?ls,
      THEN conjunct2, THEN conjunct1, rule_format, OF pre]
  note t3 = misaligned_arrays_abort [where tmp = ex_tmp_bad and tls = ex_tls
      and rels = "[ex_rels ! 0]" and nodes = ex_nodes and ways = ex_ways and uv = ex_uv
      and twn = ex_twn and e = "StructuralMismatchError ''lon/lat'' 2 1",
      THEN conjunct2, THEN conjunct2, rule_format, OF e]
  from h t1 c l n t2 e t3 show ?thesis by (intro conjI) blast+
qed

text \<open>
  Claim C4. With \<^verbatim>\<open>trace_multipolygon\<close> as the specification describes it, every polygon
  relation gives, in the order of the input, one entry of the multipolygon collection whose
  rings are the traces of the relation's member ways, one ring per member and in the order
  of the members, with the member ids as ring ids; and the multipolygon table has exactly
  one row per polygon relation, labelled with the relation id, whatever the number of
  members.
\<close>

theorem one_ring_per_member_one_row_per_relation:
  "get_osm_relations (trace_multipolygon tw) tls rels nodes ways uv = Inr ret \<longrightarrow>
     mg_rel_id (polygonList ret) = map (\<lambda>r. to_string (r_id r)) (filter r_ispoly rels) \<and>
     map length (mg_lon (polygonList ret)) =
       map (\<lambda>r. length (r_ways r)) (filter r_ispoly rels) \<and>
     mg_id (polygonList ret) =
       map (\<lambda>r. map (\<lambda>m. to_string (fst m)) (r_ways r)) (filter r_ispoly rels) \<and>
     list_all2 (\<lambda>rings r.
         list_all2 (\<lambda>ring m. \<exists>la rn. tw ways nodes (fst m) = Inr (ring, la, rn))
           rings (r_ways r))
       (mg_lon (polygonList ret)) (filter r_ispoly rels) \<and>
     (kv_df_mp ret = data_frame empty_data_frame \<longleftrightarrow> filter r_ispoly rels = []) \<and>
     (\<exists>df. kv_df_mp ret = data_frame df \<and>
        df_rownames df = map (\<lambda>r. to_string (r_id r)) (filter r_ispoly rels) \<and>
        length (df_cells df) = length (filter r_ispoly rels))"
proof (rule impI)
  assume ok: "get_osm_relations (trace_multipolygon tw) tls rels nodes ways uv = Inr ret"
  note mp = get_osm_relations_mp [OF ok]
  let ?P = "filter r_ispoly rels"
  have tr: "\<forall>r \<in> set ?P. trace_multipolygon tw r ways nodes =
              Inr (traced_of (trace_multipolygon tw r ways nodes))"
    using get_osm_relations_Inr(3) [OF ok] by (auto simp: traced_of_def)
  have a: "map length (mg_lon (polygonList ret)) = map (\<lambda>r. length (r_ways r)) ?P"
    unfolding mp(2) using tr by (simp add: trace_multipolygon_rings(1))
  have b: "mg_id (polygonList ret) = map (\<lambda>r. map (\<lambda>m. to_string (fst m)) (r_ways r)) ?P"
    unfolding mp(5) using tr by (simp add: trace_multipolygon_rings(2))
  have c: "list_all2 (\<lambda>rings r.
         list_all2 (\<lambda>ring m. \<exists>la rn. tw ways nodes (fst m) = Inr (ring, la, rn))
           rings (r_ways r))
       (mg_lon (polygonList ret)) ?P"
    unfolding mp(2) using tr
    by (simp add: list_all2_map1 list_all2_same trace_multipolygon_rings(3))
  have d: "kv_df_mp ret = data_frame empty_data_frame \<longleftrightarrow> ?P = []"
    unfolding mp(6) by (simp add: empty_data_frame_def)
  have e: "\<exists>df. kv_df_mp ret = data_frame df \<and>
        df_rownames df = map (\<lambda>r. to_string (r_id r)) ?P \<and>
        length (df_cells df) = length ?P"
    unfolding mp(6) by (simp add: empty_data_frame_def)
  from mp(1) a b c d e
  show "mg_rel_id (polygonList ret) = map (\<lambda>r. to_string (r_id r)) (filter r_ispoly rels) \<and>
     map length (mg_lon (polygonList ret)) =
       map (\<lambda>r. length (r_ways r)) (filter r_ispoly rels) \<and>
     mg_id (polygonList ret) =
       map (\<lambda>r. map (\<lambda>m. to_string (fst m)) (r_ways r)) (filter r_ispoly rels) \<and>
     list_all2 (\<lambda>rings r.
         list_all2 (\<lambda>ring m. \<exists>la rn. tw ways nodes (fst m) = Inr (ring, la, rn))
           rings (r_ways r))
       (mg_lon (polygonList ret)) (filter r_ispoly rels) \<and>
     (kv_df_mp ret = data_frame empty_data_frame \<longleftrightarrow> filter r_ispoly rels = []) \<and>
     (\<exists>df. kv_df_mp ret = data_frame df \<and>
        df_rownames df = map (\<lambda>r. to_string (r_id r)) (filter r_ispoly rels) \<and>
        length (df_cells df) = length (filter r_ispoly rels))"
    by (intro conjI)
qed

text \<open>
  A polygon relation with the closed way 10 as its two members gives two rings and one row.
  On the example input, whose polygon relation has the open way 11 as second member, the
  ring is flagged and the call fails.
\<close>

theorem one_ring_per_member_one_row_per_relation_witness:
  "get_osm_relations (trace_multipolygon ex_tw) ex_tls ex_rels_mp ex_nodes ex_ways ex_uv =
     Inr \<lparr>polygonList =
            \<lparr>mg_lon = [[[1, 3, 1], [1, 3, 1]]], mg_lat = [[[2, 4, 2], [2, 4, 2]]],
             mg_rowname = [[[''1'', ''2'', ''1''], [''1'', ''2'', ''1'']]],
             mg_id = [[''10'', ''10'']], mg_rel_id = [''30''], mg_type = ''MULTIPOLYGON'',
             mg_class = [''sfc_MULTIPOLYGON'', ''sfc'']\<rparr>,
          kv_df_mp = data_frame \<lparr>df_rownames = [''30''], df_colnames = [''type''],
                                  df_cells = [[Some ''multipolygon'']], df_flag = False\<rparr>,
          linestringList =
            \<lparr>mg_lon = [], mg_lat = [], mg_rowname = [], mg_id = [], mg_rel_id = [],
             mg_type = ''MULTILINESTRING'', mg_class = [''sfc_MULTILINESTRING'', ''sfc'']\<rparr>,
          kv_df_ls =
            data_frame \<lparr>df_rownames = [], df_colnames = [], df_cells = [], df_flag = False\<rparr>\<rparr> \<and>
   map length [[[1, 3, 1], [1, 3, 1 :: real]]] =
     map (\<lambda>r. length (r_ways r)) (filter r_ispoly ex_rels_mp) \<and>
   map (\<lambda>r. length (r_ways r)) (filter r_ispoly ex_rels_mp) = [2] \<and>
   get_osm_relations (trace_multipolygon ex_tw) ex_tls ex_rels ex_nodes ex_ways ex_uv =
     Inl (UnclosedRingError 11)"
proof -
  let ?ret = "\<lparr>polygonList =
            \<lparr>mg_lon = [[[1, 3, 1], [1, 3, 1]]], mg_lat = [[[2, 4, 2], [2, 4, 2]]],
             mg_rowname = [[[''1'', ''2'', ''1''], [''1'', ''2'', ''1'']]],
             mg_id = [[''10'', ''10'']], mg_rel_id = [''30''], mg_type = ''MULTIPOLYGON'',
             mg_class = [''sfc_MULTIPOLYGON'', ''sfc'']\<rparr>,
          kv_df_mp = data_frame \<lparr>df_rownames = [''30''], df_colnames = [''type''],
                                  df_cells = [[Some ''multipolygon'']], df_flag = False\<rparr>,
          linestringList =
            \<lparr>mg_lon = [], mg_lat = [], mg_rowname = [], mg_id = [], mg_rel_id = [],
             mg_type = ''MULTILINESTRING'', mg_class = [''sfc_MULTILINESTRING'', ''sfc'']\<rparr>,
          kv_df_ls =
            data_frame \<lparr>df_rownames = [], df_colnames = [], df_cells = [], df_flag = False\<rparr>\<rparr>"
  have h: "get_osm_relations (trace_multipolygon ex_tw) ex_tls ex_rels_mp ex_nodes ex_ways ex_uv =
     Inr ?ret"
    by code_simp
  note t = one_ring_per_member_one_row_per_relation [where tw = ex_tw and tls = ex_tls
      and rels = ex_rels_mp and nodes = ex_nodes and ways = ex_ways and uv = ex_uv
      and ret = ?ret, rule_format, OF h]
  have m: "mg_lon (polygonList ?ret) = [[[1, 3, 1], [1, 3, 1]]]" by simp
  note a = t [THEN conjunct2, THEN conjunct1, unfolded m]
  have b: "map (\<lambda>r. length (r_ways r)) (filter r_ispoly ex_rels_mp) = [2]"
    by (simp add: ex_rels_mp_def)
  have c: "get_osm_relations (trace_multipolygon ex_tw) ex_tls ex_rels ex_nodes ex_ways ex_uv =
     Inl (UnclosedRingError 11)"
    by code_simp
  from h a b c show ?thesis by (intro conjI)
qed

end
